(* ===== verification/Prelude.thy ===== *)
theory Prelude
  imports Complex_Main "HOL-Library.Stream"
begin

text \<open>
  Shared vocabulary of the development: the JavaScript built-ins that
  \<^verbatim>\<open>src/portfolio/assets/js/script.js\<close> calls (\<open>String.prototype.trim\<close>,
  \<open>String.prototype.substring\<close>, \<open>Array.prototype.join\<close>, \<open>Math.random\<close>), the
  errors a handler can throw, and the lemmas on them that the component theories
  use. JavaScript strings are modelled as \<open>string\<close> (lists of 8-bit characters);
  the texts of the page are ASCII, and the whitespace class \<open>\s\<close> is restricted to
  the code points below 256.
\<close>

named_theorems js_simps "evaluation rules of the modelled JavaScript built-ins"

subsection \<open>Errors thrown by the page's scripts\<close>

text \<open>
  An exception escaping an event listener is reported by the browser and ends that
  listener; the model returns it as the left value of a sum. A \<open>DOMException\<close> carries
  its name and message.
\<close>

datatype js_error =
    TypeError string
  | ReferenceError string
  | DOMException string string

type_synonym 'a js_result = "js_error + 'a"

subsection \<open>\<open>Math.random\<close>\<close>

text \<open>
  The sequence of values that successive calls of \<open>Math.random()\<close> return is a
  stream of reals; a well-behaved generator draws from \<open>[0, 1)\<close>.
\<close>

type_synonym js_random = "real stream"

definition random_ok :: "js_random \<Rightarrow> bool" where
  "random_ok r \<longleftrightarrow> (\<forall>n. 0 \<le> r !! n \<and> r !! n < 1)"

lemma random_ok_sdrop [intro]: "random_ok r \<Longrightarrow> random_ok (sdrop k r)"
  by (simp add: random_ok_def sdrop_snth)

lemma random_okD [dest]: "random_ok r \<Longrightarrow> 0 \<le> r !! n \<and> r !! n < 1"
  by (simp add: random_ok_def)

lemma random_ok_cycle:
  "u \<noteq> [] \<Longrightarrow> (\<forall>x \<in> set u. 0 \<le> x \<and> x < 1) \<Longrightarrow> random_ok (cycle u)"
  unfolding random_ok_def by (metis snth_sset sset_cycle)

lemma random_ok_sconst [simp]: "random_ok (sconst c) \<longleftrightarrow> 0 \<le> c \<and> c < 1"
  by (simp add: random_ok_def)

subsection \<open>Whitespace and \<open>String.prototype.trim\<close>\<close>

text \<open>
  ECMAScript WhiteSpace and LineTerminator code points below 256: tab, line feed,
  vertical tab, form feed, carriage return, space and no-break space. The regular
  expression class \<open>\s\<close> and \<open>trim\<close> use the same set.
\<close>

definition js_is_space :: "char \<Rightarrow> bool" where
  "js_is_space c \<longleftrightarrow> of_char c \<in> {9, 10, 11, 12, 13, 32, 160 :: nat}"

definition js_trim :: "string \<Rightarrow> string" where
  "js_trim s = rev (dropWhile js_is_space (rev (dropWhile js_is_space s)))"

lemma js_trim_Nil_iff [js_simps]: "js_trim s = [] \<longleftrightarrow> (\<forall>c \<in> set s. js_is_space c)"
proof -
  have "js_trim s = [] \<longleftrightarrow> dropWhile js_is_space (rev (dropWhile js_is_space s)) = []"
    by (simp add: js_trim_def)
  also have "\<dots> \<longleftrightarrow> (\<forall>c \<in> set (dropWhile js_is_space s). js_is_space c)"
    by simp
  also have "\<dots> \<longleftrightarrow> (\<forall>c \<in> set s. js_is_space c)"
    by (induction s) auto
  finally show ?thesis .
qed

subsection \<open>\<open>String.prototype.substring\<close>\<close>

text \<open>
  \<open>s.substring(a, b)\<close> clamps both arguments into \<open>[0, s.length]\<close> and swaps them
  when \<open>a > b\<close>; a negative end gives the empty string instead of an error.
\<close>

definition js_clamp :: "int \<Rightarrow> nat \<Rightarrow> nat" where
  "js_clamp i n = nat (min (max i 0) (int n))"

definition js_substring :: "string \<Rightarrow> int \<Rightarrow> int \<Rightarrow> string" where
  "js_substring s a b =
     (let n = length s; a' = js_clamp a n; b' = js_clamp b n
      in take (max a' b' - min a' b') (drop (min a' b') s))"

lemma js_substring_prefix [js_simps]: "js_substring s 0 k = take (nat k) s"
proof (cases "int (length s) \<le> k")
  case True
  then show ?thesis by (simp add: js_substring_def js_clamp_def)
next
  case False
  then show ?thesis by (simp add: js_substring_def js_clamp_def min_def max_def)
qed

subsection \<open>\<open>Array.prototype.join\<close>\<close>

fun js_join :: "string \<Rightarrow> string list \<Rightarrow> string" where
  "js_join sep [] = []"
| "js_join sep [x] = x"
| "js_join sep (x # y # zs) = x @ sep @ js_join sep (y # zs)"

subsection \<open>Lists updated by index\<close>

text \<open>
  An index assignment \<open>xs[j := x]\<close> out of range leaves the list unchanged, as
  assigning to a missing element of a fixed DOM list does; read back within range:
\<close>

lemma nth_list_update_if:
  "i < length xs \<Longrightarrow> xs[j := x] ! i = (if i = j then x else xs ! i)"
  by (cases "j < length xs") (auto simp: nth_list_update list_update_beyond)

end
