(* ===== verification/Particles.thy ===== *)
theory Particles
  imports Prelude
begin

text \<open>
  The particle background of the hero section, \<open>initParticleBackground\<close> in
  \<^verbatim>\<open>src/portfolio/assets/js/script.js\<close> (lines 484--579). Its state is the canvas
  size and the particle array (record \<open>particle_bg\<close>); its operations are the inner
  functions \<open>resizeCanvas\<close>, \<open>createParticle\<close>, \<open>initParticles\<close>,
  \<open>updateParticles\<close>, \<open>drawParticles\<close> and \<open>animate\<close>, and the two callbacks the
  page delivers are an animation frame and a window resize (\<open>bg_step\<close>). JavaScript
  doubles are modelled as \<open>real\<close>: the claims are about the arithmetic the code
  writes, not about rounding.
\<close>

subsection \<open>State\<close>

record particle =
  px :: real
  py :: real
  pvx :: real
  pvy :: real
  psize :: real

record particle_bg =
  canvas_width :: nat
  canvas_height :: nat
  canvas_style :: "(string \<times> string) list"
  particles :: "particle list"

definition particleCount :: nat where
  "particleCount = 50"

text \<open>A fresh \<open>canvas\<close> element is 300 by 150 pixels and has no style set.\<close>

definition new_canvas :: particle_bg where
  "new_canvas = \<lparr>canvas_width = 300, canvas_height = 150, canvas_style = [], particles = []\<rparr>"

text \<open>Lines 489--495: the inline style of the overlay, in assignment order.\<close>

definition particle_canvas_style :: "(string \<times> string) list" where
  "particle_canvas_style =
     [(''position'', ''absolute''), (''top'', ''0''), (''left'', ''0''),
      (''width'', ''100%''), (''height'', ''100%''), (''pointerEvents'', ''none''),
      (''opacity'', ''0.3'')]"

subsection \<open>Operations\<close>

definition resizeCanvas :: "nat \<Rightarrow> nat \<Rightarrow> particle_bg \<Rightarrow> particle_bg" where
  "resizeCanvas offsetWidth offsetHeight bg =
     bg\<lparr>canvas_width := offsetWidth, canvas_height := offsetHeight\<rparr>"

text \<open>
  The object literal evaluates its properties in order, so \<open>createParticle\<close> draws
  five random numbers: for \<open>x\<close>, \<open>y\<close>, \<open>vx\<close>, \<open>vy\<close> and \<open>size\<close>.
\<close>

definition createParticle :: "particle_bg \<Rightarrow> js_random \<Rightarrow> particle \<times> js_random" where
  "createParticle bg r =
     (\<lparr>px = r !! 0 * real (canvas_width bg),
       py = r !! 1 * real (canvas_height bg),
       pvx = (r !! 2 - 0.5) * 0.5,
       pvy = (r !! 3 - 0.5) * 0.5,
       psize = r !! 4 * 2 + 1\<rparr>, sdrop 5 r)"

text \<open>The \<open>for\<close> loop of \<open>initParticles\<close>, with \<open>n\<close> iterations left.\<close>

fun push_particles :: "nat \<Rightarrow> particle_bg \<Rightarrow> js_random \<Rightarrow> particle_bg \<times> js_random" where
  "push_particles 0 bg r = (bg, r)"
| "push_particles (Suc n) bg r =
     (let (p, r') = createParticle bg r
      in push_particles n (bg\<lparr>particles := particles bg @ [p]\<rparr>) r')"

definition initParticles :: "particle_bg \<Rightarrow> js_random \<Rightarrow> particle_bg \<times> js_random" where
  "initParticles bg r = push_particles particleCount (bg\<lparr>particles := []\<rparr>) r"

text \<open>
  One particle of \<open>updateParticles\<close>: move by the velocity, then negate a velocity
  component whose new coordinate lies outside \<open>[0, width]\<close> (resp. height).
\<close>

definition updateParticle :: "particle_bg \<Rightarrow> particle \<Rightarrow> particle" where
  "updateParticle bg p =
     (let x = px p + pvx p; y = py p + pvy p;
          vx = (if x < 0 \<or> x > real (canvas_width bg) then pvx p * -1 else pvx p);
          vy = (if y < 0 \<or> y > real (canvas_height bg) then pvy p * -1 else pvy p)
      in p\<lparr>px := x, py := y, pvx := vx, pvy := vy\<rparr>)"

definition updateParticles :: "particle_bg \<Rightarrow> particle_bg" where
  "updateParticles bg = bg\<lparr>particles := map (updateParticle bg) (particles bg)\<rparr>"

text \<open>
  What \<open>drawParticles\<close> paints, as a display list of canvas calls: a
  \<open>clearRect\<close>, one filled arc per particle, and one stroked line per close pair
  with its \<open>rgba\<close> alpha and its \<open>lineWidth\<close>.
\<close>

datatype draw_op =
    ClearRect real real real real
  | FillArc real real real string
  | StrokeLine real real real real real real

definition connection :: "particle \<Rightarrow> particle \<Rightarrow> draw_op list" where
  "connection p q =
     (let dx = px p - px q; dy = py p - py q; distance = sqrt (dx * dx + dy * dy)
      in if distance < 100
         then [StrokeLine (px p) (py p) (px q) (py q) (1 - distance / 100) 0.5]
         else [])"

text \<open>\<open>particles.forEach((particle, i) => particles.slice(i + 1).forEach(...))\<close>.\<close>

fun drawConnections :: "particle list \<Rightarrow> draw_op list" where
  "drawConnections [] = []"
| "drawConnections (p # ps) = concat (map (connection p) ps) @ drawConnections ps"

definition drawParticles :: "particle_bg \<Rightarrow> draw_op list" where
  "drawParticles bg =
     ClearRect 0 0 (real (canvas_width bg)) (real (canvas_height bg))
     # map (\<lambda>p. FillArc (px p) (py p) (psize p) ''#00d4ff'') (particles bg)
     @ drawConnections (particles bg)"

text \<open>
  \<open>animate\<close> updates, draws and requests the next frame; the request is what
  makes the page deliver the next \<open>AnimationFrame\<close> event below.
\<close>

definition animate :: "particle_bg \<Rightarrow> particle_bg \<times> draw_op list" where
  "animate bg = (let bg' = updateParticles bg in (bg', drawParticles bg'))"

text \<open>
  \<open>initParticleBackground\<close>: the hero section is given by its offset size, or
  \<open>None\<close> when \<open>document.querySelector('.hero')\<close> returns \<open>null\<close>, in which case
  \<open>hero.appendChild(canvas)\<close> throws.
\<close>

definition initParticleBackground ::
  "(nat \<times> nat) option \<Rightarrow> js_random \<Rightarrow> (particle_bg \<times> js_random \<times> draw_op list) js_result" where
  "initParticleBackground hero r =
     (case hero of
        None \<Rightarrow> Inl (TypeError ''Cannot read properties of null (reading 'appendChild')'')
      | Some (w, h) \<Rightarrow>
          (let bg0 = new_canvas\<lparr>canvas_style := particle_canvas_style\<rparr>;
               (bg1, r1) = initParticles (resizeCanvas w h bg0) r;
               (bg2, ops) = animate bg1
           in Inr (bg2, r1, ops)))"

subsection \<open>The page's callbacks\<close>

datatype bg_event =
    AnimationFrame
  | WindowResize nat nat

fun bg_step :: "particle_bg \<times> js_random \<Rightarrow> bg_event \<Rightarrow> particle_bg \<times> js_random" where
  "bg_step (bg, r) AnimationFrame = (fst (animate bg), r)"
| "bg_step (bg, r) (WindowResize w h) = initParticles (resizeCanvas w h bg) r"

fun bg_run :: "particle_bg \<times> js_random \<Rightarrow> bg_event list \<Rightarrow> particle_bg \<times> js_random" where
  "bg_run s [] = s"
| "bg_run s (e # es) = bg_run (bg_step s e) es"

subsection \<open>Invariant and observations\<close>

text \<open>
  Reflection keeps a coordinate within one velocity step of its range: it may leave
  \<open>[0, w]\<close> by less than \<open>|v|\<close>, and then its velocity already points back.
\<close>

definition axis_ok :: "real \<Rightarrow> real \<Rightarrow> real \<Rightarrow> bool" where
  "axis_ok w x v \<longleftrightarrow>
     - \<bar>v\<bar> \<le> x \<and> x \<le> w + \<bar>v\<bar> \<and> (x < 0 \<longrightarrow> 0 < v) \<and> (w < x \<longrightarrow> v < 0)"

definition particle_ok :: "nat \<Rightarrow> nat \<Rightarrow> particle \<Rightarrow> bool" where
  "particle_ok w h p \<longleftrightarrow>
     axis_ok (real w) (px p) (pvx p) \<and> axis_ok (real h) (py p) (pvy p)
     \<and> \<bar>pvx p\<bar> \<le> 1/4 \<and> \<bar>pvy p\<bar> \<le> 1/4"

definition bg_inv :: "particle_bg \<Rightarrow> bool" where
  "bg_inv bg \<longleftrightarrow>
     length (particles bg) = particleCount
     \<and> (\<forall>p \<in> set (particles bg). particle_ok (canvas_width bg) (canvas_height bg) p)"

definition particle_dist :: "particle \<Rightarrow> particle \<Rightarrow> real" where
  "particle_dist p q = sqrt ((px p - px q) * (px p - px q) + (py p - py q) * (py p - py q))"

text \<open>The pairs \<open>(i, j)\<close> with \<open>i < j\<close> that the nested \<open>forEach\<close> visits.\<close>

fun ordered_pairs :: "'a list \<Rightarrow> ('a \<times> 'a) list" where
  "ordered_pairs [] = []"
| "ordered_pairs (x # xs) = map (Pair x) xs @ ordered_pairs xs"

text \<open>A generator whose first particle starts close to the right edge, moving right.\<close>

definition edge_random :: js_random where
  "edge_random = cycle [999/1000, 1/2, 9/10, 1/2, 1/2]"

subsection \<open>Reflection\<close>

lemma axis_ok_move:
  assumes "0 \<le> w" "axis_ok w x v"
  shows "axis_ok w (x + v) (if x + v < 0 \<or> x + v > w then v * -1 else v)"
  using assms unfolding axis_ok_def by (auto simp: abs_if)

lemma axis_ok_fresh: "0 \<le> x \<Longrightarrow> x \<le> w \<Longrightarrow> axis_ok w x v"
  by (auto simp: axis_ok_def)

lemma updateParticle_ok:
  "particle_ok (canvas_width bg) (canvas_height bg) p \<Longrightarrow>
   particle_ok (canvas_width bg) (canvas_height bg) (updateParticle bg p)"
  unfolding particle_ok_def updateParticle_def Let_def
  by (simp add: axis_ok_move)

lemma particle_ok_bounds:
  "particle_ok w h p \<Longrightarrow>
   -1/4 \<le> px p \<and> px p \<le> real w + 1/4 \<and> -1/4 \<le> py p \<and> py p \<le> real h + 1/4"
  unfolding particle_ok_def axis_ok_def by linarith

subsection \<open>Creation\<close>

lemma random_scaled: "0 \<le> c \<Longrightarrow> c < 1 \<Longrightarrow> 0 \<le> c * real n \<and> c * real n \<le> real n"
  by (simp add: mult_left_le_one_le)

lemma random_scaled_less: "0 \<le> c \<Longrightarrow> c < 1 \<Longrightarrow> 0 < n \<Longrightarrow> c * real n < real n"
  by simp

lemma createParticle_particles [simp]:
  "createParticle (bg\<lparr>particles := ps\<rparr>) r = createParticle bg r"
  by (simp add: createParticle_def)

lemma createParticle_ok:
  assumes "random_ok r"
  shows "particle_ok (canvas_width bg) (canvas_height bg) (fst (createParticle bg r))"
proof -
  from assms have r: "\<And>n. 0 \<le> r !! n \<and> r !! n < 1" by blast
  show ?thesis
    unfolding particle_ok_def createParticle_def
    using r[of 0] r[of 1] r[of 2] r[of 3]
    by (auto intro!: axis_ok_fresh simp: random_scaled abs_if)
qed

lemma createParticle_inside:
  assumes "random_ok r" "0 < canvas_width bg" "0 < canvas_height bg"
  shows "0 \<le> px (fst (createParticle bg r)) \<and> px (fst (createParticle bg r)) < real (canvas_width bg)
    \<and> 0 \<le> py (fst (createParticle bg r)) \<and> py (fst (createParticle bg r)) < real (canvas_height bg)"
proof -
  from assms(1) have r: "\<And>n. 0 \<le> r !! n \<and> r !! n < 1" by blast
  show ?thesis
    unfolding createParticle_def using r[of 0] r[of 1] assms(2,3)
    by simp
qed

lemma createParticle_random: "random_ok r \<Longrightarrow> random_ok (snd (createParticle bg r))"
  by (auto simp: createParticle_def)

subsection \<open>The creation loop\<close>

lemma push_particles_frame:
  "push_particles n bg r = (bg', r') \<Longrightarrow>
   canvas_width bg' = canvas_width bg \<and> canvas_height bg' = canvas_height bg
   \<and> canvas_style bg' = canvas_style bg \<and> r' = sdrop (5 * n) r"
proof (induction n arbitrary: bg r)
  case 0
  then show ?case by simp
next
  case (Suc n)
  then show ?case by (fastforce simp: createParticle_def)
qed

text \<open>Whatever every fresh particle satisfies, every particle of the loop's result does.\<close>

lemma push_particles_all:
  assumes "random_ok r" "\<forall>p \<in> set (particles bg). P p"
    and "\<And>r'. random_ok r' \<Longrightarrow> P (fst (createParticle bg r'))"
    and "push_particles n bg r = (bg', r')"
  shows "length (particles bg') = length (particles bg) + n \<and> (\<forall>p \<in> set (particles bg'). P p)"
  using assms
proof (induction n arbitrary: bg r)
  case 0
  then show ?case by simp
next
  case (Suc n)
  obtain p r1 where c: "createParticle bg r = (p, r1)" by fastforce
  have p: "P p" using Suc.prems(3) [OF Suc.prems(1)] c by simp
  have r1: "random_ok r1" using createParticle_random [OF Suc.prems(1), of bg] c by simp
  have "push_particles n (bg\<lparr>particles := particles bg @ [p]\<rparr>) r1 = (bg', r')"
    using Suc.prems(4) c by simp
  from Suc.IH [OF r1 _ _ this] Suc.prems(2,3) p show ?case by simp
qed

lemma push_particles_indep:
  "canvas_width b1 = canvas_width b2 \<Longrightarrow> canvas_height b1 = canvas_height b2 \<Longrightarrow>
   particles b1 = particles b2 \<Longrightarrow>
   particles (fst (push_particles n b1 r)) = particles (fst (push_particles n b2 r))"
proof (induction n arbitrary: b1 b2 r)
  case 0
  then show ?case by simp
next
  case (Suc n)
  have "createParticle b1 r = createParticle b2 r"
    using Suc.prems by (simp add: createParticle_def)
  with Suc show ?case by (simp split: prod.split)
qed

lemma push_particles_same:
  "createParticle bg' r = (p, r) \<Longrightarrow>
   (\<And>b. canvas_width b = canvas_width bg' \<Longrightarrow> canvas_height b = canvas_height bg' \<Longrightarrow>
      createParticle b r = (p, r)) \<Longrightarrow>
   canvas_width bg = canvas_width bg' \<Longrightarrow> canvas_height bg = canvas_height bg' \<Longrightarrow>
   push_particles n bg r = (bg\<lparr>particles := particles bg @ replicate n p\<rparr>, r)"
proof (induction n arbitrary: bg)
  case 0
  then show ?case by simp
next
  case (Suc n)
  then show ?case by (simp add: replicate_append_same)
qed

lemma initParticles_inv:
  assumes "random_ok r" "initParticles bg r = (bg', r')"
  shows "bg_inv bg' \<and> random_ok r' \<and> canvas_width bg' = canvas_width bg
    \<and> canvas_height bg' = canvas_height bg \<and> canvas_style bg' = canvas_style bg"
proof -
  have run: "push_particles particleCount (bg\<lparr>particles := []\<rparr>) r = (bg', r')"
    using assms(2) by (simp add: initParticles_def)
  have "\<And>r'. random_ok r' \<Longrightarrow>
     particle_ok (canvas_width bg) (canvas_height bg) (fst (createParticle (bg\<lparr>particles := []\<rparr>) r'))"
    by (simp add: createParticle_ok)
  from push_particles_all [where P = "particle_ok (canvas_width bg) (canvas_height bg)",
      OF assms(1) _ this run] push_particles_frame [OF run] assms(1)
  show ?thesis by (auto simp: bg_inv_def)
qed

subsection \<open>Frames and runs\<close>

lemma updateParticles_inv: "bg_inv bg \<Longrightarrow> bg_inv (updateParticles bg)"
  by (auto simp: bg_inv_def updateParticles_def updateParticle_ok)

lemma animate_inv: "bg_inv bg \<Longrightarrow> bg_inv (fst (animate bg))"
  by (simp add: animate_def Let_def updateParticles_inv)

lemma animate_canvas:
  "canvas_width (fst (animate bg)) = canvas_width bg \<and> canvas_height (fst (animate bg)) = canvas_height bg"
  by (simp add: animate_def updateParticles_def Let_def)

lemma bg_step_inv:
  "bg_inv bg \<Longrightarrow> random_ok r \<Longrightarrow> bg_step (bg, r) e = (bg', r') \<Longrightarrow> bg_inv bg' \<and> random_ok r'"
  by (cases e) (auto simp: animate_inv dest: initParticles_inv)

lemma bg_run_inv:
  "bg_inv bg \<Longrightarrow> random_ok r \<Longrightarrow> bg_run (bg, r) es = (bg', r') \<Longrightarrow> bg_inv bg' \<and> random_ok r'"
proof (induction es arbitrary: bg r)
  case Nil
  then show ?case by simp
next
  case (Cons e es)
  obtain bg1 r1 where s: "bg_step (bg, r) e = (bg1, r1)" by fastforce
  with Cons.prems have "bg_inv bg1 \<and> random_ok r1" by (blast dest: bg_step_inv)
  moreover have "bg_run (bg1, r1) es = (bg', r')" using Cons.prems(3) s by simp
  ultimately show ?case using Cons.IH by blast
qed

lemma initParticleBackground_inv:
  assumes "random_ok r" "initParticleBackground (Some (w, h)) r = Inr (bg, r', ops)"
  shows "bg_inv bg \<and> random_ok r' \<and> canvas_width bg = w \<and> canvas_height bg = h"
proof -
  obtain bg1 r1 where
    i: "initParticles (resizeCanvas w h (new_canvas\<lparr>canvas_style := particle_canvas_style\<rparr>)) r = (bg1, r1)"
    by fastforce
  with assms(2) have "bg = fst (animate bg1)" "r' = r1"
    by (auto simp: initParticleBackground_def split: prod.splits)
  with initParticles_inv [OF assms(1) i] show ?thesis
    by (simp add: animate_inv animate_canvas resizeCanvas_def)
qed

lemma initParticleBackground_Some:
  "\<exists>bg r' ops. initParticleBackground (Some (w, h)) r = Inr (bg, r', ops)"
  by (simp add: initParticleBackground_def split: prod.split)

subsection \<open>Drawing\<close>

lemma particle_dist_nonneg [simp]: "0 \<le> particle_dist p q"
  by (simp add: particle_dist_def)

lemma connection_eq:
  "connection p q =
     (if particle_dist p q < 100
      then [StrokeLine (px p) (py p) (px q) (py q) (1 - particle_dist p q / 100) 0.5] else [])"
  by (simp add: connection_def particle_dist_def Let_def)

lemma length_connection: "length (connection p q) = (if particle_dist p q < 100 then 1 else 0)"
  by (simp add: connection_eq)

lemma length_ordered_pairs: "length (ordered_pairs xs) = length xs * (length xs - 1) div 2"
proof (induction xs)
  case Nil
  then show ?case by simp
next
  case (Cons x xs)
  then show ?case by (cases "length xs") (auto simp: algebra_simps)
qed

lemma random_ok_edge: "random_ok edge_random"
  unfolding edge_random_def by (rule random_ok_cycle) simp_all

lemma createParticle_edge:
  "createParticle bg edge_random =
     (\<lparr>px = 999/1000 * real (canvas_width bg), py = 1/2 * real (canvas_height bg),
       pvx = 1/5, pvy = 0, psize = 2\<rparr>, edge_random)"
proof -
  have "sdrop 5 edge_random = edge_random"
    using sdrop_cycle_eq [of "[999/1000, 1/2, 9/10, 1/2, 1/2::real]"] by (simp add: edge_random_def)
  then show ?thesis by (simp add: createParticle_def edge_random_def numeral_eq_Suc)
qed

lemma drawConnections_count:
  "length (drawConnections ps) =
     length (filter (\<lambda>(p, q). particle_dist p q < 100) (ordered_pairs ps))"
proof (induction ps)
  case Nil
  then show ?case by simp
next
  case (Cons p ps)
  have "length (concat (map (connection p) ps)) = length (filter (\<lambda>q. particle_dist p q < 100) ps)"
    by (induction ps) (simp_all add: length_connection)
  with Cons show ?case by (simp add: filter_map comp_def)
qed

lemma bg_step_resize_run:
  assumes "bg_step (bg, r) (WindowResize w h) = (bg', r')"
  shows "push_particles particleCount ((resizeCanvas w h bg)\<lparr>particles := []\<rparr>) r = (bg', r')"
  using assms by (simp add: initParticles_def)

lemma createParticle_resized_inside:
  assumes "random_ok r'" "0 < w" "0 < h"
  shows "0 \<le> px (fst (createParticle (resizeCanvas w h bg) r')) \<and> px (fst (createParticle (resizeCanvas w h bg) r')) < real w
      \<and> 0 \<le> py (fst (createParticle (resizeCanvas w h bg) r')) \<and> py (fst (createParticle (resizeCanvas w h bg) r')) < real h"
proof -
    have "0 < canvas_width (resizeCanvas w h bg)" "0 < canvas_height (resizeCanvas w h bg)"
      using assms(2,3) by (simp_all add: resizeCanvas_def)
    from createParticle_inside [OF assms(1) this] show ?thesis by (simp add: resizeCanvas_def)
qed

lemma push_resized_inside:
  assumes "random_ok r" "0 < w" "0 < h" "push_particles particleCount ((resizeCanvas w h bg)\<lparr>particles := []\<rparr>) r = (bg', r')"
  shows "length (particles bg') = 50
      \<and> (\<forall>p \<in> set (particles bg'). 0 \<le> px p \<and> px p < real w \<and> 0 \<le> py p \<and> py p < real h)"
proof -
  have "length (particles bg') = length (particles ((resizeCanvas w h bg)\<lparr>particles := []\<rparr>)) + particleCount
      \<and> (\<forall>p \<in> set (particles bg'). 0 \<le> px p \<and> px p < real w \<and> 0 \<le> py p \<and> py p < real h)"
    by (rule push_particles_all [where P = "\<lambda>p. 0 \<le> px p \<and> px p < real w \<and> 0 \<le> py p \<and> py p < real h",
        OF assms(1) _ _ assms(4)]) (simp_all add: createParticle_resized_inside assms(2,3))
  then show ?thesis by (simp add: particleCount_def)
qed

subsection \<open>Properties\<close>

text \<open>
  C1. The particle invariant of the animation: from the initialisation of the hero's
  background, with a random generator in \<open>[0, 1)\<close>, after any interleaving of
  animation frames and window resizes there are exactly 50 particles, and every one
  lies within a quarter pixel (the largest speed) of the current canvas
  \<open>[0, width] \<times> [0, height]\<close>: reflection keeps them in, but only up to one step.
\<close>

theorem particles_stay_near_canvas:
  assumes "random_ok r"
    and "initParticleBackground (Some (w, h)) r = Inr (bg, r', ops)"
    and "bg_run (bg, r') es = (bg'', r'')"
  shows "length (particles bg'') = 50
    \<and> (\<forall>p \<in> set (particles bg'').
          -1/4 \<le> px p \<and> px p \<le> real (canvas_width bg'') + 1/4
          \<and> -1/4 \<le> py p \<and> py p \<le> real (canvas_height bg'') + 1/4)"
proof -
  from initParticleBackground_inv [OF assms(1,2)] have "bg_inv bg" "random_ok r'" by simp_all
  from bg_run_inv [OF this assms(3)] have "bg_inv bg''" by simp
  then have "length (particles bg'') = 50"
    and "\<And>p. p \<in> set (particles bg'') \<Longrightarrow> particle_ok (canvas_width bg'') (canvas_height bg'') p"
    by (simp_all add: bg_inv_def particleCount_def)
  then show ?thesis using particle_ok_bounds by blast
qed

theorem particles_stay_near_canvas_witness:
  "\<exists>bg r' ops. initParticleBackground (Some (100, 100)) (sconst (1/2)) = Inr (bg, r', ops)
     \<and> length (particles (fst (bg_run (bg, r') [AnimationFrame, WindowResize 200 50]))) = 50"
proof -
  obtain bg r' ops where i: "initParticleBackground (Some (100, 100)) (sconst (1/2)) = Inr (bg, r', ops)"
    using initParticleBackground_Some by blast
  have r: "random_ok (sconst (1/2))" by simp
  have "bg_run (bg, r') [AnimationFrame, WindowResize 200 50]
        = (fst (bg_run (bg, r') [AnimationFrame, WindowResize 200 50]),
           snd (bg_run (bg, r') [AnimationFrame, WindowResize 200 50]))"
    by simp
  from particles_stay_near_canvas [OF r i this] i show ?thesis by blast
qed

text \<open>
  C2. A frame only flips the sign of a velocity component: the speed on each axis and
  the radius of every particle are unchanged, and no particle is added or lost.
\<close>

theorem update_keeps_speed:
  "\<bar>pvx (updateParticle bg p)\<bar> = \<bar>pvx p\<bar> \<and> \<bar>pvy (updateParticle bg p)\<bar> = \<bar>pvy p\<bar>
   \<and> psize (updateParticle bg p) = psize p
   \<and> length (particles (updateParticles bg)) = length (particles bg)"
  by (simp add: updateParticle_def updateParticles_def Let_def)

text \<open>
  C3. The bound \<open>0 \<le> x < width\<close> stated for the particles does not hold: with a
  generator whose draws put every particle at \<open>x = 99.9\<close> moving right at \<open>0.2\<close> on a
  100 by 100 hero, the first frame, run by the initialisation itself, leaves every
  particle at \<open>x = 100.1\<close>, outside the canvas, with its velocity reversed.
\<close>

theorem first_frame_leaves_canvas:
  "random_ok edge_random \<and>
   initParticleBackground (Some (100, 100)) edge_random =
     Inr (\<lparr>canvas_width = 100, canvas_height = 100, canvas_style = particle_canvas_style,
           particles = replicate 50 \<lparr>px = 1001/10, py = 50, pvx = -1/5, pvy = 0, psize = 2\<rparr>\<rparr>,
          edge_random, drawParticles
            \<lparr>canvas_width = 100, canvas_height = 100, canvas_style = particle_canvas_style,
             particles = replicate 50 \<lparr>px = 1001/10, py = 50, pvx = -1/5, pvy = 0, psize = 2\<rparr>\<rparr>)"
proof -
  let ?bg0 = "resizeCanvas 100 100 (new_canvas\<lparr>canvas_style := particle_canvas_style\<rparr>)"
  let ?p = "\<lparr>px = 999/10, py = 50, pvx = 1/5, pvy = 0, psize = 2\<rparr> :: particle"
  have c: "\<And>b. canvas_width b = 100 \<Longrightarrow> canvas_height b = 100 \<Longrightarrow>
      createParticle b edge_random = (?p, edge_random)"
    by (simp add: createParticle_edge)
  have "push_particles 50 (?bg0\<lparr>particles := []\<rparr>) edge_random
        = ((?bg0\<lparr>particles := []\<rparr>)\<lparr>particles := particles (?bg0\<lparr>particles := []\<rparr>) @ replicate 50 ?p\<rparr>,
           edge_random)"
    by (rule push_particles_same [where bg' = ?bg0]) (simp_all add: c resizeCanvas_def new_canvas_def)
  then have i: "initParticles ?bg0 edge_random = (?bg0\<lparr>particles := replicate 50 ?p\<rparr>, edge_random)"
    by (simp add: initParticles_def particleCount_def)
  have u: "updateParticle (?bg0\<lparr>particles := replicate 50 ?p\<rparr>) ?p
           = \<lparr>px = 1001/10, py = 50, pvx = -1/5, pvy = 0, psize = 2\<rparr>"
    by (simp add: updateParticle_def resizeCanvas_def new_canvas_def)
  show ?thesis
    using i u random_ok_edge
    by (simp add: initParticleBackground_def animate_def updateParticles_def
        resizeCanvas_def new_canvas_def Let_def)
qed

text \<open>
  C4. A window resize re-measures the canvas and replaces the whole particle set: the
  new particles do not depend on the old state at all, there are 50 of them, and each
  starts strictly inside the new canvas \<open>[0, w) \<times> [0, h)\<close>.
\<close>

theorem resize_regenerates:
  assumes "random_ok r" "0 < w" "0 < h"
    and "bg_step (bg, r) (WindowResize w h) = (bg', r')"
  shows "canvas_width bg' = w \<and> canvas_height bg' = h \<and> length (particles bg') = 50
    \<and> particles bg' = particles (fst (bg_step (other, r) (WindowResize w h)))
    \<and> (\<forall>p \<in> set (particles bg'). 0 \<le> px p \<and> px p < real w \<and> 0 \<le> py p \<and> py p < real h)"
proof -
  have run: "push_particles particleCount ((resizeCanvas w h bg)\<lparr>particles := []\<rparr>) r = (bg', r')"
    using assms(4) by (rule bg_step_resize_run)
  have all: "length (particles bg') = 50
      \<and> (\<forall>p \<in> set (particles bg'). 0 \<le> px p \<and> px p < real w \<and> 0 \<le> py p \<and> py p < real h)"
    using assms(1-3) run by (rule push_resized_inside)
  have "particles (fst (push_particles particleCount ((resizeCanvas w h bg)\<lparr>particles := []\<rparr>) r))
      = particles (fst (push_particles particleCount ((resizeCanvas w h other)\<lparr>particles := []\<rparr>) r))"
    by (rule push_particles_indep) (simp_all add: resizeCanvas_def)
  then have same: "particles bg' = particles (fst (bg_step (other, r) (WindowResize w h)))"
    by (simp only: run bg_step.simps initParticles_def fst_conv)
  from push_particles_frame [OF run] have "canvas_width bg' = w \<and> canvas_height bg' = h"
    by (simp add: resizeCanvas_def)
  with all same show ?thesis by simp
qed


theorem resize_regenerates_witness:
  "\<exists>bg' r'. bg_step (new_canvas, sconst (1/2)) (WindowResize 200 50) = (bg', r')
     \<and> canvas_width bg' = 200 \<and> length (particles bg') = 50"
proof -
  obtain bg' r' where e: "bg_step (new_canvas, sconst (1/2)) (WindowResize 200 50) = (bg', r')"
    by fastforce
  have r: "random_ok (sconst (1/2))" by simp
  have "(0::nat) < 200" "(0::nat) < 50" by simp_all
  from resize_regenerates [OF r this e, of new_canvas] e show ?thesis by blast
qed

text \<open>
  C5. Every connecting line of a frame has an opacity in \<open>(0, 1]\<close> and the hairline
  width 0.5: a pair is joined only when its distance is below 100, and the opacity
  \<open>1 - d/100\<close> fades to transparent at the threshold.
\<close>

theorem connection_alpha_range:
  "StrokeLine x1 y1 x2 y2 a lw \<in> set (drawConnections ps) \<Longrightarrow> 0 < a \<and> a \<le> 1 \<and> lw = 0.5"
proof (induction ps)
  case Nil
  then show ?case by simp
next
  case (Cons p ps)
  then show ?case by (auto simp: connection_eq split: if_splits)
qed

theorem connection_alpha_range_witness:
  "StrokeLine 0 0 50 0 (1/2) 0.5 \<in> set (drawConnections
     [\<lparr>px = 0, py = 0, pvx = 0, pvy = 0, psize = 1\<rparr>, \<lparr>px = 50, py = 0, pvx = 0, pvy = 0, psize = 1\<rparr>])
   \<and> (0::real) < 1/2"
proof -
  have m: "StrokeLine 0 0 50 0 (1/2) 0.5 \<in> set (drawConnections
     [\<lparr>px = 0, py = 0, pvx = 0, pvy = 0, psize = 1\<rparr>, \<lparr>px = 50, py = 0, pvx = 0, pvy = 0, psize = 1\<rparr>])"
    by (simp add: connection_def)
  from connection_alpha_range [OF m] m show ?thesis by simp
qed

text \<open>
  C6. The size of a frame's display list: one clear, one dot per particle, and one line
  per pair \<open>i < j\<close> closer than 100; hence at most \<open>1 + n + n(n-1)/2\<close> calls for
  \<open>n\<close> particles (1276 for the 50 of the page).
\<close>

theorem drawParticles_length:
  "length (drawParticles bg) = 1 + length (particles bg)
     + length (filter (\<lambda>(p, q). particle_dist p q < 100) (ordered_pairs (particles bg)))
   \<and> length (drawParticles bg)
       \<le> 1 + length (particles bg) + length (particles bg) * (length (particles bg) - 1) div 2"
proof -
  have "length (filter (\<lambda>(p, q). particle_dist p q < 100) (ordered_pairs (particles bg)))
      \<le> length (ordered_pairs (particles bg))"
    by (rule length_filter_le)
  then show ?thesis
    by (simp add: drawParticles_def drawConnections_count length_ordered_pairs)
qed

end
