(* ===== verification/Typing.thy ===== *)
theory Typing
  imports Prelude
begin

text \<open>
  The typing animation of the hero tagline, \<open>initTypingEffect\<close> in
  \<^verbatim>\<open>src/portfolio/assets/js/script.js\<close> (lines 73--113). Its state is the three
  closure variables \<open>textIndex\<close>, \<open>charIndex\<close>, \<open>isDeleting\<close> and the
  \<open>textContent\<close> of the \<open>.typing-text\<close> element (record \<open>typing_state\<close>).
  \<open>typeText\<close> is one timer callback: it returns the new state and the delay it
  passes to \<open>setTimeout\<close>, or the \<open>TypeError\<close> that ends the chain when the
  element is missing. \<open>type_run\<close> runs a number of callbacks in sequence.
\<close>

subsection \<open>State\<close>

definition texts :: "string list" where
  "texts =
     [''Building the future with code'',
      ''Creating amazing digital experiences'',
      ''Transforming ideas into reality'',
      ''Innovating with technology'']"

record typing_state =
  textIndex :: nat
  charIndex :: int
  isDeleting :: bool
  textContent :: string

definition typing_start :: "string \<Rightarrow> typing_state" where
  "typing_start content =
     \<lparr>textIndex = 0, charIndex = 0, isDeleting = False, textContent = content\<rparr>"

text \<open>\<open>setTimeout(typeText, 1000)\<close>: the first callback runs after one second.\<close>

definition initTypingEffect :: "string \<Rightarrow> typing_state \<times> nat" where
  "initTypingEffect content = (typing_start content, 1000)"

subsection \<open>One callback\<close>

text \<open>
  \<open>texts[textIndex]\<close> outside the array is \<open>undefined\<close>, and calling
  \<open>substring\<close> on it throws; so does writing \<open>textContent\<close> of a missing element
  (\<open>has_element\<close> false).
\<close>

definition typeText :: "bool \<Rightarrow> typing_state \<Rightarrow> (typing_state \<times> nat) js_result" where
  "typeText has_element st =
     (if length texts \<le> textIndex st
      then Inl (TypeError ''Cannot read properties of undefined (reading 'substring')'')
      else if \<not> has_element
      then Inl (TypeError ''Cannot set properties of null (setting 'textContent')'')
      else
        let currentText = texts ! textIndex st;
            content = (if isDeleting st then js_substring currentText 0 (charIndex st - 1)
                       else js_substring currentText 0 (charIndex st + 1));
            ci = (if isDeleting st then charIndex st - 1 else charIndex st + 1);
            typeSpeed = (if isDeleting st then 50 else 100)
        in if \<not> isDeleting st \<and> ci = int (length currentText)
           then Inr (st\<lparr>textContent := content, charIndex := ci, isDeleting := True\<rparr>, 2000)
           else if isDeleting st \<and> ci = 0
           then Inr (st\<lparr>textContent := content, charIndex := ci, isDeleting := False,
                        textIndex := (textIndex st + 1) mod length texts\<rparr>, 500)
           else Inr (st\<lparr>textContent := content, charIndex := ci\<rparr>, typeSpeed))"

text \<open>
  \<open>n\<close> callbacks in a row; each one's \<open>setTimeout\<close> schedules the next. The trace
  records what each callback displayed and the delay it asked for.
\<close>

fun type_run :: "nat \<Rightarrow> typing_state \<Rightarrow> (typing_state \<times> (string \<times> nat) list) js_result" where
  "type_run 0 st = Inr (st, [])"
| "type_run (Suc n) st =
     (case typeText True st of
        Inl e \<Rightarrow> Inl e
      | Inr (st', d) \<Rightarrow>
          (case type_run n st' of
             Inl e \<Rightarrow> Inl e
           | Inr (st'', tr) \<Rightarrow> Inr (st'', (textContent st', d) # tr)))"

subsection \<open>Invariant\<close>

definition typing_inv :: "typing_state \<Rightarrow> bool" where
  "typing_inv st \<longleftrightarrow>
     textIndex st < length texts
     \<and> 0 \<le> charIndex st \<and> charIndex st \<le> int (length (texts ! textIndex st))
     \<and> (isDeleting st \<longrightarrow> 1 \<le> charIndex st)
     \<and> (\<not> isDeleting st \<longrightarrow> charIndex st < int (length (texts ! textIndex st)))"

text \<open>
  The trace of one cycle of text \<open>i\<close>: typed one character every 100 ms, shown whole
  for 2 s, deleted one character every 50 ms, and cleared for 0.5 s.
\<close>

definition cycle_trace :: "nat \<Rightarrow> (string \<times> nat) list" where
  "cycle_trace i =
     map (\<lambda>j. (take j (texts ! i), 100)) [1..<length (texts ! i)]
     @ [(texts ! i, 2000)]
     @ map (\<lambda>j. (take j (texts ! i), 50)) (rev [1..<length (texts ! i)])
     @ [([], 500)]"

subsection \<open>Lemmas\<close>

lemma length_texts [simp]: "length texts = 4"
  by (simp add: texts_def)

lemma texts_nonempty: "i < length texts \<Longrightarrow> texts ! i \<noteq> []"
  by (auto simp: texts_def nth_Cons split: nat.splits)

lemma type_run_add:
  "type_run (m + n) st =
     (case type_run m st of
        Inl e \<Rightarrow> Inl e
      | Inr (s1, t1) \<Rightarrow> (case type_run n s1 of Inl e \<Rightarrow> Inl e | Inr (s2, t2) \<Rightarrow> Inr (s2, t1 @ t2)))"
proof (induction m arbitrary: st)
  case 0
  then show ?case by (simp split: sum.split prod.split)
next
  case (Suc m)
  then show ?case by (simp split: sum.split prod.split)
qed

lemma typeText_up:
  assumes "i < length texts" "Suc c < length (texts ! i)"
  shows "typeText True \<lparr>textIndex = i, charIndex = int c, isDeleting = False, textContent = s\<rparr>
     = Inr (\<lparr>textIndex = i, charIndex = int (Suc c), isDeleting = False,
             textContent = take (Suc c) (texts ! i)\<rparr>, 100)"
  using assms by (simp add: typeText_def js_substring_prefix nat_add_distrib)

lemma typeText_top:
  assumes "i < length texts" "Suc c = length (texts ! i)"
  shows "typeText True \<lparr>textIndex = i, charIndex = int c, isDeleting = False, textContent = s\<rparr>
     = Inr (\<lparr>textIndex = i, charIndex = int (Suc c), isDeleting = True,
             textContent = texts ! i\<rparr>, 2000)"
  using assms by (simp add: typeText_def js_substring_prefix nat_add_distrib)

lemma typeText_down:
  assumes "i < length texts" "1 < c" "c \<le> length (texts ! i)"
  shows "typeText True \<lparr>textIndex = i, charIndex = int c, isDeleting = True, textContent = s\<rparr>
     = Inr (\<lparr>textIndex = i, charIndex = int (c - 1), isDeleting = True,
             textContent = take (c - 1) (texts ! i)\<rparr>, 50)"
  using assms by (simp add: typeText_def js_substring_prefix of_nat_diff nat_diff_distrib)

lemma typeText_bottom:
  assumes "i < length texts"
  shows "typeText True \<lparr>textIndex = i, charIndex = 1, isDeleting = True, textContent = s\<rparr>
     = Inr (\<lparr>textIndex = Suc i mod length texts, charIndex = 0, isDeleting = False,
             textContent = []\<rparr>, 500)"
  using assms by (simp add: typeText_def js_substring_prefix)

lemma type_run_up:
  assumes "i < length texts" "c + k < length (texts ! i)"
  shows "type_run k \<lparr>textIndex = i, charIndex = int c, isDeleting = False, textContent = s\<rparr>
     = Inr (\<lparr>textIndex = i, charIndex = int (c + k), isDeleting = False,
             textContent = (if k = 0 then s else take (c + k) (texts ! i))\<rparr>,
            map (\<lambda>j. (take j (texts ! i), 100)) [Suc c..<Suc (c + k)])"
  using assms(2)
proof (induction k arbitrary: c s)
  case 0
  then show ?case by simp
next
  case (Suc k)
  have "Suc c < length (texts ! i)" using Suc.prems by simp
  with assms(1) have step: "typeText True \<lparr>textIndex = i, charIndex = int c, isDeleting = False, textContent = s\<rparr>
     = Inr (\<lparr>textIndex = i, charIndex = int (Suc c), isDeleting = False,
             textContent = take (Suc c) (texts ! i)\<rparr>, 100)"
    by (rule typeText_up)
  have "Suc c + k < length (texts ! i)" using Suc.prems by simp
  then have IH: "type_run k \<lparr>textIndex = i, charIndex = int (Suc c), isDeleting = False,
        textContent = take (Suc c) (texts ! i)\<rparr>
     = Inr (\<lparr>textIndex = i, charIndex = int (Suc c + k), isDeleting = False,
             textContent = (if k = 0 then take (Suc c) (texts ! i) else take (Suc c + k) (texts ! i))\<rparr>,
            map (\<lambda>j. (take j (texts ! i), 100)) [Suc (Suc c)..<Suc (Suc c + k)])"
    by (rule Suc.IH)
  have "[Suc c..<Suc (c + Suc k)] = Suc c # [Suc (Suc c)..<Suc (Suc c + k)]"
    by (simp add: upt_conv_Cons del: upt_Suc)
  then show ?case
    by (simp only: type_run.simps step IH sum.case prod.case typing_state.select_convs)
       (simp del: upt_Suc)
qed

lemma type_run_down:
  assumes "i < length texts" "k < c" "c \<le> length (texts ! i)"
  shows "type_run k \<lparr>textIndex = i, charIndex = int c, isDeleting = True, textContent = s\<rparr>
     = Inr (\<lparr>textIndex = i, charIndex = int (c - k), isDeleting = True,
             textContent = (if k = 0 then s else take (c - k) (texts ! i))\<rparr>,
            map (\<lambda>j. (take j (texts ! i), 50)) (rev [c - k..<c]))"
  using assms(2,3)
proof (induction k arbitrary: c s)
  case 0
  then show ?case by simp
next
  case (Suc k)
  have "1 < c" using Suc.prems by simp
  from typeText_down [OF assms(1) this Suc.prems(2)] have step:
    "typeText True \<lparr>textIndex = i, charIndex = int c, isDeleting = True, textContent = s\<rparr>
     = Inr (\<lparr>textIndex = i, charIndex = int (c - 1), isDeleting = True,
             textContent = take (c - 1) (texts ! i)\<rparr>, 50)" .
  have "k < c - 1" "c - 1 \<le> length (texts ! i)" using Suc.prems by simp_all
  then have IH: "type_run k \<lparr>textIndex = i, charIndex = int (c - 1), isDeleting = True,
        textContent = take (c - 1) (texts ! i)\<rparr>
     = Inr (\<lparr>textIndex = i, charIndex = int (c - 1 - k), isDeleting = True,
             textContent = (if k = 0 then take (c - 1) (texts ! i) else take (c - 1 - k) (texts ! i))\<rparr>,
            map (\<lambda>j. (take j (texts ! i), 50)) (rev [c - 1 - k..<c - 1]))"
    by (rule Suc.IH)
  obtain c' where c': "c = Suc c'" using Suc.prems by (cases c) auto
  have "[c' - k..<Suc c'] = [c' - k..<c'] @ [c']" by (rule upt_Suc_append) simp
  then have "rev [c - Suc k..<c] = (c - 1) # rev [c - 1 - k..<c - 1]"
    by (simp add: c' del: upt_Suc)
  then show ?case
    by (simp only: type_run.simps step IH sum.case prod.case typing_state.select_convs)
       (simp del: upt_Suc)
qed

lemma type_run_one: "type_run (Suc 0) st = (case typeText True st of Inl e \<Rightarrow> Inl e | Inr (st', d) \<Rightarrow> Inr (st', [(textContent st', d)]))"
  by (simp split: sum.split prod.split)

lemma typeText_inv:
  assumes "typing_inv st"
  shows "\<exists>st' d. typeText True st = Inr (st', d) \<and> typing_inv st'
           \<and> textContent st' = take (nat (charIndex st')) (texts ! textIndex st')"
proof -
  from assms have i: "textIndex st < length texts" by (simp add: typing_inv_def)
  have ne: "texts ! (Suc (textIndex st) mod length texts) \<noteq> []"
    by (rule texts_nonempty) simp
  show ?thesis
    using assms i ne unfolding typing_inv_def typeText_def Let_def
    by (auto simp: js_substring_prefix nat_add_distrib nat_diff_distrib)
qed

lemma typing_inv_start: "typing_inv (typing_start s)"
  using texts_nonempty [of 0] by (simp add: typing_inv_def typing_start_def)

lemma type_run_inv:
  "typing_inv st \<Longrightarrow>
   \<exists>st' tr. type_run n st = Inr (st', tr) \<and> typing_inv st' \<and> length tr = n
     \<and> (0 < n \<longrightarrow> textContent st' = take (nat (charIndex st')) (texts ! textIndex st'))"
proof (induction n arbitrary: st)
  case 0
  then show ?case by simp
next
  case (Suc n)
  from typeText_inv [OF Suc.prems] obtain st1 d where
    s1: "typeText True st = Inr (st1, d)" "typing_inv st1"
      "textContent st1 = take (nat (charIndex st1)) (texts ! textIndex st1)" by blast
  from Suc.IH [OF s1(2)] obtain st' tr where
    r: "type_run n st1 = Inr (st', tr)" "typing_inv st'" "length tr = n"
      "0 < n \<longrightarrow> textContent st' = take (nat (charIndex st')) (texts ! textIndex st')" by blast
  show ?case
  proof (cases n)
    case 0
    with r s1 show ?thesis by simp
  next
    case (Suc m)
    with r s1 show ?thesis by simp
  qed
qed

subsection \<open>Properties\<close>

text \<open>
  C7. One cycle of the typing animation: from text \<open>i\<close> with nothing typed, exactly
  \<open>2 * length\<close> callbacks type the text character by character (100 ms apart), pause
  2 s on the whole text, delete it (50 ms apart), pause 0.5 s on the empty string and
  move on to the next text, wrapping from the last text to the first.
\<close>

theorem typing_cycle:
  assumes "i < length texts"
  shows "type_run (2 * length (texts ! i)) \<lparr>textIndex = i, charIndex = 0, isDeleting = False, textContent = s\<rparr>
    = Inr (\<lparr>textIndex = Suc i mod length texts, charIndex = 0, isDeleting = False, textContent = []\<rparr>,
           cycle_trace i)"
proof -
  obtain m where m: "length (texts ! i) = Suc m"
    using texts_nonempty [OF assms] by (cases "length (texts ! i)") auto
  have up: "type_run m \<lparr>textIndex = i, charIndex = 0, isDeleting = False, textContent = s\<rparr>
     = Inr (\<lparr>textIndex = i, charIndex = int m, isDeleting = False,
             textContent = (if m = 0 then s else take m (texts ! i))\<rparr>,
            map (\<lambda>j. (take j (texts ! i), 100)) [Suc 0..<Suc m])"
    using type_run_up [OF assms, of 0 m s] m by simp
  have top: "type_run (Suc 0) \<lparr>textIndex = i, charIndex = int m, isDeleting = False,
             textContent = (if m = 0 then s else take m (texts ! i))\<rparr>
     = Inr (\<lparr>textIndex = i, charIndex = int (Suc m), isDeleting = True, textContent = texts ! i\<rparr>,
            [(texts ! i, 2000)])"
    using typeText_top [OF assms, of m] m by (simp add: type_run_one)
  have down: "type_run m \<lparr>textIndex = i, charIndex = int (Suc m), isDeleting = True, textContent = texts ! i\<rparr>
     = Inr (\<lparr>textIndex = i, charIndex = 1, isDeleting = True,
             textContent = (if m = 0 then texts ! i else take 1 (texts ! i))\<rparr>,
            map (\<lambda>j. (take j (texts ! i), 50)) (rev [1..<Suc m]))"
    using type_run_down [OF assms, of m "Suc m" "texts ! i"] m by simp
  have bottom: "type_run (Suc 0) \<lparr>textIndex = i, charIndex = 1, isDeleting = True,
             textContent = (if m = 0 then texts ! i else take 1 (texts ! i))\<rparr>
     = Inr (\<lparr>textIndex = Suc i mod length texts, charIndex = 0, isDeleting = False, textContent = []\<rparr>,
            [([], 500)])"
    using typeText_bottom [OF assms] by (simp add: type_run_one)
  have "2 * length (texts ! i) = m + (Suc 0 + (m + Suc 0))" using m by simp
  then show ?thesis
    by (simp only: type_run_add up top down bottom sum.case prod.case)
       (simp add: cycle_trace_def m)
qed

theorem typing_cycle_witness:
  "type_run 52 \<lparr>textIndex = 3, charIndex = 0, isDeleting = False, textContent = []\<rparr>
     = Inr (\<lparr>textIndex = 0, charIndex = 0, isDeleting = False, textContent = []\<rparr>, cycle_trace 3)"
  using typing_cycle [of 3 "[]"] by (simp add: texts_def)

text \<open>
  C8. The timer chain never breaks: however many callbacks have run from the start,
  none has thrown, each asked for a next one, the counters stay within the current
  text, and the tagline shows exactly the first \<open>charIndex\<close> characters of it.
\<close>

theorem typing_never_stops:
  "\<exists>st' tr. type_run (Suc n) (typing_start s) = Inr (st', tr) \<and> typing_inv st'
     \<and> length tr = Suc n \<and> textContent st' = take (nat (charIndex st')) (texts ! textIndex st')"
  using type_run_inv [OF typing_inv_start, of "Suc n" s] by auto

theorem typing_never_stops_witness:
  "\<exists>st' tr. type_run 1 (typing_start []) = Inr (st', tr) \<and> typing_inv st' \<and> length tr = 1"
  using typing_never_stops [of 0 "[]"] by auto

end
