(* ===== verification/Theme.thy ===== *)
theory Theme
  imports Prelude
begin

text \<open>
  The light/dark theme switch, \<open>initThemeToggle\<close> in
  \<^verbatim>\<open>src/portfolio/assets/js/script.js\<close> (lines 353--391). Its state is the
  \<open>data-theme\<close> attribute of \<open>body\<close>, the page's \<open>localStorage\<close>, the class of
  the toggle button's icon and the \<open>transition\<close> style of \<open>body\<close> (record
  \<open>theme_page\<close>); whether the button \<open>#themeToggleNav\<close> and its \<open>i\<close> icon exist is
  fixed by the markup. The operations are \<open>initThemeToggle\<close>, the click handler
  \<open>toggleTheme\<close>, \<open>updateThemeIcons\<close> and the 300 ms timer that clears the
  transition (\<open>theme_step\<close> over \<open>theme_event\<close>).
\<close>

subsection \<open>State\<close>

record theme_page =
  has_toggle :: bool
  has_icon :: bool
  data_theme :: "string option"
  storage :: "string \<Rightarrow> string option"
  nav_icon :: "string option"
  body_transition :: string
  pending_timers :: nat

definition theme_markup :: "bool \<Rightarrow> bool \<Rightarrow> (string \<Rightarrow> string option) \<Rightarrow> theme_page" where
  "theme_markup toggle icon store =
     \<lparr>has_toggle = toggle, has_icon = icon, data_theme = None, storage = store,
      nav_icon = None, body_transition = [], pending_timers = 0\<rparr>"

subsection \<open>Operations\<close>

text \<open>\<open>localStorage.getItem('theme') || 'dark'\<close>: \<open>null\<close> and the empty string are falsy.\<close>

definition saved_theme :: "(string \<Rightarrow> string option) \<Rightarrow> string" where
  "saved_theme store =
     (case store ''theme'' of None \<Rightarrow> ''dark'' | Some t \<Rightarrow> (if t = [] then ''dark'' else t))"

definition updateThemeIcons :: "string \<Rightarrow> theme_page \<Rightarrow> theme_page" where
  "updateThemeIcons theme pg =
     (if has_toggle pg \<and> has_icon pg
      then pg\<lparr>nav_icon := Some (if theme = ''dark'' then ''fas fa-sun'' else ''fas fa-moon'')\<rparr>
      else pg)"

definition initThemeToggle :: "theme_page \<Rightarrow> theme_page" where
  "initThemeToggle pg =
     (let savedTheme = saved_theme (storage pg)
      in updateThemeIcons savedTheme (pg\<lparr>data_theme := Some savedTheme\<rparr>))"

text \<open>\<open>getAttribute\<close> of an absent attribute is \<open>null\<close>, which is not \<open>'dark'\<close>.\<close>

definition toggleTheme :: "theme_page \<Rightarrow> theme_page" where
  "toggleTheme pg =
     (let newTheme = (if data_theme pg = Some ''dark'' then ''light'' else ''dark'');
          pg1 = pg\<lparr>data_theme := Some newTheme, storage := (storage pg)(''theme'' \<mapsto> newTheme)\<rparr>;
          pg2 = updateThemeIcons newTheme pg1
      in pg2\<lparr>body_transition := ''background 0.3s ease, color 0.3s ease'',
             pending_timers := Suc (pending_timers pg2)\<rparr>)"

datatype theme_event = ToggleClick | TransitionTimeout

text \<open>
  A click reaches \<open>toggleTheme\<close> only when the button exists; a timeout fires only
  for a timer that \<open>toggleTheme\<close> set.
\<close>

fun theme_step :: "theme_page \<Rightarrow> theme_event \<Rightarrow> theme_page" where
  "theme_step pg ToggleClick = (if has_toggle pg then toggleTheme pg else pg)"
| "theme_step pg TransitionTimeout =
     (if pending_timers pg = 0 then pg
      else pg\<lparr>body_transition := [], pending_timers := pending_timers pg - 1\<rparr>)"

fun theme_run :: "theme_page \<Rightarrow> theme_event list \<Rightarrow> theme_page" where
  "theme_run pg [] = pg"
| "theme_run pg (e # es) = theme_run (theme_step pg e) es"

text \<open>The icon agrees with the theme wherever an icon is shown.\<close>

definition icon_ok :: "theme_page \<Rightarrow> bool" where
  "icon_ok pg \<longleftrightarrow>
     (if has_toggle pg \<and> has_icon pg
      then nav_icon pg = Some (if data_theme pg = Some ''dark'' then ''fas fa-sun'' else ''fas fa-moon'')
      else nav_icon pg = None)"

definition theme_inv :: "theme_page \<Rightarrow> bool" where
  "theme_inv pg \<longleftrightarrow>
     icon_ok pg \<and> data_theme pg \<noteq> None \<and> (pending_timers pg = 0 \<longrightarrow> body_transition pg = [])"

definition stored_ok :: "theme_page \<Rightarrow> bool" where
  "stored_ok pg \<longleftrightarrow> storage pg ''theme'' = data_theme pg \<and> data_theme pg \<in> {Some ''dark'', Some ''light''}"

subsection \<open>Lemmas\<close>

lemma updateThemeIcons_fields [simp]:
  "data_theme (updateThemeIcons t pg) = data_theme pg"
  "storage (updateThemeIcons t pg) = storage pg"
  "has_toggle (updateThemeIcons t pg) = has_toggle pg"
  "has_icon (updateThemeIcons t pg) = has_icon pg"
  "body_transition (updateThemeIcons t pg) = body_transition pg"
  "pending_timers (updateThemeIcons t pg) = pending_timers pg"
  by (simp_all add: updateThemeIcons_def)

lemma icon_ok_update: "data_theme pg = Some t \<Longrightarrow> (has_toggle pg \<and> has_icon pg \<or> nav_icon pg = None) \<Longrightarrow>
    icon_ok (updateThemeIcons t pg)"
  by (auto simp: icon_ok_def updateThemeIcons_def)

lemma theme_inv_init: "theme_inv (initThemeToggle (theme_markup t i store))"
  by (auto simp: theme_inv_def initThemeToggle_def theme_markup_def Let_def intro!: icon_ok_update)

lemma toggleTheme_fields:
  "data_theme (toggleTheme pg) = Some (if data_theme pg = Some ''dark'' then ''light'' else ''dark'')"
  "storage (toggleTheme pg) = (storage pg)(''theme'' \<mapsto> (if data_theme pg = Some ''dark'' then ''light'' else ''dark''))"
  "has_toggle (toggleTheme pg) = has_toggle pg" "has_icon (toggleTheme pg) = has_icon pg"
  "pending_timers (toggleTheme pg) = Suc (pending_timers pg)"
  by (simp_all add: toggleTheme_def Let_def)

lemma icon_ok_toggle: "icon_ok pg \<Longrightarrow> icon_ok (toggleTheme pg)"
  by (auto simp: icon_ok_def toggleTheme_def updateThemeIcons_def Let_def)

lemma theme_step_inv: "theme_inv pg \<Longrightarrow> theme_inv (theme_step pg e)"
proof (cases e)
  case ToggleClick
  then show "theme_inv pg \<Longrightarrow> ?thesis" by (auto simp: theme_inv_def icon_ok_toggle toggleTheme_fields)
next
  case TransitionTimeout
  then show "theme_inv pg \<Longrightarrow> ?thesis" by (auto simp: theme_inv_def icon_ok_def)
qed

lemma theme_run_inv: "theme_inv pg \<Longrightarrow> theme_inv (theme_run pg es)"
  by (induction es arbitrary: pg) (simp_all add: theme_step_inv)

lemma stored_ok_toggle: "stored_ok (toggleTheme pg)"
  by (simp add: stored_ok_def toggleTheme_fields)

lemma stored_ok_step: "stored_ok pg \<Longrightarrow> stored_ok (theme_step pg e)"
proof (cases e)
  case ToggleClick
  then show "stored_ok pg \<Longrightarrow> ?thesis" by (simp add: stored_ok_toggle)
next
  case TransitionTimeout
  then show "stored_ok pg \<Longrightarrow> ?thesis" by (simp add: stored_ok_def)
qed

lemma stored_ok_run: "stored_ok pg \<Longrightarrow> stored_ok (theme_run pg es)"
  by (induction es arbitrary: pg) (simp_all add: stored_ok_step)

lemma theme_step_toggle_flag: "has_toggle (theme_step pg e) = has_toggle pg"
  by (cases e) (simp_all add: toggleTheme_fields)

lemma theme_run_toggle_flag: "has_toggle (theme_run pg es) = has_toggle pg"
  by (induction es arbitrary: pg) (simp_all add: theme_step_toggle_flag)

lemma stored_ok_after_click:
  "has_toggle pg \<Longrightarrow> ToggleClick \<in> set es \<Longrightarrow> stored_ok (theme_run pg es)"
proof (induction es arbitrary: pg)
  case Nil
  then show ?case by simp
next
  case (Cons e es)
  show ?case
  proof (cases "e = ToggleClick")
    case True
    with Cons.prems have "stored_ok (theme_step pg e)" by (simp add: stored_ok_toggle)
    then show ?thesis by (simp add: stored_ok_run)
  next
    case False
    with Cons.prems have "ToggleClick \<in> set es" "has_toggle (theme_step pg e)"
      by (simp_all add: theme_step_toggle_flag)
    from Cons.IH [OF this(2,1)] show ?thesis by simp
  qed
qed

lemma saved_theme_stored: "stored_ok pg \<Longrightarrow> Some (saved_theme (storage pg)) = data_theme pg"
  by (auto simp: stored_ok_def saved_theme_def)

subsection \<open>Properties\<close>

text \<open>
  C9. The theme survives a reload: after any sequence of events containing a click
  on the toggle, initialising a fresh page from the resulting \<open>localStorage\<close> sets
  the same \<open>data-theme\<close> as the page had.
\<close>

theorem theme_persists:
  assumes "has_toggle pg" "ToggleClick \<in> set es"
  shows "data_theme (initThemeToggle (theme_markup t i (storage (theme_run pg es))))
           = data_theme (theme_run pg es)"
proof -
  have "stored_ok (theme_run pg es)" using assms by (rule stored_ok_after_click)
  then show ?thesis
    by (simp add: initThemeToggle_def theme_markup_def Let_def saved_theme_stored)
qed

theorem theme_persists_witness:
  "data_theme (initThemeToggle (theme_markup True True
      (storage (theme_run (initThemeToggle (theme_markup True True Map.empty)) [ToggleClick]))))
   = Some ''light''"
proof -
  have "has_toggle (initThemeToggle (theme_markup True True Map.empty))"
    by (simp add: initThemeToggle_def theme_markup_def Let_def)
  from theme_persists [OF this, of "[ToggleClick]" True True] show ?thesis
    by (simp add: toggleTheme_fields initThemeToggle_def theme_markup_def saved_theme_def Let_def)
qed

text \<open>
  C10. From the initialisation, under any clicks and timer expiries, the icon always
  agrees with the theme (a sun for dark, a moon otherwise, none without a button or
  icon), the attribute is always set, and once every 300 ms timer has fired the body
  has no transition left.
\<close>

theorem theme_icon_consistent:
  "icon_ok (theme_run (initThemeToggle (theme_markup t i store)) es)
   \<and> data_theme (theme_run (initThemeToggle (theme_markup t i store)) es) \<noteq> None
   \<and> (pending_timers (theme_run (initThemeToggle (theme_markup t i store)) es) = 0
      \<longrightarrow> body_transition (theme_run (initThemeToggle (theme_markup t i store)) es) = [])"
  using theme_run_inv [OF theme_inv_init, of t i store es] by (simp add: theme_inv_def)

theorem theme_icon_consistent_witness:
  "nav_icon (theme_run (initThemeToggle (theme_markup True True Map.empty)) [ToggleClick, TransitionTimeout])
     = Some ''fas fa-moon''
   \<and> body_transition (theme_run (initThemeToggle (theme_markup True True Map.empty)) [ToggleClick, TransitionTimeout])
     = []"
proof -
  have h: "has_toggle (initThemeToggle (theme_markup True True Map.empty))
      \<and> has_icon (initThemeToggle (theme_markup True True Map.empty))
      \<and> data_theme (initThemeToggle (theme_markup True True Map.empty)) = Some ''dark''
      \<and> pending_timers (initThemeToggle (theme_markup True True Map.empty)) = 0"
    by (simp add: initThemeToggle_def theme_markup_def saved_theme_def Let_def)
  have p: "pending_timers (theme_run (initThemeToggle (theme_markup True True Map.empty)) [ToggleClick, TransitionTimeout]) = 0"
    using h by (simp add: toggleTheme_fields)
  from theme_icon_consistent [of True True Map.empty "[ToggleClick, TransitionTimeout]"] p h
  show ?thesis by (simp add: icon_ok_def toggleTheme_fields)
qed

text \<open>
  C11. What two toggles after loading the page leave: the initialisation shows the
  stored theme, whatever its value (absent or empty counts as dark); the first toggle
  turns anything but \<open>dark\<close> into \<open>dark\<close>, so two toggles restore the theme and
  store it exactly when the stored theme was dark or light, and turn any other stored
  value into light.
\<close>

theorem toggle_twice:
  "data_theme (initThemeToggle pg) = Some (saved_theme (storage pg))
   \<and> data_theme (toggleTheme (toggleTheme (initThemeToggle pg)))
       = Some (if saved_theme (storage pg) = ''dark'' then ''dark'' else ''light'')
   \<and> storage (toggleTheme (toggleTheme (initThemeToggle pg))) ''theme''
       = Some (if saved_theme (storage pg) = ''dark'' then ''dark'' else ''light'')
   \<and> (data_theme (toggleTheme (toggleTheme (initThemeToggle pg))) = data_theme (initThemeToggle pg)
       \<longleftrightarrow> saved_theme (storage pg) \<in> {''dark'', ''light''})"
  by (auto simp: toggleTheme_fields initThemeToggle_def updateThemeIcons_def Let_def)

end
