(* ===== verification/Regex.thy ===== *)
theory Regex
  imports Prelude
begin

text \<open>
  Regular expressions as the contact form uses them: a JavaScript \<open>RegExp\<close> literal
  anchored by \<open>^\<close> and \<open>$\<close> and tested with \<open>test\<close>. Character classes are
  predicates on characters; \<open>r+\<close> is \<open>r r*\<close>. The language \<open>lang\<close> is the
  meaning of an expression; \<open>matches\<close> is an executable matcher by Brzozowski
  derivatives, proved to accept exactly the language. For an expression without
  back-references or look-arounds a backtracking engine such as JavaScript's accepts a
  whole string exactly when it is in the language, so \<open>matches\<close> is what \<open>test\<close>
  computes on an anchored pattern.
\<close>

datatype rexp =
    Zero
  | One
  | Atom "char \<Rightarrow> bool"
  | Plus rexp rexp
  | Times rexp rexp
  | Star rexp

inductive_set star_of :: "string set \<Rightarrow> string set" for L where
  star_nil: "[] \<in> star_of L"
| star_app: "u \<in> L \<Longrightarrow> v \<in> star_of L \<Longrightarrow> u @ v \<in> star_of L"

fun lang :: "rexp \<Rightarrow> string set" where
  "lang Zero = {}"
| "lang One = {[]}"
| "lang (Atom P) = {[c] | c. P c}"
| "lang (Plus r s) = lang r \<union> lang s"
| "lang (Times r s) = {u @ v | u v. u \<in> lang r \<and> v \<in> lang s}"
| "lang (Star r) = star_of (lang r)"

fun nullable :: "rexp \<Rightarrow> bool" where
  "nullable Zero = False"
| "nullable One = True"
| "nullable (Atom P) = False"
| "nullable (Plus r s) = (nullable r \<or> nullable s)"
| "nullable (Times r s) = (nullable r \<and> nullable s)"
| "nullable (Star r) = True"

fun deriv :: "char \<Rightarrow> rexp \<Rightarrow> rexp" where
  "deriv c Zero = Zero"
| "deriv c One = Zero"
| "deriv c (Atom P) = (if P c then One else Zero)"
| "deriv c (Plus r s) = Plus (deriv c r) (deriv c s)"
| "deriv c (Times r s) =
     (if nullable r then Plus (Times (deriv c r) s) (deriv c s) else Times (deriv c r) s)"
| "deriv c (Star r) = Times (deriv c r) (Star r)"

definition matches :: "rexp \<Rightarrow> string \<Rightarrow> bool" where
  "matches r s = nullable (fold deriv s r)"

definition plus :: "rexp \<Rightarrow> rexp" where
  "plus r = Times r (Star r)"

subsection \<open>Correctness of the matcher\<close>

lemma nullable_iff: "nullable r \<longleftrightarrow> [] \<in> lang r"
  by (induction r) (auto intro: star_of.intros)

lemma star_of_Cons:
  assumes "c # w \<in> star_of L"
  shows "\<exists>u v. w = u @ v \<and> c # u \<in> L \<and> v \<in> star_of L"
proof -
  have "x \<in> star_of L \<Longrightarrow> x = c # w \<Longrightarrow> \<exists>u v. w = u @ v \<and> c # u \<in> L \<and> v \<in> star_of L" for x
  proof (induction x arbitrary: w rule: star_of.induct)
    case star_nil
    then show ?case by simp
  next
    case (star_app u v)
    show ?case
    proof (cases u)
      case Nil
      with star_app show ?thesis by simp
    next
      case (Cons a u')
      with star_app.prems star_app.hyps show ?thesis by auto
    qed
  qed
  with assms show ?thesis by blast
qed

lemma star_of_append: "u \<in> star_of L \<Longrightarrow> v \<in> star_of L \<Longrightarrow> u @ v \<in> star_of L"
  by (induction u rule: star_of.induct) (auto intro: star_of.intros)

lemma Cons_in_conc:
  "c # w \<in> {u @ v | u v. u \<in> A \<and> v \<in> B} \<longleftrightarrow>
     (\<exists>u v. w = u @ v \<and> c # u \<in> A \<and> v \<in> B) \<or> ([] \<in> A \<and> c # w \<in> B)"
proof
  assume "c # w \<in> {u @ v | u v. u \<in> A \<and> v \<in> B}"
  then obtain u v where "c # w = u @ v" "u \<in> A" "v \<in> B" by blast
  then show "(\<exists>u v. w = u @ v \<and> c # u \<in> A \<and> v \<in> B) \<or> ([] \<in> A \<and> c # w \<in> B)"
    by (cases u) auto
next
  assume "(\<exists>u v. w = u @ v \<and> c # u \<in> A \<and> v \<in> B) \<or> ([] \<in> A \<and> c # w \<in> B)"
  then show "c # w \<in> {u @ v | u v. u \<in> A \<and> v \<in> B}"
  proof
    assume "\<exists>u v. w = u @ v \<and> c # u \<in> A \<and> v \<in> B"
    then obtain u v where "w = u @ v" "c # u \<in> A" "v \<in> B" by blast
    then have "c # w = (c # u) @ v" by simp
    with \<open>c # u \<in> A\<close> \<open>v \<in> B\<close> show ?thesis by blast
  next
    assume "[] \<in> A \<and> c # w \<in> B"
    then show ?thesis by force
  qed
qed

lemma lang_deriv: "lang (deriv c r) = {w. c # w \<in> lang r}"
proof (induction r)
  case (Times r s)
  have l: "lang (deriv c (Times r s))
      = {u @ v | u v. c # u \<in> lang r \<and> v \<in> lang s} \<union> (if [] \<in> lang r then {w. c # w \<in> lang s} else {})"
    using Times.IH by (auto simp: nullable_iff)
  have "{w. c # w \<in> lang (Times r s)}
      = {w. (\<exists>u v. w = u @ v \<and> c # u \<in> lang r \<and> v \<in> lang s) \<or> ([] \<in> lang r \<and> c # w \<in> lang s)}"
    by (simp only: lang.simps Cons_in_conc)
  with l show ?case by auto
next
  case (Star r)
  show ?case
  proof
    show "lang (deriv c (Star r)) \<subseteq> {w. c # w \<in> lang (Star r)}"
    proof
      fix w assume "w \<in> lang (deriv c (Star r))"
      then obtain u v where "w = u @ v" "c # u \<in> lang r" "v \<in> star_of (lang r)"
        using Star by auto
      then have "(c # u) @ v \<in> star_of (lang r)" by (blast intro: star_of.star_app)
      with \<open>w = u @ v\<close> show "w \<in> {w. c # w \<in> lang (Star r)}" by simp
    qed
    show "{w. c # w \<in> lang (Star r)} \<subseteq> lang (deriv c (Star r))"
      using Star by (auto dest: star_of_Cons)
  qed
qed auto

theorem matches_lang: "matches r s \<longleftrightarrow> s \<in> lang r"
proof (induction s arbitrary: r)
  case Nil
  then show ?case by (simp add: matches_def nullable_iff)
next
  case (Cons c s)
  have "matches r (c # s) = matches (deriv c r) s" by (simp add: matches_def)
  also have "\<dots> \<longleftrightarrow> s \<in> lang (deriv c r)" by (rule Cons.IH)
  also have "\<dots> \<longleftrightarrow> c # s \<in> lang r" by (simp add: lang_deriv)
  finally show ?case .
qed

subsection \<open>Character classes repeated\<close>

lemma star_atom: "star_of {[c] | c. P c} = {w. \<forall>c \<in> set w. P c}"
proof
  show "star_of {[c] | c. P c} \<subseteq> {w. \<forall>c \<in> set w. P c}"
  proof
    fix w assume "w \<in> star_of {[c] | c. P c}"
    then show "w \<in> {w. \<forall>c \<in> set w. P c}" by induction auto
  qed
  show "{w. \<forall>c \<in> set w. P c} \<subseteq> star_of {[c] | c. P c}"
  proof
    fix w assume "w \<in> {w. \<forall>c \<in> set w. P c}"
    then show "w \<in> star_of {[c] | c. P c}"
    proof (induction w)
      case Nil
      show ?case by (rule star_of.star_nil)
    next
      case (Cons a w)
      then have "[a] \<in> {[c] | c. P c}" "w \<in> star_of {[c] | c. P c}" by auto
      then have "[a] @ w \<in> star_of {[c] | c. P c}" by (rule star_of.star_app)
      then show ?case by simp
    qed
  qed
qed

lemma lang_plus_atom: "lang (plus (Atom P)) = {w. w \<noteq> [] \<and> (\<forall>c \<in> set w. P c)}"
proof -
  have "lang (plus (Atom P)) = {u @ v | u v. u \<in> {[c] | c. P c} \<and> (\<forall>c \<in> set v. P c)}"
    by (simp add: plus_def star_atom)
  also have "\<dots> = {w. w \<noteq> [] \<and> (\<forall>c \<in> set w. P c)}"
  proof (rule set_eqI, rule iffI)
    fix w assume "w \<in> {u @ v | u v. u \<in> {[c] | c. P c} \<and> (\<forall>c \<in> set v. P c)}"
    then show "w \<in> {w. w \<noteq> [] \<and> (\<forall>c \<in> set w. P c)}" by auto
  next
    fix w assume "w \<in> {w. w \<noteq> [] \<and> (\<forall>c \<in> set w. P c)}"
    then obtain a v where "w = [a] @ v" "P a" "\<forall>c \<in> set v. P c"
      by (cases w) auto
    then show "w \<in> {u @ v | u v. u \<in> {[c] | c. P c} \<and> (\<forall>c \<in> set v. P c)}" by blast
  qed
  finally show ?thesis .
qed

end
