(* ===== verification/ContactForm.thy ===== *)
theory ContactForm
  imports Regex
begin

text \<open>
  The contact form, \<open>initContactForm\<close> in \<^verbatim>\<open>src/portfolio/assets/js/script.js\<close>
  (lines 242--350). The submitted fields are a record \<open>form_data\<close>; \<open>validateForm\<close>
  builds the error list of lines 265--283 and reports it through
  \<open>showNotification\<close>; \<open>isValidEmail\<close> tests the anchored regular expression of
  line 294 with the matcher of theory \<open>Regex\<close>. The page state of the form
  (\<open>contact_state\<close>) is the current field values and their defaults, the submit
  button's text and \<open>disabled\<close> flag, the notifications appended to the body, and
  the \<open>originalText\<close> captured by each pending 2 s timer of \<open>submitForm\<close>.
\<close>

subsection \<open>Data\<close>

record form_data =
  fd_name :: string
  fd_email :: string
  fd_subject :: string
  fd_message :: string

datatype notification = Notification string string

subsection \<open>Validation\<close>

text \<open>\<open>[^\s@]\<close>: neither whitespace nor \<open>@\<close>.\<close>

definition email_char :: "char \<Rightarrow> bool" where
  "email_char c \<longleftrightarrow> \<not> js_is_space c \<and> c \<noteq> CHR ''@''"

text \<open>\<open>/^[^\s@]+@[^\s@]+\.[^\s@]+$/\<close>\<close>

definition email_regex :: rexp where
  "email_regex =
     Times (plus (Atom email_char))
       (Times (Atom (\<lambda>c. c = CHR ''@''))
         (Times (plus (Atom email_char))
           (Times (Atom (\<lambda>c. c = CHR ''.'')) (plus (Atom email_char)))))"

definition isValidEmail :: "string \<Rightarrow> bool" where
  "isValidEmail email = matches email_regex email"

definition validation_errors :: "form_data \<Rightarrow> string list" where
  "validation_errors d =
     (if js_trim (fd_name d) = [] then [''Name is required''] else [])
     @ (if js_trim (fd_email d) = [] then [''Email is required'']
        else if \<not> isValidEmail (fd_email d) then [''Please enter a valid email address''] else [])
     @ (if js_trim (fd_subject d) = [] then [''Subject is required''] else [])
     @ (if js_trim (fd_message d) = [] then [''Message is required''] else [])"

text \<open>The result of \<open>validateForm\<close> and the notification it shows, if any.\<close>

definition validateForm :: "form_data \<Rightarrow> bool \<times> notification option" where
  "validateForm d =
     (let errors = validation_errors d
      in if 0 < length errors
         then (False, Some (Notification (js_join '', '' errors) ''error''))
         else (True, None))"

subsection \<open>Submission\<close>

record contact_state =
  form_values :: form_data
  form_defaults :: form_data
  button_text :: string
  button_disabled :: bool
  notifications :: "notification list"
  pending_submits :: "string list"

definition contact_start :: "form_data \<Rightarrow> string \<Rightarrow> contact_state" where
  "contact_start defaults label =
     \<lparr>form_values = defaults, form_defaults = defaults, button_text = label,
      button_disabled = False, notifications = [], pending_submits = []\<rparr>"

text \<open>\<open>submitForm\<close>: the loading state, and the 2 s timer that remembers \<open>originalText\<close>.\<close>

definition submitForm :: "contact_state \<Rightarrow> contact_state" where
  "submitForm st =
     st\<lparr>button_text := ''Sending...'', button_disabled := True,
        pending_submits := pending_submits st @ [button_text st]\<rparr>"

text \<open>The submit listener: \<open>preventDefault\<close>, read the fields, validate, submit.\<close>

definition submit_handler :: "contact_state \<Rightarrow> contact_state" where
  "submit_handler st =
     (case validateForm (form_values st) of
        (True, _) \<Rightarrow> submitForm st
      | (False, n) \<Rightarrow> st\<lparr>notifications := notifications st @ (case n of None \<Rightarrow> [] | Some m \<Rightarrow> [m])\<rparr>)"

text \<open>The timer callback of \<open>submitForm\<close> (lines 306--311), oldest timer first.\<close>

definition submit_timeout :: "contact_state \<Rightarrow> contact_state" where
  "submit_timeout st =
     (case pending_submits st of
        [] \<Rightarrow> st
      | originalText # rest \<Rightarrow>
          st\<lparr>notifications := notifications st @ [Notification ''Message sent successfully!'' ''success''],
             form_values := form_defaults st, button_text := originalText,
             button_disabled := False, pending_submits := rest\<rparr>)"

datatype contact_event =
    EditForm form_data
  | SubmitEvent
  | SubmitTimeout

text \<open>
  The user can only submit through the submit button or implicit submission, neither
  of which the browser performs while the button is disabled.
\<close>

fun contact_step :: "contact_state \<Rightarrow> contact_event \<Rightarrow> contact_state" where
  "contact_step st (EditForm d) = st\<lparr>form_values := d\<rparr>"
| "contact_step st SubmitEvent = (if button_disabled st then st else submit_handler st)"
| "contact_step st SubmitTimeout = submit_timeout st"

fun contact_run :: "contact_state \<Rightarrow> contact_event list \<Rightarrow> contact_state" where
  "contact_run st [] = st"
| "contact_run st (e # es) = contact_run (contact_step st e) es"

text \<open>A script dispatching \<open>submit\<close> reaches the listener whatever the button's state.\<close>

fun dispatch_run :: "contact_state \<Rightarrow> contact_event list \<Rightarrow> contact_state" where
  "dispatch_run st [] = st"
| "dispatch_run st (SubmitEvent # es) = dispatch_run (submit_handler st) es"
| "dispatch_run st (e # es) = dispatch_run (contact_step st e) es"

text \<open>The language of the e-mail pattern, as the regular expression reads.\<close>

definition email_shape :: "string \<Rightarrow> bool" where
  "email_shape s \<longleftrightarrow>
     (\<exists>a b c. s = a @ CHR ''@'' # b @ CHR ''.'' # c \<and> a \<noteq> [] \<and> b \<noteq> [] \<and> c \<noteq> []
        \<and> list_all email_char (a @ b @ c))"

definition contact_inv :: "string \<Rightarrow> contact_state \<Rightarrow> bool" where
  "contact_inv label st \<longleftrightarrow>
     (if button_disabled st then button_text st = ''Sending...'' \<and> pending_submits st = [label]
      else button_text st = label \<and> pending_submits st = [])"

subsection \<open>Lemmas\<close>

lemma email_regex_lang:
  "s \<in> lang email_regex \<longleftrightarrow> email_shape s"
  unfolding email_regex_def email_shape_def
  by (simp add: lang_plus_atom list_all_iff) blast

lemma isValidEmail_shape: "isValidEmail s \<longleftrightarrow> email_shape s"
  by (simp add: isValidEmail_def matches_lang email_regex_lang)

lemma email_shape_trim: "email_shape s \<Longrightarrow> js_trim s \<noteq> []"
proof -
  assume "email_shape s"
  then obtain a b c where s: "s = a @ CHR ''@'' # b @ CHR ''.'' # c" "a \<noteq> []"
    "list_all email_char (a @ b @ c)" unfolding email_shape_def by blast
  then have "hd a \<in> set s" "email_char (hd a)" by (auto simp: list_all_iff)
  then show "js_trim s \<noteq> []" by (auto simp: js_trim_Nil_iff email_char_def)
qed

lemma validation_errors_Nil:
  "validation_errors d = [] \<longleftrightarrow>
     js_trim (fd_name d) \<noteq> [] \<and> isValidEmail (fd_email d)
     \<and> js_trim (fd_subject d) \<noteq> [] \<and> js_trim (fd_message d) \<noteq> []"
  by (auto simp: validation_errors_def isValidEmail_shape dest: email_shape_trim)

lemma validateForm_cases:
  "validateForm d =
     (if validation_errors d = [] then (True, None)
      else (False, Some (Notification (js_join '', '' (validation_errors d)) ''error'')))"
  by (simp add: validateForm_def Let_def)

lemma submit_handler_fields:
  "form_defaults (submit_handler st) = form_defaults st"
  "form_values (submit_handler st) = form_values st"
  by (simp_all add: submit_handler_def submitForm_def validateForm_cases split: prod.split bool.split option.split)

lemma contact_step_inv: "contact_inv label st \<Longrightarrow> contact_inv label (contact_step st e)"
proof (cases e)
  case (EditForm d)
  then show "contact_inv label st \<Longrightarrow> ?thesis" by (simp add: contact_inv_def)
next
  case SubmitEvent
  then show "contact_inv label st \<Longrightarrow> ?thesis"
    by (auto simp: contact_inv_def submit_handler_def submitForm_def validateForm_cases)
next
  case SubmitTimeout
  then show "contact_inv label st \<Longrightarrow> ?thesis"
    by (auto simp: contact_inv_def submit_timeout_def split: if_splits)
qed

lemma contact_run_inv: "contact_inv label st \<Longrightarrow> contact_inv label (contact_run st es)"
  by (induction es arbitrary: st) (simp_all add: contact_step_inv)

lemma contact_inv_start: "contact_inv label (contact_start d label)"
  by (simp add: contact_inv_def contact_start_def)

subsection \<open>Properties\<close>

text \<open>
  C12. The executable test of \<open>isValidEmail\<close> accepts exactly the strings of the
  pattern's language: a non-empty local part, one \<open>@\<close>, a non-empty part, a dot and a
  non-empty last part, with no whitespace and no further \<open>@\<close> anywhere (dots may
  appear in the domain parts).
\<close>

theorem isValidEmail_iff_shape: "isValidEmail s \<longleftrightarrow> email_shape s"
  by (rule isValidEmail_shape)

text \<open>
  C13. \<open>validateForm\<close> accepts a submission exactly when name, subject and message
  are not blank after trimming and the untrimmed e-mail has the pattern's shape; a
  rejected one shows one error notification listing every failed check, joined by
  \<open>", "\<close>.
\<close>

theorem validateForm_iff:
  "validateForm d =
     (if js_trim (fd_name d) \<noteq> [] \<and> email_shape (fd_email d)
         \<and> js_trim (fd_subject d) \<noteq> [] \<and> js_trim (fd_message d) \<noteq> []
      then (True, None)
      else (False, Some (Notification (js_join '', '' (validation_errors d)) ''error'')))"
  by (simp add: validateForm_cases validation_errors_Nil isValidEmail_shape)

text \<open>
  C14. Under any sequence of edits, submissions and timer expiries a user can produce,
  the submit button is either idle with its original label and no pending timer, or
  disabled showing \<open>Sending...\<close> with exactly one pending timer that will restore the
  original label; the form's defaults never change.
\<close>

theorem submit_button_restored:
  "contact_inv label (contact_run (contact_start d label) es)"
  using contact_run_inv [OF contact_inv_start] .

text \<open>
  C15. The submit listener does not check the button: two \<open>submit\<close> events
  dispatched by a script before the first 2 s timer fires leave the button enabled but
  labelled \<open>Sending...\<close> for good, since the second call captured \<open>Sending...\<close> as
  its original text.
\<close>

theorem double_submit_sticks:
  "button_text (dispatch_run
      (contact_start \<lparr>fd_name = ''Ann'', fd_email = ''a@b.co'', fd_subject = ''Hi'', fd_message = ''Text''\<rparr>
         ''Send Message'')
      [SubmitEvent, SubmitEvent, SubmitTimeout, SubmitTimeout]) = ''Sending...''
   \<and> \<not> button_disabled (dispatch_run
      (contact_start \<lparr>fd_name = ''Ann'', fd_email = ''a@b.co'', fd_subject = ''Hi'', fd_message = ''Text''\<rparr>
         ''Send Message'')
      [SubmitEvent, SubmitEvent, SubmitTimeout, SubmitTimeout])"
proof -
  have v: "validateForm \<lparr>fd_name = ''Ann'', fd_email = ''a@b.co'', fd_subject = ''Hi'', fd_message = ''Text''\<rparr>
     = (True, None)"
    by (simp add: validateForm_def validation_errors_def js_trim_def isValidEmail_def matches_def
        email_regex_def plus_def email_char_def js_is_space_def)
  show ?thesis
    by (simp add: contact_start_def submit_handler_def submitForm_def submit_timeout_def v)
qed

end
