(* ===== verification/Timers.thy ===== *)
theory Timers
  imports Prelude "HOL-Library.Product_Lexorder"
begin

text \<open>
  The browser's timers, the interface through which \<open>debounce\<close> (lines 635--645 of
  \<^verbatim>\<open>src/portfolio/assets/js/script.js\<close>) and \<open>showNotification\<close> (lines 314--349)
  run code later. The host keeps a queue of pending timers, each a handle, a due time
  in milliseconds and the callback to run; \<open>setTimeout\<close> returns a fresh positive
  handle, \<open>clearTimeout\<close> of an unknown handle or of \<open>undefined\<close> does nothing, and
  the event loop runs due timers in order of due time, those due at the same time in
  the order they were scheduled. The queue is kept sorted by (due time, handle), so the
  next timer is its head. A client supplies the meaning of its callbacks as a function
  on its own state and the queue; \<open>run_until\<close> lets time pass up to a given instant,
  running every timer that falls due, including timers scheduled by the callbacks
  themselves. It is a \<open>partial_function (option)\<close>, because a callback that
  re-arms itself with delay 0 would keep the loop running forever; it returns for
  every client whose callbacks decrease a weight of the queue
  (\<open>run_until_terminates\<close>).
\<close>

type_synonym 'c timer = "nat \<times> nat \<times> 'c"

record 'c timer_queue =
  tq_clock :: nat
  tq_timers :: "'c timer list"
  tq_next :: nat

definition timer_key :: "'c timer \<Rightarrow> nat \<times> nat" where
  "timer_key tm = (fst (snd tm), fst tm)"

definition timers_empty :: "'c timer_queue" where
  "timers_empty = \<lparr>tq_clock = 0, tq_timers = [], tq_next = 1\<rparr>"

definition setTimeout :: "'c \<Rightarrow> nat \<Rightarrow> 'c timer_queue \<Rightarrow> nat \<times> 'c timer_queue" where
  "setTimeout c delay q =
     (tq_next q,
      q\<lparr>tq_timers := insort_key timer_key (tq_next q, tq_clock q + delay, c) (tq_timers q),
        tq_next := tq_next q + 1\<rparr>)"

definition clearTimeout :: "nat option \<Rightarrow> 'c timer_queue \<Rightarrow> 'c timer_queue" where
  "clearTimeout h q =
     (case h of
        None \<Rightarrow> q
      | Some k \<Rightarrow> q\<lparr>tq_timers := filter (\<lambda>tm. fst tm \<noteq> k) (tq_timers q)\<rparr>)"

text \<open>The next timer due at or before \<open>t\<close>, removed from the queue, the clock set to its due time.\<close>

definition pop_timer :: "nat \<Rightarrow> 'c timer_queue \<Rightarrow> ('c timer \<times> 'c timer_queue) option" where
  "pop_timer t q =
     (case tq_timers q of
        [] \<Rightarrow> None
      | tm # rest \<Rightarrow>
          (if fst (snd tm) \<le> t then Some (tm, q\<lparr>tq_clock := fst (snd tm), tq_timers := rest\<rparr>)
           else None))"

partial_function (option) run_until ::
  "('c \<Rightarrow> 's \<times> 'c timer_queue \<Rightarrow> 's \<times> 'c timer_queue) \<Rightarrow> nat \<Rightarrow> 's \<times> 'c timer_queue
     \<Rightarrow> ('s \<times> 'c timer_queue) option" where
  "run_until cb t sq =
     (case pop_timer t (snd sq) of
        None \<Rightarrow> Some (fst sq, (snd sq)\<lparr>tq_clock := max t (tq_clock (snd sq))\<rparr>)
      | Some (tm, q') \<Rightarrow> run_until cb t (cb (snd (snd tm)) (fst sq, q')))"

text \<open>
  Well-formed queues: sorted by (due, handle), handles distinct and below the next
  one, nothing overdue.
\<close>

definition queue_inv :: "'c timer_queue \<Rightarrow> bool" where
  "queue_inv q \<longleftrightarrow>
     sorted (map timer_key (tq_timers q)) \<and> distinct (map fst (tq_timers q)) \<and> 0 < tq_next q
     \<and> (\<forall>tm \<in> set (tq_timers q). 0 < fst tm \<and> fst tm < tq_next q \<and> tq_clock q \<le> fst (snd tm))"

definition queue_weight :: "('c \<Rightarrow> nat) \<Rightarrow> 'c timer_queue \<Rightarrow> nat" where
  "queue_weight w q = sum_list (map (\<lambda>tm. w (snd (snd tm))) (tq_timers q))"

subsection \<open>Lemmas\<close>

lemma sum_list_insort_key [simp]:
  "sum_list (map g (insort_key f x xs)) = (g x :: nat) + sum_list (map g xs)"
  by (induction xs) (auto simp: algebra_simps)

lemma distinct_map_insort_key:
  "distinct (map g (insort_key f x xs)) \<longleftrightarrow> g x \<notin> g ` set xs \<and> distinct (map g xs)"
  by (induction xs) (auto simp: set_insort_key)

lemma sorted_timers_head:
  "sorted (map timer_key (tm # rest)) \<Longrightarrow> \<forall>tm' \<in> set rest. fst (snd tm) \<le> fst (snd tm')"
  by (auto simp: timer_key_def less_eq_prod_def)

lemma clearTimeout_weight:
  "queue_weight w (clearTimeout h q) \<le> queue_weight w q"
  by (simp add: queue_weight_def clearTimeout_def sum_list_filter_le_nat split: option.split)

lemma clearTimeout_Nil:
  "tq_timers q = [] \<Longrightarrow> clearTimeout h q = q"
  by (cases q) (auto simp: clearTimeout_def split: option.split)

lemma setTimeout_Nil:
  "tq_timers q = [] \<Longrightarrow> setTimeout c d q =
     (tq_next q, q\<lparr>tq_timers := [(tq_next q, tq_clock q + d, c)], tq_next := tq_next q + 1\<rparr>)"
  by (simp add: setTimeout_def)

lemma clearTimeout_subset:
  "length (tq_timers (clearTimeout h q)) \<le> length (tq_timers q)
   \<and> set (tq_timers (clearTimeout h q)) \<subseteq> set (tq_timers q)"
  by (auto simp: clearTimeout_def split: option.split)

lemma setTimeout_timers [simp]:
  "tq_timers (snd (setTimeout c d q)) = insort_key timer_key (tq_next q, tq_clock q + d, c) (tq_timers q)"
  by (simp add: setTimeout_def)

lemma setTimeout_clock [simp]: "tq_clock (snd (setTimeout c d q)) = tq_clock q"
  by (simp add: setTimeout_def)

lemma set_pop_timer:
  "pop_timer t q = Some (tm, q') \<Longrightarrow> tq_timers q = tm # tq_timers q'"
  by (auto simp: pop_timer_def split: list.splits if_splits)

lemma pop_timer_weight:
  "pop_timer t q = Some (tm, q') \<Longrightarrow> queue_weight w q = w (snd (snd tm)) + queue_weight w q'"
  by (simp add: queue_weight_def set_pop_timer)

lemma pop_timer_None:
  "queue_inv q \<Longrightarrow> pop_timer t q = None \<longleftrightarrow> (\<forall>tm \<in> set (tq_timers q). t < fst (snd tm))"
proof (cases "tq_timers q")
  case (Cons tm rest)
  assume "queue_inv q"
  then have "sorted (map timer_key (tm # rest))" by (simp add: queue_inv_def Cons)
  then have "\<forall>tm' \<in> set rest. fst (snd tm) \<le> fst (snd tm')" by (rule sorted_timers_head)
  with Cons show ?thesis by (auto simp: pop_timer_def)
qed (simp add: pop_timer_def)

lemma queue_inv_empty [simp]: "queue_inv timers_empty"
  by (simp add: queue_inv_def timers_empty_def)

lemma queue_inv_setTimeout:
  "queue_inv q \<Longrightarrow> queue_inv (snd (setTimeout c d q))"
  by (auto simp: queue_inv_def setTimeout_def sorted_insort_key set_insort_key
      distinct_map_insort_key)

lemma queue_inv_clearTimeout:
  "queue_inv q \<Longrightarrow> queue_inv (clearTimeout h q)"
  by (auto simp: queue_inv_def clearTimeout_def sorted_filter distinct_map_filter
      split: option.split)

lemma queue_inv_pop_timer:
  assumes "queue_inv q" and "pop_timer t q = Some (tm, q')"
  shows "queue_inv q'"
proof -
  obtain rest where q: "tq_timers q = tm # rest"
    and q': "q' = q\<lparr>tq_clock := fst (snd tm), tq_timers := rest\<rparr>"
    using assms(2) by (auto simp: pop_timer_def split: list.splits if_splits)
  have "\<forall>tm' \<in> set rest. fst (snd tm) \<le> fst (snd tm')"
    using assms(1) q by (intro sorted_timers_head) (simp add: queue_inv_def)
  then show ?thesis using assms(1) q q' by (simp add: queue_inv_def)
qed

lemma run_until_stop:
  "pop_timer t (snd sq) = None \<Longrightarrow>
   run_until cb t sq = Some (fst sq, (snd sq)\<lparr>tq_clock := max t (tq_clock (snd sq))\<rparr>)"
  by (simp add: run_until.simps)

lemma run_until_fire:
  "pop_timer t (snd sq) = Some (tm, q') \<Longrightarrow> run_until cb t sq = run_until cb t (cb (snd (snd tm)) (fst sq, q'))"
  by (simp add: run_until.simps)

text \<open>
  The loop returns when the callbacks decrease the weight, and an invariant of the
  state that every fired callback and the final clock update keep holds of its result.
\<close>

lemma run_until_inv:
  assumes dec: "\<And>c s q. queue_weight w (snd (cb c (s, q))) < w c + queue_weight w q"
    and fire: "\<And>sq tm q'. P sq \<Longrightarrow> pop_timer t (snd sq) = Some (tm, q') \<Longrightarrow>
                 P (cb (snd (snd tm)) (fst sq, q'))"
    and stop: "\<And>sq. P sq \<Longrightarrow> pop_timer t (snd sq) = None \<Longrightarrow>
                 P (fst sq, (snd sq)\<lparr>tq_clock := max t (tq_clock (snd sq))\<rparr>)"
    and "P sq"
  shows "\<exists>y. run_until cb t sq = Some y \<and> P y"
  using \<open>P sq\<close>
proof (induction "queue_weight w (snd sq)" arbitrary: sq rule: less_induct)
  case less
  show ?case
  proof (cases "pop_timer t (snd sq)")
    case None
    with less.prems stop show ?thesis by (simp add: run_until.simps)
  next
    case (Some p)
    obtain tm q' where p: "p = (tm, q')" by (cases p)
    have "queue_weight w (snd (cb (snd (snd tm)) (fst sq, q'))) < queue_weight w (snd sq)"
      using dec [of "snd (snd tm)" "fst sq" q'] pop_timer_weight [of t "snd sq" tm q' w] Some p
      by simp
    moreover have "P (cb (snd (snd tm)) (fst sq, q'))" using fire less.prems Some p by simp
    ultimately have "\<exists>y. run_until cb t (cb (snd (snd tm)) (fst sq, q')) = Some y \<and> P y"
      by (rule less)
    with Some p show ?thesis by (simp add: run_until.simps)
  qed
qed

lemma run_until_terminates:
  assumes "\<And>c s q. queue_weight w (snd (cb c (s, q))) < w c + queue_weight w q"
  shows "\<exists>y. run_until cb t sq = Some y"
  using run_until_inv [where P = "\<lambda>_. True", OF assms] by blast

text \<open>
  A well-formed queue keeps its form when time passes, whichever the callbacks, as long
  as they keep it too.
\<close>

lemma queue_inv_stop:
  "queue_inv q \<Longrightarrow> pop_timer t q = None \<Longrightarrow> queue_inv (q\<lparr>tq_clock := max t (tq_clock q)\<rparr>)"
  by (auto simp: pop_timer_None queue_inv_def max_def)

text \<open>
  The host runs timers in order: from a well-formed queue the loop takes the
  timer with the least (due time, handle) among all pending ones, provided it is due
  by the target time, and then the rest of the queue; it stops exactly when no pending
  timer is due by then.
\<close>

lemma timers_fire_in_order:
  assumes "queue_inv q"
  shows "(pop_timer t q = Some (tm, q') \<longrightarrow>
            tm \<in> set (tq_timers q) \<and> fst (snd tm) \<le> t
            \<and> (\<forall>tm' \<in> set (tq_timers q). timer_key tm \<le> timer_key tm')
            \<and> tq_timers q' = remove1 tm (tq_timers q) \<and> tq_clock q' = fst (snd tm))
         \<and> (pop_timer t q = None \<longleftrightarrow> (\<forall>tm' \<in> set (tq_timers q). t < fst (snd tm')))"
proof (intro conjI impI)
  assume pop: "pop_timer t q = Some (tm, q')"
  then obtain rest where q: "tq_timers q = tm # rest"
    and q': "q' = q\<lparr>tq_clock := fst (snd tm), tq_timers := rest\<rparr>" and due: "fst (snd tm) \<le> t"
    by (auto simp: pop_timer_def split: list.splits if_splits)
  have "sorted (map timer_key (tm # rest))" using assms q by (simp add: queue_inv_def)
  then have "\<forall>tm' \<in> set (tq_timers q). timer_key tm \<le> timer_key tm'" using q by auto
  with q q' due show "tm \<in> set (tq_timers q)" "fst (snd tm) \<le> t"
    "\<forall>tm' \<in> set (tq_timers q). timer_key tm \<le> timer_key tm'"
    "tq_timers q' = remove1 tm (tq_timers q)" "tq_clock q' = fst (snd tm)" by simp_all
qed (use assms pop_timer_None in blast)+

end
