(* ===== verification/ContactTimers.thy ===== *)
theory ContactTimers
  imports ContactForm Timers
begin

text \<open>
  The contact form with its timer on the browser's queue of theory \<open>Timers\<close>. The
  submit listener (lines 245--262) and \<open>submitForm\<close> (lines 298--312) are those of
  theory \<open>ContactForm\<close>, but the arrow function passed to \<open>setTimeout(..., 2000)\<close> is
  now a pending timer carrying the \<open>originalText\<close> it captured (\<open>SubmitTimer\<close>), and
  every \<open>showNotification\<close> call is recorded with the time it happens
  (\<open>fp_shown\<close>). The notification's own timers belong to theory \<open>Notification\<close>: they
  touch neither the form nor its timer, so they run on a queue of their own, fed with
  these calls at these times.
\<close>

datatype form_cb = SubmitTimer string

record form_page =
  fp_values :: form_data
  fp_defaults :: form_data
  fp_button_text :: string
  fp_disabled :: bool
  fp_shown :: "(nat \<times> notification) list"

type_synonym form_world = "form_page \<times> form_cb timer_queue"

definition form_start :: "form_data \<Rightarrow> string \<Rightarrow> form_world" where
  "form_start defaults label =
     (\<lparr>fp_values = defaults, fp_defaults = defaults, fp_button_text = label, fp_disabled = False,
       fp_shown = []\<rparr>, timers_empty)"

text \<open>\<open>showNotification(message, type)\<close> at the current time.\<close>

definition show_now :: "notification \<Rightarrow> form_world \<Rightarrow> form_world" where
  "show_now n w = ((fst w)\<lparr>fp_shown := fp_shown (fst w) @ [(tq_clock (snd w), n)]\<rparr>, snd w)"

text \<open>Lines 300--311: capture the label, show the loading state, arm the 2 s timer.\<close>

definition submitForm_timed :: "form_world \<Rightarrow> form_world" where
  "submitForm_timed w =
     (let originalText = fp_button_text (fst w);
          s1 = (fst w)\<lparr>fp_button_text := ''Sending...'', fp_disabled := True\<rparr>
      in (s1, snd (setTimeout (SubmitTimer originalText) 2000 (snd w))))"

definition submit_handler_timed :: "form_world \<Rightarrow> form_world" where
  "submit_handler_timed w =
     (case validateForm (fp_values (fst w)) of
        (True, _) \<Rightarrow> submitForm_timed w
      | (False, None) \<Rightarrow> w
      | (False, Some n) \<Rightarrow> show_now n w)"

text \<open>The timer callback of lines 306--311.\<close>

fun form_fire :: "form_cb \<Rightarrow> form_world \<Rightarrow> form_world" where
  "form_fire (SubmitTimer originalText) w =
     (let w1 = show_now (Notification ''Message sent successfully!'' ''success'') w
      in ((fst w1)\<lparr>fp_values := fp_defaults (fst w1), fp_button_text := originalText,
                   fp_disabled := False\<rparr>, snd w1))"

text \<open>
  Timed events; before an event at time \<open>t\<close> the host runs the timers due by \<open>t\<close>. The
  user cannot submit while the button is disabled.
\<close>

datatype form_event = FormEdit nat form_data | FormSubmit nat | FormWait nat

fun form_step :: "form_world \<Rightarrow> form_event \<Rightarrow> form_world option" where
  "form_step w (FormEdit t d) = map_option (\<lambda>w. ((fst w)\<lparr>fp_values := d\<rparr>, snd w)) (run_until form_fire t w)"
| "form_step w (FormSubmit t) =
     map_option (\<lambda>w. if fp_disabled (fst w) then w else submit_handler_timed w) (run_until form_fire t w)"
| "form_step w (FormWait t) = run_until form_fire t w"

fun form_run :: "form_world \<Rightarrow> form_event list \<Rightarrow> form_world option" where
  "form_run w [] = Some w"
| "form_run w (e # es) = (case form_step w e of None \<Rightarrow> None | Some w' \<Rightarrow> form_run w' es)"

subsection \<open>The untimed model as an abstraction\<close>




subsection \<open>Lemmas\<close>

lemma form_fire_dec: "queue_weight (\<lambda>_. 1) (snd (form_fire c (s, q))) < 1 + queue_weight (\<lambda>_. 1) q"
  by (cases c) (simp add: show_now_def Let_def)

lemmas run_until_form = run_until_terminates [where w = "\<lambda>_. 1" and cb = form_fire, OF form_fire_dec]

lemma form_step_terminates: "\<exists>w'. form_step w e = Some w'"
proof (cases e)
  case (FormEdit t d)
  obtain y where "run_until form_fire t w = Some y" using run_until_form by blast
  with FormEdit show ?thesis by simp
next
  case (FormSubmit t)
  obtain y where "run_until form_fire t w = Some y" using run_until_form by blast
  with FormSubmit show ?thesis by simp
next
  case (FormWait t)
  then show ?thesis by (simp only: form_step.simps run_until_form)
qed

text \<open>A valid submission at \<open>s\<close>, seen at \<open>s + k\<close>.\<close>

lemma valid_submission:
  assumes "fst (validateForm d)"
  shows "\<exists>w. form_run (form_start d0 label) [FormEdit s d, FormSubmit s, FormWait (s + k)] = Some w
    \<and> fp_disabled (fst w) = (k < 2000)
    \<and> fp_button_text (fst w) = (if k < 2000 then ''Sending...'' else label)
    \<and> fp_values (fst w) = (if k < 2000 then d else d0)
    \<and> fp_shown (fst w) = (if k < 2000 then [] else [(s + 2000, Notification ''Message sent successfully!'' ''success'')])"
proof -
  obtain n where v: "validateForm d = (True, n)" using assms by (cases "validateForm d") auto
  show ?thesis
  proof (cases "k < 2000")
    case True
    with v show ?thesis
      by (simp add: form_start_def timers_empty_def run_until.simps pop_timer_def submit_handler_timed_def
          submitForm_timed_def setTimeout_def Let_def)
  next
    case False
    with v show ?thesis
      by (simp add: form_start_def timers_empty_def run_until.simps pop_timer_def submit_handler_timed_def
          submitForm_timed_def setTimeout_def show_now_def Let_def)
  qed
qed










subsection \<open>Properties\<close>


end
