(* ===== verification/Navigation.thy ===== *)
theory Navigation
  imports Prelude
begin

text \<open>
  The scroll- and link-driven parts of the page in
  \<^verbatim>\<open>src/portfolio/assets/js/script.js\<close>: \<open>initNavigation\<close> (lines 21--70: smooth
  scrolling to a section, active-link highlighting, navbar background),
  \<open>initMobileMenu\<close> (lines 433--467: the hamburger menu), \<open>initScrollToTop\<close>
  (lines 394--411) and \<open>initParallaxEffects\<close> (lines 470--481). Sections are given by
  their \<open>id\<close>, \<open>offsetTop\<close> and \<open>clientHeight\<close>, links by their \<open>href\<close>; the
  scroll position \<open>scrollY\<close> (= \<open>pageYOffset\<close>) is a real, as browsers report
  fractional offsets. A \<open>scroll\<close> event runs the four scroll listeners in registration
  order (\<open>scroll_event\<close>); a click on a navigation link runs the listener of
  \<open>initNavigation\<close> and then the one of \<open>initMobileMenu\<close> (\<open>nav_link_click\<close>).
\<close>

subsection \<open>Navigation\<close>

record section_box =
  sec_id :: string
  sec_top :: int
  sec_height :: int

text \<open>The active-section loop of lines 44--51: the last section whose window holds \<open>scrollY\<close>.\<close>

definition in_section :: "real \<Rightarrow> section_box \<Rightarrow> bool" where
  "in_section y s \<longleftrightarrow>
     (let sectionTop = sec_top s - 100 in real_of_int sectionTop \<le> y \<and> y < real_of_int (sectionTop + sec_height s))"

definition active_section :: "section_box list \<Rightarrow> real \<Rightarrow> string" where
  "active_section sections y = foldl (\<lambda>current s. if in_section y s then sec_id s else current) [] sections"

text \<open>Lines 53--58: a link is active exactly when its \<open>href\<close> is \<open>#current\<close>.\<close>

definition link_active :: "string list \<Rightarrow> string \<Rightarrow> bool list" where
  "link_active hrefs current = map (\<lambda>href. href = CHR ''#'' # current) hrefs"

definition navbar_background :: "real \<Rightarrow> string" where
  "navbar_background y = (if y > 100 then ''rgba(10, 10, 10, 0.98)'' else ''rgba(10, 10, 10, 0.95)'')"

text \<open>
  Lines 27--38: \<open>document.querySelector(href)\<close> is the document's selector engine,
  an input of the model (\<open>query\<close>): for a selector string it returns the
  \<open>offsetTop\<close> of the first matching element in document order, \<open>None\<close> for no
  match, or the \<open>SyntaxError\<close> it throws for a string that is not a valid selector
  (such as \<open>#\<close> or \<open>#1\<close>). The listener scrolls to 80 pixels above a match; an
  exception escapes the listener.
\<close>

definition scroll_target :: "(string \<Rightarrow> int option js_result) \<Rightarrow> string \<Rightarrow> int option js_result" where
  "scroll_target query href =
     (case query href of
        Inl e \<Rightarrow> Inl e
      | Inr None \<Rightarrow> Inr None
      | Inr (Some offsetTop) \<Rightarrow> Inr (Some (offsetTop - 80)))"

subsection \<open>Mobile menu\<close>

record menu_state =
  hamburger_active :: bool
  nav_menu_active :: bool
  bar_styles :: "string \<times> string \<times> string"

definition bars_open :: "string \<times> string \<times> string" where
  "bars_open = (''rotate(-45deg) translate(-5px, 6px)'', ''0'', ''rotate(45deg) translate(-5px, -6px)'')"

definition bars_closed :: "string \<times> string \<times> string" where
  "bars_closed = ([], ''1'', [])"

definition menu_start :: menu_state where
  "menu_start = \<lparr>hamburger_active = False, nav_menu_active = False, bar_styles = bars_closed\<rparr>"

text \<open>
  The three bars are \<open>transform\<close>, \<open>opacity\<close> and \<open>transform\<close> of the first, second
  and third \<open>.bar\<close>.
\<close>

definition hamburger_click :: "menu_state \<Rightarrow> menu_state" where
  "hamburger_click st =
     (let st1 = st\<lparr>hamburger_active := \<not> hamburger_active st, nav_menu_active := \<not> nav_menu_active st\<rparr>
      in if hamburger_active st1 then st1\<lparr>bar_styles := bars_open\<rparr> else st1\<lparr>bar_styles := bars_closed\<rparr>)"

definition menu_link_click :: "menu_state \<Rightarrow> menu_state" where
  "menu_link_click st =
     st\<lparr>hamburger_active := False, nav_menu_active := False, bar_styles := bars_closed\<rparr>"

datatype menu_event = HamburgerClick | NavLinkClick

fun menu_step :: "menu_state \<Rightarrow> menu_event \<Rightarrow> menu_state" where
  "menu_step st HamburgerClick = hamburger_click st"
| "menu_step st NavLinkClick = menu_link_click st"

fun menu_run :: "menu_state \<Rightarrow> menu_event list \<Rightarrow> menu_state" where
  "menu_run st [] = st"
| "menu_run st (e # es) = menu_run (menu_step st e) es"

definition menu_inv :: "menu_state \<Rightarrow> bool" where
  "menu_inv st \<longleftrightarrow>
     nav_menu_active st = hamburger_active st
     \<and> bar_styles st = (if hamburger_active st then bars_open else bars_closed)"

subsection \<open>Scroll listeners\<close>

text \<open>What the page shows as a function of the scroll position.\<close>

record scroll_view =
  active_links :: "bool list"
  navbar_bg :: string
  scroll_top_shown :: bool
  hero_translate :: real

text \<open>\<open>initScrollToTop\<close>: the button has class \<open>show\<close> past 500 pixels.\<close>

definition scroll_top_visible :: "real \<Rightarrow> bool" where
  "scroll_top_visible y \<longleftrightarrow> y > 500"

text \<open>\<open>initParallaxEffects\<close>: \<open>translateY(scrolled * 0.5 px)\<close>.\<close>

definition parallax_offset :: "real \<Rightarrow> real" where
  "parallax_offset scrolled = scrolled * 0.5"

definition scroll_event :: "section_box list \<Rightarrow> string list \<Rightarrow> real \<Rightarrow> scroll_view" where
  "scroll_event sections hrefs y =
     \<lparr>active_links = link_active hrefs (active_section sections y),
      navbar_bg = navbar_background y,
      scroll_top_shown = scroll_top_visible y,
      hero_translate = parallax_offset y\<rparr>"

text \<open>
  A click on a navigation link: the navigation listener cancels the jump and scrolls
  (if the target exists) or throws; the mobile-menu listener is a separate listener, so
  it closes the menu in either case.
\<close>

definition nav_link_click ::
  "(string \<Rightarrow> int option js_result) \<Rightarrow> string \<Rightarrow> menu_state \<Rightarrow> int option js_result \<times> menu_state" where
  "nav_link_click query href st = (scroll_target query href, menu_link_click st)"

text \<open>Sections laid out top to bottom, their highlight windows not overlapping.\<close>

fun sections_ordered :: "section_box list \<Rightarrow> bool" where
  "sections_ordered [] = True"
| "sections_ordered [s] = (0 \<le> sec_height s)"
| "sections_ordered (s # t # ss) =
     (0 \<le> sec_height s \<and> sec_top s + sec_height s \<le> sec_top t \<and> sections_ordered (t # ss))"

subsection \<open>Lemmas\<close>

lemma foldl_last_match:
  "foldl (\<lambda>cur s. if P s then f s else cur) c xs = (if filter P xs = [] then c else f (last (filter P xs)))"
  by (induction xs rule: rev_induct) auto

lemma sections_ordered_tail: "sections_ordered (s # ss) \<Longrightarrow> sections_ordered ss"
  by (cases ss) simp_all

lemma sections_ordered_below:
  "sections_ordered (s # ss) \<Longrightarrow> t \<in> set ss \<Longrightarrow> sec_top s + sec_height s \<le> sec_top t"
proof (induction ss arbitrary: s)
  case Nil
  then show ?case by simp
next
  case (Cons u ss)
  then have su: "sec_top s + sec_height s \<le> sec_top u" and o: "sections_ordered (u # ss)" by simp_all
  show ?case
  proof (cases "t = u")
    case True
    with su show ?thesis by simp
  next
    case False
    with Cons.prems have "t \<in> set ss" by simp
    have "0 \<le> sec_height u" using o by (cases ss) simp_all
    with Cons.IH [OF o \<open>t \<in> set ss\<close>] su show ?thesis by simp
  qed
qed

lemma filter_in_section_single:
  "sections_ordered ss \<Longrightarrow> s \<in> set ss \<Longrightarrow> in_section y s \<Longrightarrow> filter (in_section y) ss = [s]"
proof (induction ss)
  case Nil
  then show ?case by simp
next
  case (Cons u ss)
  show ?case
  proof (cases "u = s")
    case True
    have "\<not> in_section y t" if "t \<in> set ss" for t
      using sections_ordered_below [OF Cons.prems(1) that] Cons.prems(3) True
      by (auto simp: in_section_def Let_def)
    then have "filter (in_section y) ss = []" by (simp add: filter_empty_conv)
    with True Cons.prems(3) show ?thesis by simp
  next
    case False
    with Cons.prems have s: "s \<in> set ss" by simp
    from sections_ordered_below [OF Cons.prems(1) s] Cons.prems(3)
    have "\<not> in_section y u"
      using Cons.prems(1) by (cases ss) (auto simp: in_section_def Let_def)
    with Cons.IH [OF sections_ordered_tail [OF Cons.prems(1)] s Cons.prems(3)] show ?thesis by simp
  qed
qed

lemma active_section_eq:
  "sections_ordered ss \<Longrightarrow> s \<in> set ss \<Longrightarrow> in_section y s \<Longrightarrow> active_section ss y = sec_id s"
  by (simp add: active_section_def foldl_last_match filter_in_section_single)

lemma active_section_none:
  "\<forall>s \<in> set ss. \<not> in_section y s \<Longrightarrow> active_section ss y = []"
  by (simp add: active_section_def foldl_last_match filter_empty_conv)

lemma menu_step_inv: "menu_inv st \<Longrightarrow> menu_inv (menu_step st e)"
  by (cases e) (simp_all add: menu_inv_def hamburger_click_def menu_link_click_def Let_def)

lemma menu_run_inv: "menu_inv st \<Longrightarrow> menu_inv (menu_run st es)"
  by (induction es arbitrary: st) (simp_all add: menu_step_inv)

subsection \<open>Properties\<close>

text \<open>
  C18. When the sections are laid out top to bottom, the link highlighted on scrolling
  is exactly the one pointing at the section whose window \<open>[offsetTop - 100,
  offsetTop - 100 + clientHeight)\<close> holds the scroll position.
\<close>

theorem active_link_is_section:
  assumes "sections_ordered ss" "s \<in> set ss" "in_section y s"
  shows "active_links (scroll_event ss hrefs y) = map (\<lambda>h. h = CHR ''#'' # sec_id s) hrefs"
  using active_section_eq [OF assms] by (simp add: scroll_event_def link_active_def)

theorem active_link_is_section_witness:
  "active_links (scroll_event
      [\<lparr>sec_id = ''home'', sec_top = 0, sec_height = 600\<rparr>, \<lparr>sec_id = ''about'', sec_top = 600, sec_height = 800\<rparr>]
      [''#home'', ''#about''] 700) = [False, True]"
proof -
  have "sections_ordered
      [\<lparr>sec_id = ''home'', sec_top = 0, sec_height = 600\<rparr>, \<lparr>sec_id = ''about'', sec_top = 600, sec_height = 800\<rparr>]"
    by simp
  moreover have "in_section 700 \<lparr>sec_id = ''about'', sec_top = 600, sec_height = 800\<rparr>"
    by (simp add: in_section_def)
  ultimately show ?thesis
    using active_link_is_section [of _ "\<lparr>sec_id = ''about'', sec_top = 600, sec_height = 800\<rparr>" 700
        "[''#home'', ''#about'']"]
    by simp
qed

text \<open>
  C19. Above or between the section windows nothing is current, and the highlighting
  then compares every \<open>href\<close> with \<open>"#"\<close>: a link whose \<open>href\<close> is \<open>#\<close> becomes
  active while every section link is cleared.
\<close>

theorem no_section_hash_link:
  assumes "\<forall>s \<in> set ss. \<not> in_section y s"
  shows "active_links (scroll_event ss hrefs y) = map (\<lambda>h. h = ''#'') hrefs"
  using active_section_none [OF assms] by (simp add: scroll_event_def link_active_def)

theorem no_section_hash_link_witness:
  "active_links (scroll_event [\<lparr>sec_id = ''home'', sec_top = 300, sec_height = 600\<rparr>] [''#'', ''#home''] 100)
     = [True, False]"
proof -
  have "\<forall>s \<in> set [\<lparr>sec_id = ''home'', sec_top = 300, sec_height = 600\<rparr>]. \<not> in_section 100 s"
    by (simp add: in_section_def)
  from no_section_hash_link [OF this, of "[''#'', ''#home'']"] show ?thesis by simp
qed

text \<open>
  C20. The mobile menu: under any clicks on the hamburger and on navigation links the
  hamburger and the menu are open together or closed together, and the three bars
  show the cross exactly when open; a navigation link click always closes it, even when
  the navigation listener's \<open>querySelector\<close> throws, since the two are separate
  listeners.
\<close>

theorem menu_consistent:
  "menu_inv (menu_run menu_start es) \<and> \<not> hamburger_active (snd (nav_link_click query h st))
   \<and> \<not> nav_menu_active (snd (nav_link_click query h st))"
proof -
  have "menu_inv menu_start" by (simp add: menu_inv_def menu_start_def)
  then show ?thesis
    by (simp add: menu_run_inv nav_link_click_def menu_link_click_def)
qed

end
