(* ===== verification/Modal.thy ===== *)
theory Modal
  imports Prelude
begin

text \<open>
  The project-details overlay, \<open>initProjectModals\<close> in
  \<^verbatim>\<open>src/portfolio/assets/js/script.js\<close> (lines 146--239). The data is the object
  \<open>projectData\<close>, keyed by the strings \<open>"1"\<close>--\<open>"3"\<close> that a card's
  \<open>data-project\<close> attribute holds; the state is the modal's inline \<open>display\<close>, the
  body's \<open>overflow\<close> and the content \<open>showModal\<close> writes (record \<open>modal_state\<close>).
  The four listeners (card click, close button, click on the backdrop, \<open>Escape\<close>) are
  the events of \<open>modal_step\<close>. The links' HTML template is fixed text around the two
  interpolated URLs, which is what \<open>modal_links\<close> records.
\<close>

subsection \<open>Data\<close>

record project =
  p_title :: string
  p_description :: string
  p_tech :: "string list"
  p_demo :: string
  p_github :: string

definition projectData :: "string \<Rightarrow> project option" where
  "projectData =
     [''1'' \<mapsto> \<lparr>p_title = ''E-Commerce Platform'',
               p_description = ''A comprehensive full-stack e-commerce solution built with React, Node.js, and MongoDB. Features include user authentication, payment processing with Stripe, inventory management, order tracking, and an admin dashboard. The application handles high traffic with Redis caching and implements real-time notifications.'',
               p_tech = [''React'', ''Node.js'', ''MongoDB'', ''Stripe'', ''Redis'', ''Socket.io''],
               p_demo = ''#'', p_github = ''#''\<rparr>,
      ''2'' \<mapsto> \<lparr>p_title = ''Task Management App'',
               p_description = ''A collaborative task management application built with Vue.js, Express, and PostgreSQL. Features real-time updates, team collaboration, file sharing, progress tracking, and deadline management. Implements role-based access control and integrates with popular project management tools.'',
               p_tech = [''Vue.js'', ''Express'', ''PostgreSQL'', ''WebSocket'', ''AWS S3'', ''JWT''],
               p_demo = ''#'', p_github = ''#''\<rparr>,
      ''3'' \<mapsto> \<lparr>p_title = ''Social Media Dashboard'',
               p_description = ''A comprehensive social media analytics dashboard built with React, TypeScript, and Firebase. Provides real-time analytics, engagement metrics, content scheduling, and performance insights across multiple social media platforms. Features interactive charts and customizable reports.'',
               p_tech = [''React'', ''TypeScript'', ''Firebase'', ''Chart.js'', ''Material-UI'', ''REST APIs''],
               p_demo = ''#'', p_github = ''#''\<rparr>]"

record modal_state =
  modal_display :: string
  body_overflow :: string
  modal_title :: string
  modal_description :: string
  modal_tech_html :: string
  modal_links :: "string \<times> string"
  modal_errors :: "js_error list"

definition modal_start :: modal_state where
  "modal_start =
     \<lparr>modal_display = [], body_overflow = [], modal_title = [], modal_description = [],
      modal_tech_html = [], modal_links = ([], []), modal_errors = []\<rparr>"

subsection \<open>Operations\<close>

text \<open>\<open>data.tech.map(tech => `<span class="tech-badge">${tech}</span>`).join('')\<close>.\<close>

definition tech_badges :: "string list \<Rightarrow> string" where
  "tech_badges techs = concat (map (\<lambda>tech. ''<span class=\"tech-badge\">'' @ tech @ ''</span>'') techs)"

definition showModal :: "project \<Rightarrow> modal_state \<Rightarrow> modal_state" where
  "showModal d st =
     st\<lparr>modal_title := p_title d, modal_description := p_description d,
        modal_tech_html := tech_badges (p_tech d), modal_links := (p_demo d, p_github d),
        modal_display := ''block'', body_overflow := ''hidden''\<rparr>"

definition closeModal :: "modal_state \<Rightarrow> modal_state" where
  "closeModal st = st\<lparr>modal_display := ''none'', body_overflow := ''auto''\<rparr>"

text \<open>
  \<open>projectData[projectId]\<close> follows the prototype chain: besides the three own keys,
  the names of \<open>Object.prototype\<close>'s members yield a truthy value (a function, or the
  prototype itself for \<open>__proto__\<close>) with no \<open>title\<close>, \<open>description\<close> or
  \<open>tech\<close>.
\<close>

definition object_prototype_keys :: "string list" where
  "object_prototype_keys =
     [''constructor'', ''__defineGetter__'', ''__defineSetter__'', ''hasOwnProperty'',
      ''__lookupGetter__'', ''__lookupSetter__'', ''isPrototypeOf'', ''propertyIsEnumerable'',
      ''toString'', ''valueOf'', ''__proto__'', ''toLocaleString'']"

text \<open>
  On such a value \<open>showModal\<close> writes \<open>undefined\<close> to the two \<open>textContent\<close>s (which
  clears them) and then throws at \<open>data.tech.map\<close>, before the overlay is shown.
\<close>

definition showModal_inherited :: "modal_state \<Rightarrow> modal_state" where
  "showModal_inherited st =
     st\<lparr>modal_title := [], modal_description := [],
        modal_errors := modal_errors st @ [TypeError ''Cannot read properties of undefined (reading 'map')'']\<rparr>"

text \<open>
  A card's \<open>getAttribute('data-project')\<close> is \<open>None\<close> when absent, and the lookup is
  then of the key \<open>"null"\<close>; an unknown key gives \<open>undefined\<close>, and nothing happens.
\<close>

definition project_lookup :: "string \<Rightarrow> modal_state \<Rightarrow> modal_state" where
  "project_lookup k st =
     (case projectData k of
        Some d \<Rightarrow> showModal d st
      | None \<Rightarrow> if k \<in> set object_prototype_keys then showModal_inherited st else st)"

definition card_click :: "string option \<Rightarrow> modal_state \<Rightarrow> modal_state" where
  "card_click projectId st =
     (case projectId of None \<Rightarrow> project_lookup ''null'' st | Some k \<Rightarrow> project_lookup k st)"

datatype modal_event =
    CardClick "string option"
  | CloseButtonClick
  | ModalClick bool
  | KeyDown string

fun modal_step :: "modal_state \<Rightarrow> modal_event \<Rightarrow> modal_state" where
  "modal_step st (CardClick k) = card_click k st"
| "modal_step st CloseButtonClick = closeModal st"
| "modal_step st (ModalClick target_is_modal) = (if target_is_modal then closeModal st else st)"
| "modal_step st (KeyDown key) =
     (if key = ''Escape'' \<and> modal_display st = ''block'' then closeModal st else st)"

fun modal_run :: "modal_state \<Rightarrow> modal_event list \<Rightarrow> modal_state" where
  "modal_run st [] = st"
| "modal_run st (e # es) = modal_run (modal_step st e) es"

text \<open>The page scrolls exactly when the overlay is not shown.\<close>

definition modal_inv :: "modal_state \<Rightarrow> bool" where
  "modal_inv st \<longleftrightarrow> (modal_display st = ''block'') = (body_overflow st = ''hidden'')"

subsection \<open>Lemmas\<close>

lemma card_click_cases:
  "card_click k st = st \<or> card_click k st = showModal_inherited st \<or> (\<exists>d. card_click k st = showModal d st)"
  by (auto simp: card_click_def project_lookup_def split: option.split)

lemma modal_step_inv: "modal_inv st \<Longrightarrow> modal_inv (modal_step st e)"
proof (cases e)
  case (CardClick k)
  then show "modal_inv st \<Longrightarrow> ?thesis"
    using card_click_cases [of k st] by (auto simp: modal_inv_def showModal_def showModal_inherited_def)
qed (auto simp: modal_inv_def closeModal_def)

lemma modal_run_inv: "modal_inv st \<Longrightarrow> modal_inv (modal_run st es)"
  by (induction es arbitrary: st) (simp_all add: modal_step_inv)

subsection \<open>Properties\<close>

text \<open>
  C21. Under any sequence of card clicks, close clicks, backdrop clicks and key
  presses, the body's scrolling is locked (\<open>overflow: hidden\<close>) exactly while the
  overlay is displayed.
\<close>

theorem modal_locks_scrolling:
  "(modal_display (modal_run modal_start es) = ''block'')
     = (body_overflow (modal_run modal_start es) = ''hidden'')"
proof -
  have "modal_inv modal_start" by (simp add: modal_inv_def modal_start_def)
  then show ?thesis using modal_run_inv [of modal_start es] by (simp add: modal_inv_def)
qed

end
