(* ===== verification/Debounce.thy ===== *)
theory Debounce
  imports Timers
begin

text \<open>
  The \<open>debounce\<close> utility of lines 635--645 and the debounced scroll listener of lines
  647--652. \<open>debounce(func, wait)\<close> returns \<open>executedFunction\<close>, a closure over the
  variable \<open>timeout\<close> (record \<open>debounce_state\<close>, with the calls \<open>func\<close> has received
  so far); each call clears the pending timer and schedules \<open>later\<close>, which clears
  \<open>timeout\<close> again and calls \<open>func\<close> with the arguments of the call that scheduled
  it. Time and the pending timers are those of theory \<open>Timers\<close>; an event is a call
  at a given time (\<open>Invoke\<close>) or time passing without a call (\<open>Idle\<close>), and before an
  event at time \<open>t\<close> the host runs the timers due by \<open>t\<close>.
\<close>

datatype 'a deb_callback = Later 'a

record 'a debounce_state =
  deb_timeout :: "nat option"
  deb_calls :: "'a list"

type_synonym 'a deb_world = "'a debounce_state \<times> 'a deb_callback timer_queue"

definition debounce :: "'a debounce_state" where
  "debounce = \<lparr>deb_timeout = None, deb_calls = []\<rparr>"

definition deb_start :: "'a deb_world" where
  "deb_start = (debounce, timers_empty)"

definition executedFunction :: "nat \<Rightarrow> 'a \<Rightarrow> 'a deb_world \<Rightarrow> 'a deb_world" where
  "executedFunction wait args sq =
     (let q1 = clearTimeout (deb_timeout (fst sq)) (snd sq);
          (h, q2) = setTimeout (Later args) wait q1
      in ((fst sq)\<lparr>deb_timeout := Some h\<rparr>, q2))"

fun later :: "'a deb_callback \<Rightarrow> 'a deb_world \<Rightarrow> 'a deb_world" where
  "later (Later args) (s, q) = (s\<lparr>deb_calls := deb_calls s @ [args]\<rparr>, clearTimeout (deb_timeout s) q)"

datatype 'a deb_event = Invoke nat 'a | Idle nat

fun deb_step :: "nat \<Rightarrow> 'a deb_world \<Rightarrow> 'a deb_event \<Rightarrow> 'a deb_world option" where
  "deb_step wait sq (Invoke t args) = map_option (executedFunction wait args) (run_until later t sq)"
| "deb_step wait sq (Idle t) = run_until later t sq"

fun deb_run :: "nat \<Rightarrow> 'a deb_world \<Rightarrow> 'a deb_event list \<Rightarrow> 'a deb_world option" where
  "deb_run wait sq [] = Some sq"
| "deb_run wait sq (e # es) =
     (case deb_step wait sq e of None \<Rightarrow> None | Some sq' \<Rightarrow> deb_run wait sq' es)"

text \<open>\<open>debounce(function() {}, 10)\<close>, fed the scroll events' times.\<close>

definition debouncedScrollHandler :: "nat list \<Rightarrow> unit deb_world option" where
  "debouncedScrollHandler ts = deb_run 10 deb_start (map (\<lambda>t. Invoke t ()) ts)"

text \<open>At most one timer is pending, and \<open>timeout\<close> holds its handle.\<close>

definition deb_inv :: "'a deb_world \<Rightarrow> bool" where
  "deb_inv sq \<longleftrightarrow> queue_inv (snd sq)
     \<and> (tq_timers (snd sq) = [] \<or> (\<exists>tm. tq_timers (snd sq) = [tm] \<and> deb_timeout (fst sq) = Some (fst tm)))"

text \<open>
  Accounting against the calls made so far: each call of \<open>func\<close> and each pending timer
  stands for a distinct call of \<open>executedFunction\<close>, and carries its arguments.
\<close>

definition deb_count :: "nat \<Rightarrow> 'a set \<Rightarrow> 'a deb_world \<Rightarrow> bool" where
  "deb_count n A sq \<longleftrightarrow> length (deb_calls (fst sq)) + length (tq_timers (snd sq)) \<le> n
     \<and> set (deb_calls (fst sq)) \<subseteq> A \<and> (\<forall>tm \<in> set (tq_timers (snd sq)). snd (snd tm) \<in> Later ` A)"

text \<open>A burst: calls in time order, each less than \<open>wait\<close> after the one before.\<close>

fun burst :: "nat \<Rightarrow> (nat \<times> 'a) list \<Rightarrow> bool" where
  "burst wait (c1 # c2 # cs) = (fst c1 \<le> fst c2 \<and> fst c2 < fst c1 + wait \<and> burst wait (c2 # cs))"
| "burst wait _ = True"

definition invocations :: "'a deb_event list \<Rightarrow> 'a list" where
  "invocations es = concat (map (\<lambda>e. case e of Invoke t a \<Rightarrow> [a] | Idle t \<Rightarrow> []) es)"

definition deb_pending :: "nat \<Rightarrow> 'a list \<Rightarrow> nat \<Rightarrow> 'a \<Rightarrow> 'a deb_world \<Rightarrow> bool" where
  "deb_pending wait C t a sq \<longleftrightarrow> deb_calls (fst sq) = C \<and> tq_clock (snd sq) = t
     \<and> (\<exists>h. deb_timeout (fst sq) = Some h \<and> tq_timers (snd sq) = [(h, t + wait, Later a)])"

subsection \<open>Lemmas\<close>

lemma later_dec: "queue_weight (\<lambda>_. 1) (snd (later c (s, q))) < 1 + queue_weight (\<lambda>_. 1) q"
  by (cases c) (simp add: le_imp_less_Suc clearTimeout_weight)

lemmas run_until_later = run_until_terminates [where w = "\<lambda>_. 1" and cb = later, OF later_dec]

lemma deb_step_terminates: "\<exists>y. deb_step wait sq e = Some y"
proof (cases e)
  case (Invoke t a)
  obtain y where "run_until later t sq = Some y" using run_until_later by blast
  with Invoke show ?thesis by simp
next
  case (Idle t)
  then show ?thesis by (simp only: deb_step.simps run_until_later)
qed

lemma deb_run_append:
  "deb_run wait sq (xs @ ys) = (case deb_run wait sq xs of None \<Rightarrow> None | Some sq' \<Rightarrow> deb_run wait sq' ys)"
  by (induction xs arbitrary: sq) (simp_all split: option.split)

text \<open>Clearing \<open>timeout\<close> empties a queue that has the invariant.\<close>

lemma clear_pending:
  "deb_inv sq \<Longrightarrow> tq_timers (clearTimeout (deb_timeout (fst sq)) (snd sq)) = []"
  by (auto simp: deb_inv_def clearTimeout_def split: option.split)

lemma executedFunction_eq:
  assumes "deb_inv sq"
  defines "q1 \<equiv> clearTimeout (deb_timeout (fst sq)) (snd sq)"
  shows "executedFunction wait a sq = ((fst sq)\<lparr>deb_timeout := Some (tq_next q1)\<rparr>, snd (setTimeout (Later a) wait q1))
    \<and> tq_timers (snd (setTimeout (Later a) wait q1)) = [(tq_next q1, tq_clock q1 + wait, Later a)]
    \<and> queue_inv (snd (setTimeout (Later a) wait q1))"
proof -
  have "tq_timers q1 = []" using clear_pending [OF assms(1)] by (simp add: q1_def)
  moreover have "queue_inv q1" using assms(1) by (simp add: q1_def deb_inv_def queue_inv_clearTimeout)
  then have "queue_inv (snd (setTimeout (Later a) wait q1))" by (rule queue_inv_setTimeout)
  ultimately show ?thesis by (simp add: q1_def executedFunction_def setTimeout_Nil Let_def)
qed

lemma executedFunction_inv: "deb_inv sq \<Longrightarrow> deb_inv (executedFunction wait a sq)"
  using executedFunction_eq [of sq wait a] by (simp add: deb_inv_def)

lemma run_until_deb_inv: "deb_inv sq \<Longrightarrow> \<exists>y. run_until later t sq = Some y \<and> deb_inv y"
proof (rule run_until_inv [OF later_dec])
  fix sq :: "'a deb_world" and tm q'
  assume inv: "deb_inv sq" and pop: "pop_timer t (snd sq) = Some (tm, q')"
  then have "tq_timers (snd sq) = [tm]" "tq_timers q' = []"
    using set_pop_timer [OF pop] by (auto simp: deb_inv_def)
  moreover have "queue_inv q'" using inv pop by (auto simp: deb_inv_def intro: queue_inv_pop_timer)
  ultimately show "deb_inv (later (snd (snd tm)) (fst sq, q'))"
    by (cases "snd (snd tm)") (simp add: deb_inv_def clearTimeout_Nil)
next
  fix sq :: "'a deb_world"
  assume "deb_inv sq" "pop_timer t (snd sq) = None"
  then show "deb_inv (fst sq, (snd sq)\<lparr>tq_clock := max t (tq_clock (snd sq))\<rparr>)"
    by (auto simp: deb_inv_def intro: queue_inv_stop)
qed

lemma deb_run_inv: "deb_inv sq \<Longrightarrow> \<exists>y. deb_run wait sq es = Some y \<and> deb_inv y"
proof (induction es arbitrary: sq)
  case (Cons e es)
  have "\<exists>y. deb_step wait sq e = Some y \<and> deb_inv y"
  proof (cases e)
    case (Invoke t a)
    obtain y where "run_until later t sq = Some y" "deb_inv y"
      using run_until_deb_inv [OF Cons.prems, of t] by blast
    with Invoke executedFunction_inv [of y wait a] show ?thesis by simp
  next
    case (Idle t)
    with run_until_deb_inv [OF Cons.prems, of t] show ?thesis by auto
  qed
  with Cons.IH show ?case by auto
qed simp

lemma count_fire:
  assumes "deb_count n A sq" and pop: "pop_timer t (snd sq) = Some (tm, q')"
  shows "deb_count n A (later (snd (snd tm)) (fst sq, q'))"
proof -
  have q: "tq_timers (snd sq) = tm # tq_timers q'" using pop by (rule set_pop_timer)
  then obtain a where a: "snd (snd tm) = Later a" "a \<in> A" using assms(1) by (auto simp: deb_count_def)
  note clearTimeout_subset [of "deb_timeout (fst sq)" q']
  then show ?thesis using assms(1) q a by (fastforce simp: deb_count_def)
qed

lemma count_exec:
  assumes "deb_count n A sq" "a \<in> A"
  shows "deb_count (Suc n) A (executedFunction wait a sq)"
proof -
  define q1 where "q1 = clearTimeout (deb_timeout (fst sq)) (snd sq)"
  have "executedFunction wait a sq = ((fst sq)\<lparr>deb_timeout := Some (tq_next q1)\<rparr>, snd (setTimeout (Later a) wait q1))"
    by (simp add: executedFunction_def q1_def setTimeout_def Let_def)
  moreover note clearTimeout_subset [of "deb_timeout (fst sq)" "snd sq", folded q1_def]
  ultimately show ?thesis using assms by (fastforce simp: deb_count_def length_insort set_insort_key)
qed

lemma run_until_count:
  "deb_count n A sq \<Longrightarrow> \<exists>y. run_until later t sq = Some y \<and> deb_count n A y"
proof (rule run_until_inv [OF later_dec])
  fix sq' :: "'a deb_world" and tm q'
  assume "deb_count n A sq'" "pop_timer t (snd sq') = Some (tm, q')"
  then show "deb_count n A (later (snd (snd tm)) (fst sq', q'))" by (rule count_fire)
qed (simp_all add: deb_count_def)

lemma deb_run_count:
  "deb_count n A sq \<Longrightarrow> set (invocations es) \<subseteq> A \<Longrightarrow>
   \<exists>y. deb_run wait sq es = Some y \<and> deb_count (n + length (invocations es)) A y"
proof (induction es arbitrary: n sq)
  case (Cons e es)
  show ?case
  proof (cases e)
    case (Invoke t a)
    obtain y where "run_until later t sq = Some y" "deb_count n A y"
      using run_until_count [OF Cons.prems(1)] by blast
    moreover have "a \<in> A" "set (invocations es) \<subseteq> A" using Cons.prems(2) Invoke
      by (simp_all add: invocations_def)
    ultimately show ?thesis using Cons.IH [OF count_exec] Invoke by (simp add: invocations_def)
  next
    case (Idle t)
    obtain y where "run_until later t sq = Some y" "deb_count n A y"
      using run_until_count [OF Cons.prems(1)] by blast
    with Cons.IH [of n y] Cons.prems(2) Idle show ?thesis by (simp add: invocations_def)
  qed
qed (simp add: invocations_def)

subsubsection \<open>A burst of calls\<close>

lemma pending_first:
  "\<exists>y. deb_step wait deb_start (Invoke t a) = Some y \<and> deb_pending wait [] t a y"
  by (simp add: run_until_stop pop_timer_def deb_start_def debounce_def timers_empty_def
      executedFunction_def clearTimeout_def setTimeout_def deb_pending_def)

lemma pending_step:
  assumes "deb_pending wait C t a sq" "t \<le> t'" "t' < t + wait"
  shows "\<exists>y. deb_step wait sq (Invoke t' a') = Some y \<and> deb_pending wait C t' a' y"
proof -
  obtain h where h: "deb_timeout (fst sq) = Some h" "tq_timers (snd sq) = [(h, t + wait, Later a)]"
    using assms(1) by (auto simp: deb_pending_def)
  then have "pop_timer t' (snd sq) = None" using assms(3) by (simp add: pop_timer_def)
  then show ?thesis using assms h
    by (simp add: run_until_stop executedFunction_def clearTimeout_def setTimeout_def deb_pending_def)
qed

lemma pending_fire:
  assumes "deb_pending wait C t a sq"
  shows "\<exists>y. deb_step wait sq (Idle (t + wait)) = Some y \<and> deb_calls (fst y) = C @ [a]
           \<and> tq_timers (snd y) = []"
proof -
  obtain h where h: "deb_timeout (fst sq) = Some h" "tq_timers (snd sq) = [(h, t + wait, Later a)]"
    using assms by (auto simp: deb_pending_def)
  define q' where "q' = (snd sq)\<lparr>tq_clock := t + wait, tq_timers := []\<rparr>"
  have "pop_timer (t + wait) (snd sq) = Some ((h, t + wait, Later a), q')"
    using h by (simp add: pop_timer_def q'_def)
  moreover have "pop_timer (t + wait) (snd (later (Later a) (fst sq, q'))) = None"
    by (simp add: q'_def clearTimeout_Nil pop_timer_def)
  ultimately show ?thesis using assms
    by (simp add: run_until_fire run_until_stop deb_pending_def q'_def clearTimeout_Nil)
qed

lemma burst_run:
  "burst wait ((t, a) # cs) \<Longrightarrow> deb_pending wait C t a sq \<Longrightarrow>
   \<exists>y. deb_run wait sq (map (\<lambda>(t, a). Invoke t a) cs) = Some y
     \<and> deb_pending wait C (fst (last ((t, a) # cs))) (snd (last ((t, a) # cs))) y"
proof (induction cs arbitrary: t a sq)
  case (Cons c cs)
  obtain t' a' where c: "c = (t', a')" by (cases c)
  have "t \<le> t'" "t' < t + wait" using Cons.prems(1) c by simp_all
  then obtain y where step: "deb_step wait sq (Invoke t' a') = Some y" and "deb_pending wait C t' a' y"
    using pending_step [OF Cons.prems(2)] by blast
  moreover have "burst wait ((t', a') # cs)" using Cons.prems(1) c by simp
  moreover have "deb_run wait sq (map (\<lambda>(t, a). Invoke t a) (c # cs)) = deb_run wait y (map (\<lambda>(t, a). Invoke t a) cs)"
    by (simp only: c list.map prod.case deb_run.simps step option.case)
  ultimately show ?case using Cons.IH [of t' a' y] c by simp
qed simp

subsection \<open>Properties\<close>

text \<open>
  C22. Whatever the calls and pauses, the debounced function returns to the event loop
  after every event, the host's queue stays well formed, and at most one timer of the
  closure is pending, its handle held in \<open>timeout\<close>: every call cancels the timer of
  the call before.
\<close>

theorem debounce_single_timer: "\<exists>y. deb_run wait deb_start es = Some y \<and> deb_inv y"
  by (rule deb_run_inv) (simp add: deb_inv_def deb_start_def, simp add: timers_empty_def)

theorem debounce_single_timer_witness:
  "\<exists>y. deb_run 10 deb_start [Invoke 0 ''a'', Idle 3, Invoke 5 ''b''] = Some y \<and> deb_inv y"
  by (rule debounce_single_timer)

text \<open>
  C23. Trailing-edge debouncing: for calls in time order, each less than \<open>wait\<close>
  milliseconds after the previous one, \<open>func\<close> is not called during the burst (one
  timer is pending at its end), and once \<open>wait\<close> milliseconds have passed after the
  last call, \<open>func\<close> has been called exactly once, with the arguments of that last
  call.
\<close>

theorem debounce_trailing_edge:
  assumes "burst wait cs" and "cs \<noteq> []"
  shows "(\<exists>y. deb_run wait deb_start (map (\<lambda>(t, a). Invoke t a) cs) = Some y
            \<and> deb_calls (fst y) = [] \<and> length (tq_timers (snd y)) = 1)
       \<and> (\<exists>y. deb_run wait deb_start (map (\<lambda>(t, a). Invoke t a) cs @ [Idle (fst (last cs) + wait)]) = Some y
            \<and> deb_calls (fst y) = [snd (last cs)])"
proof -
  obtain t a cs' where cs: "cs = (t, a) # cs'" using assms(2) by (cases cs) auto
  obtain y0 where y0: "deb_step wait deb_start (Invoke t a) = Some y0" "deb_pending wait [] t a y0"
    using pending_first [of wait t a] by (elim exE conjE)
  obtain y where y: "deb_run wait y0 (map (\<lambda>(t, a). Invoke t a) cs') = Some y"
    and p: "deb_pending wait [] (fst (last cs)) (snd (last cs)) y"
    using burst_run [OF assms(1) [unfolded cs] y0(2)] cs by auto
  have run: "deb_run wait deb_start (map (\<lambda>(t, a). Invoke t a) cs) = Some y"
    by (simp only: cs list.map prod.case deb_run.simps y0(1) option.case y)
  obtain z where "deb_step wait y (Idle (fst (last cs) + wait)) = Some z" "deb_calls (fst z) = [snd (last cs)]"
    using pending_fire [OF p] by auto
  with run p show ?thesis by (auto simp: deb_run_append deb_pending_def)
qed

theorem debounce_trailing_edge_witness:
  "\<exists>y. deb_run 10 deb_start [Invoke 0 ''a'', Invoke 5 ''b'', Invoke 12 ''c'', Idle 22] = Some y
     \<and> deb_calls (fst y) = [''c'']"
proof -
  have "burst 10 [(0, ''a''), (5, ''b''), (12 :: nat, ''c'')]" by simp
  from conjunct2 [OF debounce_trailing_edge [OF this]] show ?thesis by simp
qed

text \<open>
  C24. Debouncing never adds calls: after any events \<open>func\<close> has been called at most
  as many times as the debounced function, and only with arguments it was given.
\<close>

theorem debounce_calls_bounded:
  "\<exists>y. deb_run wait deb_start es = Some y \<and> length (deb_calls (fst y)) \<le> length (invocations es)
     \<and> set (deb_calls (fst y)) \<subseteq> set (invocations es)"
proof -
  have "deb_count 0 (set (invocations es)) deb_start"
    by (simp add: deb_count_def deb_start_def debounce_def timers_empty_def)
  from deb_run_count [OF this order_refl, of wait] show ?thesis by (auto simp: deb_count_def)
qed

end
