(* ===== verification/Notification.thy ===== *)
theory Notification
  imports ContactForm Timers "HOL-Library.AList"
begin

text \<open>
  The toasts of \<open>showNotification\<close> (lines 314--349, nested in \<open>initContactForm\<close>):
  each call creates a \<open>div\<close> with class \<open>notification notification-<type>\<close>, the
  message as its text and eleven inline style properties, appends it to the body, and
  schedules three timers: after 100 ms it slides in (\<open>transform\<close> becomes
  \<open>translateX(0)\<close>), after 5000 ms it slides out, and 300 ms after that it is removed
  from the body. The notifications are those the contact form asks for (datatype
  \<open>notification\<close> of theory \<open>ContactForm\<close>); the timers run on the queue of theory
  \<open>Timers\<close>. Elements are numbered in order of creation; the body is the list of the
  notification elements it holds. A \<open>removeChild\<close> of a node that is not a child
  throws a \<open>NotFoundError\<close>, which the host reports (\<open>nt_errors\<close>); the invariant
  shows it never happens.
\<close>

record notif_el =
  nel_className :: string
  nel_text :: string
  nel_style :: "(string \<times> string) list"

record notif_state =
  nt_nodes :: "notif_el list"
  nt_body :: "nat list"
  nt_errors :: "js_error list"

datatype notif_cb = SlideIn nat | SlideOut nat | RemoveNode nat

type_synonym notif_world = "notif_state \<times> notif_cb timer_queue"

definition notif_start :: notif_world where
  "notif_start = (\<lparr>nt_nodes = [], nt_body = [], nt_errors = []\<rparr>, timers_empty)"

text \<open>The \<open>Object.assign(notification.style, {...})\<close> of lines 321--333.\<close>

definition notification_style :: "string \<Rightarrow> (string \<times> string) list" where
  "notification_style type =
     [(''position'', ''fixed''), (''top'', ''20px''), (''right'', ''20px''), (''padding'', ''1rem 2rem''),
      (''borderRadius'', ''8px''), (''color'', ''#fff''), (''fontWeight'', ''500''), (''zIndex'', ''3000''),
      (''transform'', ''translateX(400px)''), (''transition'', ''transform 0.3s ease''),
      (''backgroundColor'', if type = ''success'' then ''#00ff88'' else ''#ff0066'')]"

definition showNotification :: "notification \<Rightarrow> notif_world \<Rightarrow> notif_world" where
  "showNotification n sq =
     (case n of Notification message type \<Rightarrow>
        let s = fst sq; i = length (nt_nodes s);
            el = \<lparr>nel_className = ''notification notification-'' @ type, nel_text = message,
                  nel_style = notification_style type\<rparr>;
            s' = s\<lparr>nt_nodes := nt_nodes s @ [el], nt_body := nt_body s @ [i]\<rparr>;
            q1 = snd (setTimeout (SlideIn i) 100 (snd sq));
            q2 = snd (setTimeout (SlideOut i) 5000 q1)
        in (s', q2))"

definition set_transform :: "nat \<Rightarrow> string \<Rightarrow> notif_state \<Rightarrow> notif_state" where
  "set_transform i v s =
     s\<lparr>nt_nodes := (nt_nodes s)[i := (nt_nodes s ! i)\<lparr>nel_style := AList.update ''transform'' v (nel_style (nt_nodes s ! i))\<rparr>]\<rparr>"

definition removeChild :: "nat \<Rightarrow> notif_state \<Rightarrow> notif_state" where
  "removeChild i s =
     (if i \<in> set (nt_body s) then s\<lparr>nt_body := remove1 i (nt_body s)\<rparr>
      else s\<lparr>nt_errors := nt_errors s @ [DOMException ''NotFoundError''
              ''Failed to execute 'removeChild' on 'Node': The node to be removed is not a child of this node.'']\<rparr>)"

fun notif_fire :: "notif_cb \<Rightarrow> notif_world \<Rightarrow> notif_world" where
  "notif_fire (SlideIn i) (s, q) = (set_transform i ''translateX(0)'' s, q)"
| "notif_fire (SlideOut i) (s, q) = (set_transform i ''translateX(400px)'' s, snd (setTimeout (RemoveNode i) 300 q))"
| "notif_fire (RemoveNode i) (s, q) = (removeChild i s, q)"

datatype notif_event = Show nat notification | Wait nat

fun notif_step :: "notif_world \<Rightarrow> notif_event \<Rightarrow> notif_world option" where
  "notif_step sq (Show t n) = map_option (showNotification n) (run_until notif_fire t sq)"
| "notif_step sq (Wait t) = run_until notif_fire t sq"

fun notif_run :: "notif_world \<Rightarrow> notif_event list \<Rightarrow> notif_world option" where
  "notif_run sq [] = Some sq"
| "notif_run sq (e # es) = (case notif_step sq e of None \<Rightarrow> None | Some sq' \<Rightarrow> notif_run sq' es)"

text \<open>Weights for termination: a slide-out schedules the removal.\<close>

fun notif_weight :: "notif_cb \<Rightarrow> nat" where
  "notif_weight (SlideOut i) = 2"
| "notif_weight _ = 1"

fun cb_node :: "notif_cb \<Rightarrow> nat" where
  "cb_node (SlideIn i) = i"
| "cb_node (SlideOut i) = i"
| "cb_node (RemoveNode i) = i"

fun is_exit :: "nat \<Rightarrow> notif_cb \<Rightarrow> bool" where
  "is_exit i (SlideIn j) = False"
| "is_exit i (SlideOut j) = (i = j)"
| "is_exit i (RemoveNode j) = (i = j)"

text \<open>
  The invariant: the queue is well formed; the body holds distinct created elements;
  timers name created elements; a node with a pending slide-out or removal is in the
  body, and has one such timer only.
\<close>

definition notif_inv :: "notif_world \<Rightarrow> bool" where
  "notif_inv sq \<longleftrightarrow> queue_inv (snd sq) \<and> nt_errors (fst sq) = []
     \<and> distinct (nt_body (fst sq)) \<and> (\<forall>i \<in> set (nt_body (fst sq)). i < length (nt_nodes (fst sq)))
     \<and> (\<forall>tm \<in> set (tq_timers (snd sq)). cb_node (snd (snd tm)) < length (nt_nodes (fst sq)))
     \<and> (\<forall>tm \<in> set (tq_timers (snd sq)).
          length (filter (\<lambda>tm'. is_exit (cb_node (snd (snd tm))) (snd (snd tm'))) (tq_timers (snd sq))) \<le> 1)
     \<and> (\<forall>tm \<in> set (tq_timers (snd sq)). is_exit (cb_node (snd (snd tm))) (snd (snd tm))
          \<longrightarrow> cb_node (snd (snd tm)) \<in> set (nt_body (fst sq)))"

subsection \<open>Lemmas\<close>

lemma notif_dec:
  "queue_weight notif_weight (snd (notif_fire c (s, q))) < notif_weight c + queue_weight notif_weight q"
  by (cases c) (simp_all add: queue_weight_def)

lemmas run_until_notif = run_until_terminates [where w = notif_weight and cb = notif_fire, OF notif_dec]

lemma notif_step_terminates: "\<exists>y. notif_step sq e = Some y"
proof (cases e)
  case (Show t n)
  obtain y where "run_until notif_fire t sq = Some y" using run_until_notif by blast
  with Show show ?thesis by simp
next
  case (Wait t)
  then show ?thesis by (simp only: notif_step.simps run_until_notif)
qed

lemma length_filter_insort_key [simp]:
  "length (filter P (insort_key f x xs)) = (if P x then 1 else 0) + length (filter P xs)"
  by (induction xs) auto

lemma set_transform_nodes [simp]:
  "length (nt_nodes (set_transform i v s)) = length (nt_nodes s)"
  "nt_body (set_transform i v s) = nt_body s" "nt_errors (set_transform i v s) = nt_errors s"
  by (simp_all add: set_transform_def)

lemma no_exit_in_rest:
  assumes "\<forall>tm' \<in> set (tm # rest). length (filter (\<lambda>x. is_exit (cb_node (snd (snd tm'))) (snd (snd x))) (tm # rest)) \<le> 1"
    and "is_exit i (snd (snd tm))"
  shows "\<forall>x \<in> set rest. \<not> is_exit i (snd (snd x))"
proof -
  have "i = cb_node (snd (snd tm))" using assms(2) by (cases "snd (snd tm)") auto
  then have "length (filter (\<lambda>x. is_exit i (snd (snd x))) (tm # rest)) \<le> 1" using assms(1) by auto
  with assms(2) have "filter (\<lambda>x. is_exit i (snd (snd x))) rest = []" by simp
  then show ?thesis by (simp add: filter_empty_conv)
qed

lemma notif_fire_inv:
  assumes inv: "notif_inv sq" and pop: "pop_timer t (snd sq) = Some (tm, q')"
  shows "notif_inv (notif_fire (snd (snd tm)) (fst sq, q'))"
proof -
  have q: "tq_timers (snd sq) = tm # tq_timers q'" using pop by (rule set_pop_timer)
  have qi: "queue_inv q'" using inv pop by (auto simp: notif_inv_def intro: queue_inv_pop_timer)
  from inv q have body: "distinct (nt_body (fst sq))" "\<forall>i\<in>set (nt_body (fst sq)). i < length (nt_nodes (fst sq))"
    and err: "nt_errors (fst sq) = []"
    and nodes: "\<forall>tm' \<in> set (tm # tq_timers q'). cb_node (snd (snd tm')) < length (nt_nodes (fst sq))"
    and cnt: "\<forall>tm' \<in> set (tm # tq_timers q').
       length (filter (\<lambda>x. is_exit (cb_node (snd (snd tm'))) (snd (snd x))) (tm # tq_timers q')) \<le> 1"
    and inb: "\<forall>tm' \<in> set (tm # tq_timers q'). is_exit (cb_node (snd (snd tm'))) (snd (snd tm'))
       \<longrightarrow> cb_node (snd (snd tm')) \<in> set (nt_body (fst sq))"
    by (simp_all add: notif_inv_def)
  have cnt_rest: "\<forall>tm' \<in> set (tq_timers q').
       length (filter (\<lambda>x. is_exit (cb_node (snd (snd tm'))) (snd (snd x))) (tq_timers q')) \<le> 1"
  proof
    fix tm' assume "tm' \<in> set (tq_timers q')"
    then have "length (filter (\<lambda>x. is_exit (cb_node (snd (snd tm'))) (snd (snd x))) (tm # tq_timers q')) \<le> 1"
      by (intro bspec [OF cnt]) simp
    then show "length (filter (\<lambda>x. is_exit (cb_node (snd (snd tm'))) (snd (snd x))) (tq_timers q')) \<le> 1"
      by (simp split: if_splits)
  qed
  show ?thesis
  proof (cases "snd (snd tm)")
    case (SlideIn i)
    with qi body err nodes cnt_rest inb show ?thesis by (simp add: notif_inv_def)
  next
    case (SlideOut i)
    let ?q = "snd (setTimeout (RemoveNode i) 300 q')"
    have i: "i \<in> set (nt_body (fst sq))" "i < length (nt_nodes (fst sq))"
      using inb nodes SlideOut by auto
    have none: "\<forall>x \<in> set (tq_timers q'). \<not> is_exit i (snd (snd x))"
      using no_exit_in_rest [OF cnt] SlideOut by simp
    have t: "set (tq_timers ?q) = insert (tq_next q', tq_clock q' + 300, RemoveNode i) (set (tq_timers q'))"
      by (simp add: set_insort_key)
    have c: "length (filter (\<lambda>x. is_exit j (snd (snd x))) (tq_timers ?q))
        = (if j = i then 1 else length (filter (\<lambda>x. is_exit j (snd (snd x))) (tq_timers q')))" for j
      using none by (simp add: filter_empty_conv)
    have "\<forall>tm' \<in> set (tq_timers ?q).
        length (filter (\<lambda>x. is_exit (cb_node (snd (snd tm'))) (snd (snd x))) (tq_timers ?q)) \<le> 1"
      using cnt_rest by (simp only: t c) auto
    moreover have "\<forall>tm' \<in> set (tq_timers ?q). cb_node (snd (snd tm')) < length (nt_nodes (fst sq))"
      using nodes i by (simp only: t) auto
    moreover have "\<forall>tm' \<in> set (tq_timers ?q). is_exit (cb_node (snd (snd tm'))) (snd (snd tm'))
        \<longrightarrow> cb_node (snd (snd tm')) \<in> set (nt_body (fst sq))"
      using inb i by (simp only: t) auto
    moreover have "queue_inv ?q" using qi by (rule queue_inv_setTimeout)
    ultimately show ?thesis using body err SlideOut by (simp only: notif_inv_def notif_fire.simps
        set_transform_nodes fst_conv snd_conv)
  next
    case (RemoveNode i)
    have i: "i \<in> set (nt_body (fst sq))" using inb RemoveNode by auto
    have none: "\<forall>x \<in> set (tq_timers q'). \<not> is_exit i (snd (snd x))"
      using no_exit_in_rest [OF cnt] RemoveNode by simp
    have rc: "removeChild i (fst sq) = (fst sq)\<lparr>nt_body := remove1 i (nt_body (fst sq))\<rparr>"
      using i by (simp add: removeChild_def)
    have b: "set (remove1 i (nt_body (fst sq))) = set (nt_body (fst sq)) - {i}"
      using body(1) by simp
    have "\<forall>tm' \<in> set (tq_timers q'). is_exit (cb_node (snd (snd tm'))) (snd (snd tm'))
        \<longrightarrow> cb_node (snd (snd tm')) \<in> set (nt_body (fst sq)) - {i}"
      using inb none by force
    with qi body err nodes cnt_rest RemoveNode show ?thesis
      by (simp add: notif_inv_def rc b)
  qed
qed

lemma is_exit_node: "is_exit j c \<Longrightarrow> cb_node c = j"
  by (cases c) auto

lemma showNotification_inv:
  assumes inv: "notif_inv sq"
  shows "notif_inv (showNotification n sq)"
proof -
  obtain message type where n: "n = Notification message type" by (cases n)
  define i where "i = length (nt_nodes (fst sq))"
  define q2 where "q2 = snd (setTimeout (SlideOut i) 5000 (snd (setTimeout (SlideIn i) 100 (snd sq))))"
  define s' where "s' = (fst sq)\<lparr>nt_nodes := nt_nodes (fst sq) @ [\<lparr>nel_className = ''notification notification-'' @ type,
      nel_text = message, nel_style = notification_style type\<rparr>], nt_body := nt_body (fst sq) @ [i]\<rparr>"
  have show_eq: "showNotification n sq = (s', q2)"
    by (simp add: showNotification_def n i_def q2_def s'_def Let_def)
  from inv have body: "distinct (nt_body (fst sq))" "\<forall>j\<in>set (nt_body (fst sq)). j < i"
    and err: "nt_errors (fst sq) = []"
    and nodes: "\<forall>tm' \<in> set (tq_timers (snd sq)). cb_node (snd (snd tm')) < i"
    and cnt: "\<forall>tm' \<in> set (tq_timers (snd sq)).
       length (filter (\<lambda>x. is_exit (cb_node (snd (snd tm'))) (snd (snd x))) (tq_timers (snd sq))) \<le> 1"
    and inb: "\<forall>tm' \<in> set (tq_timers (snd sq)). is_exit (cb_node (snd (snd tm'))) (snd (snd tm'))
       \<longrightarrow> cb_node (snd (snd tm')) \<in> set (nt_body (fst sq))"
    and qi: "queue_inv (snd sq)"
    by (simp_all add: notif_inv_def i_def)
  have none: "\<forall>x \<in> set (tq_timers (snd sq)). \<not> is_exit i (snd (snd x))"
    using nodes by (auto dest: is_exit_node)
  have t: "set (tq_timers q2) = insert (Suc (tq_next (snd sq)), tq_clock (snd sq) + 5000, SlideOut i)
      (insert (tq_next (snd sq), tq_clock (snd sq) + 100, SlideIn i) (set (tq_timers (snd sq))))"
    by (simp add: q2_def set_insort_key setTimeout_def)
  have c: "length (filter (\<lambda>x. is_exit j (snd (snd x))) (tq_timers q2))
      = (if j = i then 1 else length (filter (\<lambda>x. is_exit j (snd (snd x))) (tq_timers (snd sq))))" for j
    using none by (simp add: q2_def setTimeout_def filter_empty_conv)
  have "\<forall>tm' \<in> set (tq_timers q2).
      length (filter (\<lambda>x. is_exit (cb_node (snd (snd tm'))) (snd (snd x))) (tq_timers q2)) \<le> 1"
    using cnt by (simp only: t c) auto
  moreover have "\<forall>tm' \<in> set (tq_timers q2). cb_node (snd (snd tm')) < length (nt_nodes s')"
    using nodes by (simp only: t) (auto simp: s'_def i_def)
  moreover have "\<forall>tm' \<in> set (tq_timers q2). is_exit (cb_node (snd (snd tm'))) (snd (snd tm'))
      \<longrightarrow> cb_node (snd (snd tm')) \<in> set (nt_body s')"
    using inb by (simp only: t) (auto simp: s'_def)
  moreover have "queue_inv q2" using qi by (simp add: q2_def queue_inv_setTimeout)
  moreover have "distinct (nt_body s')" "\<forall>j \<in> set (nt_body s'). j < length (nt_nodes s')"
    using body by (auto simp: s'_def i_def)
  ultimately show ?thesis using err by (simp add: show_eq notif_inv_def s'_def)
qed

lemma run_until_notif_inv: "notif_inv sq \<Longrightarrow> \<exists>y. run_until notif_fire t sq = Some y \<and> notif_inv y"
proof (rule run_until_inv [OF notif_dec])
  fix sq' :: notif_world and tm q'
  assume "notif_inv sq'" "pop_timer t (snd sq') = Some (tm, q')"
  then show "notif_inv (notif_fire (snd (snd tm)) (fst sq', q'))" by (rule notif_fire_inv)
next
  fix sq' :: notif_world
  assume "notif_inv sq'" "pop_timer t (snd sq') = None"
  then show "notif_inv (fst sq', (snd sq')\<lparr>tq_clock := max t (tq_clock (snd sq'))\<rparr>)"
    by (simp add: notif_inv_def queue_inv_stop)
qed

lemma notif_run_inv: "notif_inv sq \<Longrightarrow> \<exists>y. notif_run sq es = Some y \<and> notif_inv y"
proof (induction es arbitrary: sq)
  case (Cons e es)
  have "\<exists>y. notif_step sq e = Some y \<and> notif_inv y"
  proof (cases e)
    case (Show t n)
    obtain y where "run_until notif_fire t sq = Some y" "notif_inv y"
      using run_until_notif_inv [OF Cons.prems, of t] by blast
    with Show showNotification_inv [of y n] show ?thesis by simp
  next
    case (Wait t)
    with run_until_notif_inv [OF Cons.prems, of t] show ?thesis by auto
  qed
  with Cons.IH show ?case by auto
qed simp

lemma show_first:
  "notif_step notif_start (Show t (Notification m ty)) = Some
     (\<lparr>nt_nodes = [\<lparr>nel_className = ''notification notification-'' @ ty, nel_text = m,
         nel_style = notification_style ty\<rparr>], nt_body = [0], nt_errors = []\<rparr>,
      \<lparr>tq_clock = t, tq_timers = [(1, t + 100, SlideIn 0), (2, t + 5000, SlideOut 0)], tq_next = 3\<rparr>)"
  by (simp add: notif_start_def timers_empty_def run_until_stop pop_timer_def showNotification_def setTimeout_def timer_key_def)

lemma run_first: "notif_run notif_start (Show t (Notification m ty) # es) = notif_run
     (\<lparr>nt_nodes = [\<lparr>nel_className = ''notification notification-'' @ ty, nel_text = m,
         nel_style = notification_style ty\<rparr>], nt_body = [0], nt_errors = []\<rparr>,
      \<lparr>tq_clock = t, tq_timers = [(1, t + 100, SlideIn 0), (2, t + 5000, SlideOut 0)], tq_next = 3\<rparr>) es"
  by (simp only: notif_run.simps show_first option.case)

text \<open>
  The four phases of one notification, as the element it leaves: the transform the
  timers have written last, and whether the node is still in the body.
\<close>

lemma notification_phases:
  "\<exists>y. notif_run notif_start [Show t (Notification message type), Wait (t + k)] = Some y
     \<and> nt_body (fst y) = (if k < 5300 then [0] else [])
     \<and> nt_nodes (fst y) ! 0 = \<lparr>nel_className = ''notification notification-'' @ type, nel_text = message,
          nel_style = AList.update ''transform''
            (if 100 \<le> k \<and> k < 5000 then ''translateX(0)'' else ''translateX(400px)'')
            (notification_style type)\<rparr>"
proof -
  consider "k < 100" | "100 \<le> k" "k < 5000" | "5000 \<le> k" "k < 5300" | "5300 \<le> k" by linarith
  then show ?thesis unfolding run_first
    by cases (simp_all add: run_until.simps removeChild_def pop_timer_def set_transform_def
        setTimeout_def notification_style_def timer_key_def)
qed

subsection \<open>Properties\<close>

text \<open>
  C25. Whatever notifications are shown and however time passes, the timer loop
  returns after every event, no \<open>removeChild\<close> throws (each removal finds its node in
  the body), and the body holds each notification at most once.
\<close>

theorem notification_never_throws:
  "\<exists>y. notif_run notif_start es = Some y \<and> notif_inv y \<and> nt_errors (fst y) = []"
proof -
  have "notif_inv notif_start" by (simp add: notif_inv_def notif_start_def, simp add: timers_empty_def)
  from notif_run_inv [OF this, of es] show ?thesis by (auto simp: notif_inv_def)
qed

theorem notification_never_throws_witness:
  "\<exists>y. notif_run notif_start [Show 0 (Notification ''Sent'' ''success''), Show 200 (Notification ''Oops'' ''error''),
       Wait 5250, Wait 9000] = Some y \<and> notif_inv y \<and> nt_errors (fst y) = []"
  by (rule notification_never_throws)

text \<open>
  C26. The life of one notification shown at time \<open>t\<close>, seen \<open>k\<close> milliseconds later:
  it carries the class \<open>notification notification-<type>\<close>, the message, and the
  success or error colour; it sits off-screen (\<open>translateX(400px)\<close>) for the first
  100 ms, on screen from 100 ms to 5000 ms, off-screen again after, and it is in the
  body exactly during the first 5300 ms.
\<close>

theorem notification_lifecycle:
  "\<exists>y. notif_run notif_start [Show t (Notification message type), Wait (t + k)] = Some y
     \<and> nt_body (fst y) = (if k < 5300 then [0] else [])
     \<and> nel_className (nt_nodes (fst y) ! 0) = ''notification notification-'' @ type
     \<and> nel_text (nt_nodes (fst y) ! 0) = message
     \<and> map_of (nel_style (nt_nodes (fst y) ! 0)) ''transform''
         = Some (if 100 \<le> k \<and> k < 5000 then ''translateX(0)'' else ''translateX(400px)'')
     \<and> map_of (nel_style (nt_nodes (fst y) ! 0)) ''backgroundColor''
         = Some (if type = ''success'' then ''#00ff88'' else ''#ff0066'')"
  using notification_phases [of t message type k] by (auto simp: notification_style_def)

end
