(* ===== verification/Observers.thy ===== *)
theory Observers
  imports Prelude
begin

text \<open>
  The two \<open>IntersectionObserver\<close> components, \<open>initScrollAnimations\<close> (lines
  116--143) and \<open>initSkillBars\<close> (lines 414--430), and the two listeners that only set
  styles or a class on load (lines 655--668). The page is the list of the elements the
  selectors can reach, in document order (record \<open>dom_el\<close>: class list, the
  \<open>data-width\<close> attribute, the inline \<open>width\<close>); \<open>querySelectorAll\<close> returns the
  indices of the elements carrying one of the selector's classes. The host delivers to
  an observer's callback batches of entries, each a target and its
  \<open>isIntersecting\<close> flag, for targets that observer observes; when it does so
  (thresholds 0.1 and 0.5, the root margin) is the browser's layout and an input of the
  model.
\<close>

record dom_el =
  el_classes :: "string list"
  el_data_width :: "string option"
  el_style_width :: string

text \<open>\<open>classList.add\<close>: a token already present is not added again.\<close>

definition classList_add :: "string \<Rightarrow> string list \<Rightarrow> string list" where
  "classList_add c cls = (if c \<in> set cls then cls else cls @ [c])"

definition has_class :: "string \<Rightarrow> dom_el \<Rightarrow> bool" where
  "has_class c el \<longleftrightarrow> c \<in> set (el_classes el)"

definition querySelectorAll :: "string list \<Rightarrow> dom_el list \<Rightarrow> nat list" where
  "querySelectorAll sel doc = filter (\<lambda>i. list_ex (\<lambda>c. has_class c (doc ! i)) sel) [0..<length doc]"

definition add_class_at :: "string \<Rightarrow> nat \<Rightarrow> dom_el list \<Rightarrow> dom_el list" where
  "add_class_at c i doc = doc[i := (doc ! i)\<lparr>el_classes := classList_add c (el_classes (doc ! i))\<rparr>]"

definition animate_selector :: "string list" where
  "animate_selector = [''timeline-item'', ''project-card'', ''skill-item'', ''stat-item'', ''education-card'']"

record observer_page =
  op_dom :: "dom_el list"
  op_scroll_targets :: "nat list"
  op_skill_targets :: "nat list"

text \<open>Lines 131--135: mark the elements and observe them.\<close>

definition initScrollAnimations :: "dom_el list \<Rightarrow> dom_el list \<times> nat list" where
  "initScrollAnimations doc =
     (let els = querySelectorAll animate_selector doc
      in (foldl (\<lambda>d i. add_class_at ''scroll-animate'' i d) doc els, els))"

definition initSkillBars :: "dom_el list \<Rightarrow> nat list" where
  "initSkillBars doc = querySelectorAll [''skill-progress''] doc"

text \<open>The two functions in the order the start-up listener calls them.\<close>

definition observers_init :: "dom_el list \<Rightarrow> observer_page" where
  "observers_init doc =
     (let (dom1, ts) = initScrollAnimations doc
      in \<lparr>op_dom = dom1, op_scroll_targets = ts, op_skill_targets = initSkillBars dom1\<rparr>)"

type_synonym entry = "nat \<times> bool"

definition scroll_callback :: "entry list \<Rightarrow> dom_el list \<Rightarrow> dom_el list" where
  "scroll_callback entries doc =
     foldl (\<lambda>d e. if snd e then add_class_at ''animate'' (fst e) d else d) doc entries"

text \<open>
  \<open>style.width = getAttribute('data-width')\<close>: \<open>null\<close> clears the property; a string
  goes through the browser's CSS value parser, an input of the model (\<open>css\<close>: the
  serialised value for a valid width such as \<open>90%\<close>, \<open>None\<close> for an invalid one such
  as \<open>90\<close>), and an invalid value is ignored, leaving the old width.
\<close>

definition css_width :: "(string \<Rightarrow> string option) \<Rightarrow> string option \<Rightarrow> string \<Rightarrow> string" where
  "css_width css v old =
     (case v of None \<Rightarrow> [] | Some w \<Rightarrow> (case css w of None \<Rightarrow> old | Some n \<Rightarrow> n))"

definition skill_callback :: "(string \<Rightarrow> string option) \<Rightarrow> entry list \<Rightarrow> dom_el list \<Rightarrow> dom_el list" where
  "skill_callback css entries doc =
     foldl (\<lambda>d e. if snd e
                  then d[fst e := (d ! fst e)\<lparr>el_style_width :=
                           css_width css (el_data_width (d ! fst e)) (el_style_width (d ! fst e))\<rparr>]
                  else d)
       doc entries"

datatype observer_event = ScrollEntries "entry list" | SkillEntries "entry list"

fun observer_step :: "(string \<Rightarrow> string option) \<Rightarrow> observer_page \<Rightarrow> observer_event \<Rightarrow> observer_page" where
  "observer_step css p (ScrollEntries es) =
     p\<lparr>op_dom := scroll_callback (filter (\<lambda>e. fst e \<in> set (op_scroll_targets p)) es) (op_dom p)\<rparr>"
| "observer_step css p (SkillEntries es) =
     p\<lparr>op_dom := skill_callback css (filter (\<lambda>e. fst e \<in> set (op_skill_targets p)) es) (op_dom p)\<rparr>"

fun observer_run :: "(string \<Rightarrow> string option) \<Rightarrow> observer_page \<Rightarrow> observer_event list \<Rightarrow> observer_page" where
  "observer_run css p [] = p"
| "observer_run css p (e # es) = observer_run css (observer_step css p e) es"

fun scroll_entries :: "observer_event list \<Rightarrow> entry list" where
  "scroll_entries [] = []"
| "scroll_entries (ScrollEntries es # evs) = es @ scroll_entries evs"
| "scroll_entries (SkillEntries es # evs) = scroll_entries evs"

fun skill_entries :: "observer_event list \<Rightarrow> entry list" where
  "skill_entries [] = []"
| "skill_entries (ScrollEntries es # evs) = skill_entries evs"
| "skill_entries (SkillEntries es # evs) = es @ skill_entries evs"

subsection \<open>Load-time listeners\<close>

record hero_style =
  hs_opacity :: string
  hs_transform :: string
  hs_transition :: string

text \<open>Lines 660--668: the hero content, when present, is made visible at once.\<close>

definition heroReveal :: "hero_style option \<Rightarrow> hero_style option" where
  "heroReveal h = map_option (\<lambda>st. st\<lparr>hs_opacity := ''1'', hs_transform := ''translateY(0)'',
      hs_transition := ''all 1s ease-out''\<rparr>) h"

text \<open>Lines 655--657: the body's classes on \<open>load\<close>.\<close>

definition loadListener :: "string list \<Rightarrow> string list" where
  "loadListener body_classes = classList_add ''loaded'' body_classes"

subsection \<open>Lemmas\<close>

lemma length_add_class_at [simp]: "length (add_class_at c j d) = length d"
  by (simp add: add_class_at_def)

lemma add_class_at_nth:
  "i < length d \<Longrightarrow> add_class_at c j d ! i =
     (if i = j then (d ! i)\<lparr>el_classes := classList_add c (el_classes (d ! i))\<rparr> else d ! i)"
  by (simp add: add_class_at_def nth_list_update_if)

lemma add_class_at_class:
  "i < length d \<Longrightarrow> has_class c' (add_class_at c j d ! i) \<longleftrightarrow> has_class c' (d ! i) \<or> (i = j \<and> c' = c)"
  by (simp add: add_class_at_nth has_class_def classList_add_def) blast

lemma add_class_at_attrs [simp]:
  "i < length d \<Longrightarrow> el_style_width (add_class_at c j d ! i) = el_style_width (d ! i)"
  "i < length d \<Longrightarrow> el_data_width (add_class_at c j d ! i) = el_data_width (d ! i)"
  by (simp_all add: add_class_at_nth)

lemma foldl_add_class:
  "length (foldl (\<lambda>d i. add_class_at c i d) d is) = length d
   \<and> (i < length d \<longrightarrow> (has_class c' (foldl (\<lambda>d i. add_class_at c i d) d is ! i)
        \<longleftrightarrow> has_class c' (d ! i) \<or> (c' = c \<and> i \<in> set is))
     \<and> el_style_width (foldl (\<lambda>d i. add_class_at c i d) d is ! i) = el_style_width (d ! i)
     \<and> el_data_width (foldl (\<lambda>d i. add_class_at c i d) d is ! i) = el_data_width (d ! i))"
  by (induction "is" arbitrary: d) (auto simp: add_class_at_class)

lemma scroll_callback_length [simp]: "length (scroll_callback es d) = length d"
  by (induction es arbitrary: d) (simp_all add: scroll_callback_def)

lemma scroll_callback_class:
  "i < length d \<Longrightarrow>
   has_class c (scroll_callback es d ! i) \<longleftrightarrow> has_class c (d ! i) \<or> (c = ''animate'' \<and> (i, True) \<in> set es)"
proof (induction es arbitrary: d)
  case (Cons e es)
  then show ?case by (cases e) (auto simp: scroll_callback_def add_class_at_class)
qed (simp add: scroll_callback_def)

lemma scroll_callback_attrs [simp]:
  "i < length d \<Longrightarrow> el_style_width (scroll_callback es d ! i) = el_style_width (d ! i)"
  "i < length d \<Longrightarrow> el_data_width (scroll_callback es d ! i) = el_data_width (d ! i)"
  by (induction es arbitrary: d) (simp_all add: scroll_callback_def)

text \<open>Setting the width twice from the same attribute is setting it once.\<close>

lemma css_width_idem [simp]: "css_width css v (css_width css v old) = css_width css v old"
  by (simp add: css_width_def split: option.split)

lemma skill_callback_length [simp]: "length (skill_callback css es d) = length d"
  by (induction es arbitrary: d) (simp_all add: skill_callback_def)

lemma skill_callback_keeps:
  "i < length d \<Longrightarrow> el_classes (skill_callback css es d ! i) = el_classes (d ! i)
     \<and> el_data_width (skill_callback css es d ! i) = el_data_width (d ! i)"
  by (induction es arbitrary: d) (simp_all add: skill_callback_def nth_list_update_if)

lemma skill_callback_class:
  "i < length d \<Longrightarrow> has_class c (skill_callback css es d ! i) \<longleftrightarrow> has_class c (d ! i)"
  by (simp add: has_class_def skill_callback_keeps)

lemma skill_callback_width:
  "i < length d \<Longrightarrow> el_style_width (skill_callback css es d ! i)
     = (if (i, True) \<in> set es then css_width css (el_data_width (d ! i)) (el_style_width (d ! i))
        else el_style_width (d ! i))"
proof (induction es arbitrary: d)
  case (Cons e es)
  then show ?case
    by (cases e) (auto simp: skill_callback_def nth_list_update_if css_width_idem)
qed (simp add: skill_callback_def)

lemma observer_step_targets [simp]:
  "op_scroll_targets (observer_step css p e) = op_scroll_targets p"
  "op_skill_targets (observer_step css p e) = op_skill_targets p"
  "length (op_dom (observer_step css p e)) = length (op_dom p)"
  by (cases e; simp)+

lemma observer_run_classes:
  "i < length (op_dom p) \<Longrightarrow> has_class c (op_dom (observer_run css p es) ! i) \<longleftrightarrow>
     has_class c (op_dom p ! i)
     \<or> (c = ''animate'' \<and> i \<in> set (op_scroll_targets p) \<and> (i, True) \<in> set (scroll_entries es))"
proof (induction css p es rule: observer_run.induct)
  case (2 css p e es)
  then show ?case
    by (cases e) (auto simp: scroll_callback_class skill_callback_class)
qed simp

lemma observer_run_width:
  "i < length (op_dom p) \<Longrightarrow> el_data_width (op_dom (observer_run css p es) ! i) = el_data_width (op_dom p ! i)
   \<and> el_style_width (op_dom (observer_run css p es) ! i)
     = (if i \<in> set (op_skill_targets p) \<and> (i, True) \<in> set (skill_entries es)
        then css_width css (el_data_width (op_dom p ! i)) (el_style_width (op_dom p ! i))
        else el_style_width (op_dom p ! i))"
proof (induction css p es rule: observer_run.induct)
  case (2 css p e es)
  then show ?case
    by (cases e) (auto simp: skill_callback_width skill_callback_keeps)
qed simp

lemma set_querySelectorAll:
  "i \<in> set (querySelectorAll sel doc) \<longleftrightarrow> i < length doc \<and> list_ex (\<lambda>c. has_class c (doc ! i)) sel"
  by (auto simp: querySelectorAll_def)

lemma observers_init_eq:
  "observers_init doc =
     \<lparr>op_dom = foldl (\<lambda>d i. add_class_at ''scroll-animate'' i d) doc (querySelectorAll animate_selector doc),
      op_scroll_targets = querySelectorAll animate_selector doc,
      op_skill_targets = querySelectorAll [''skill-progress'']
        (foldl (\<lambda>d i. add_class_at ''scroll-animate'' i d) doc (querySelectorAll animate_selector doc))\<rparr>"
  by (simp add: observers_init_def initScrollAnimations_def initSkillBars_def Let_def)

lemma observers_init_page:
  assumes "i < length doc"
  shows "length (op_dom (observers_init doc)) = length doc"
    and "has_class c (op_dom (observers_init doc) ! i) \<longleftrightarrow>
           has_class c (doc ! i) \<or> (c = ''scroll-animate'' \<and> list_ex (\<lambda>c. has_class c (doc ! i)) animate_selector)"
    and "el_style_width (op_dom (observers_init doc) ! i) = el_style_width (doc ! i)"
    and "el_data_width (op_dom (observers_init doc) ! i) = el_data_width (doc ! i)"
    and "i \<in> set (op_scroll_targets (observers_init doc)) \<longleftrightarrow> list_ex (\<lambda>c. has_class c (doc ! i)) animate_selector"
    and "i \<in> set (op_skill_targets (observers_init doc)) \<longleftrightarrow> has_class ''skill-progress'' (doc ! i)"
proof -
  note f = foldl_add_class [of "''scroll-animate''" doc "querySelectorAll animate_selector doc"]
  show "length (op_dom (observers_init doc)) = length doc"
    by (simp only: observers_init_eq observer_page.select_convs f)
  show "has_class c (op_dom (observers_init doc) ! i) \<longleftrightarrow>
           has_class c (doc ! i) \<or> (c = ''scroll-animate'' \<and> list_ex (\<lambda>c. has_class c (doc ! i)) animate_selector)"
    using assms f [of i c] by (simp add: observers_init_eq set_querySelectorAll)
  show "el_style_width (op_dom (observers_init doc) ! i) = el_style_width (doc ! i)"
    "el_data_width (op_dom (observers_init doc) ! i) = el_data_width (doc ! i)"
    using assms f [of i] by (simp_all add: observers_init_eq)
  show "i \<in> set (op_scroll_targets (observers_init doc)) \<longleftrightarrow> list_ex (\<lambda>c. has_class c (doc ! i)) animate_selector"
    using assms by (simp add: observers_init_eq set_querySelectorAll)
  have "has_class ''skill-progress'' (op_dom (observers_init doc) ! i) \<longleftrightarrow> has_class ''skill-progress'' (doc ! i)"
    using assms f [of i "''skill-progress''"] by (simp add: observers_init_eq)
  then show "i \<in> set (op_skill_targets (observers_init doc)) \<longleftrightarrow> has_class ''skill-progress'' (doc ! i)"
    using assms f by (simp add: observers_init_eq set_querySelectorAll)
qed

subsection \<open>Properties\<close>

text \<open>
  C27. Scroll reveal: after start-up and any batches of observer entries, an element
  carries \<open>animate\<close> exactly when it carried it in the markup or it matches one of
  the five selectors and some entry reported it intersecting; it carries
  \<open>scroll-animate\<close> exactly when it did or it matches the selectors.
\<close>

theorem reveal_when_seen:
  assumes "i < length doc"
  shows "(has_class ''animate'' (op_dom (observer_run css (observers_init doc) evs) ! i)
          \<longleftrightarrow> has_class ''animate'' (doc ! i)
              \<or> (list_ex (\<lambda>c. has_class c (doc ! i)) animate_selector \<and> (i, True) \<in> set (scroll_entries evs)))
       \<and> (has_class ''scroll-animate'' (op_dom (observer_run css (observers_init doc) evs) ! i)
          \<longleftrightarrow> has_class ''scroll-animate'' (doc ! i) \<or> list_ex (\<lambda>c. has_class c (doc ! i)) animate_selector)"
  using assms observers_init_page [OF assms]
  by (simp add: observer_run_classes)

theorem reveal_when_seen_witness:
  "has_class ''animate'' (op_dom (observer_run (\<lambda>_. None) (observers_init
      [\<lparr>el_classes = [''project-card''], el_data_width = None, el_style_width = []\<rparr>,
       \<lparr>el_classes = [''footer''], el_data_width = None, el_style_width = []\<rparr>])
      [ScrollEntries [(0, False)], ScrollEntries [(0, True), (1, True)]]) ! 0)
   \<and> \<not> has_class ''animate'' (op_dom (observer_run (\<lambda>_. None) (observers_init
      [\<lparr>el_classes = [''project-card''], el_data_width = None, el_style_width = []\<rparr>,
       \<lparr>el_classes = [''footer''], el_data_width = None, el_style_width = []\<rparr>])
      [ScrollEntries [(0, False)], ScrollEntries [(0, True), (1, True)]]) ! 1)"
  using reveal_when_seen [where i = 0 and doc = "[\<lparr>el_classes = [''project-card''], el_data_width = None, el_style_width = []\<rparr>,
       \<lparr>el_classes = [''footer''], el_data_width = None, el_style_width = []\<rparr>]" and css = "\<lambda>_. None"
      and evs = "[ScrollEntries [(0, False)], ScrollEntries [(0, True), (1, True)]]"]
    reveal_when_seen [where i = 1 and doc = "[\<lparr>el_classes = [''project-card''], el_data_width = None, el_style_width = []\<rparr>,
       \<lparr>el_classes = [''footer''], el_data_width = None, el_style_width = []\<rparr>]" and css = "\<lambda>_. None"
      and evs = "[ScrollEntries [(0, False)], ScrollEntries [(0, True), (1, True)]]"]
  by (simp add: has_class_def animate_selector_def)

text \<open>
  C28. Skill bars: after start-up and any entries, the inline width of an element is
  changed only if it is a \<open>.skill-progress\<close> element some entry reported
  intersecting; then it is cleared when \<open>data-width\<close> is missing, is the CSS
  parser's value of \<open>data-width\<close> when that is a valid width, and keeps the markup's
  width when it is not.
\<close>

theorem skill_bar_width:
  assumes "i < length doc"
  shows "el_style_width (op_dom (observer_run css (observers_init doc) evs) ! i)
       = (if has_class ''skill-progress'' (doc ! i) \<and> (i, True) \<in> set (skill_entries evs)
          then (case el_data_width (doc ! i) of
                  None \<Rightarrow> []
                | Some w \<Rightarrow> (case css w of None \<Rightarrow> el_style_width (doc ! i) | Some n \<Rightarrow> n))
          else el_style_width (doc ! i))"
  using assms observers_init_page [OF assms] observer_run_width [of i "observers_init doc" css evs]
  by (simp add: css_width_def)

theorem skill_bar_width_witness:
  "el_style_width (op_dom (observer_run (\<lambda>w. if w = ''90%'' then Some ''90%'' else None) (observers_init
      [\<lparr>el_classes = [''skill-progress''], el_data_width = Some ''90%'', el_style_width = ''0''\<rparr>,
       \<lparr>el_classes = [''skill-progress''], el_data_width = Some ''90'', el_style_width = ''0''\<rparr>])
      [SkillEntries [(0, True), (1, True)]]) ! 0) = ''90%''
   \<and> el_style_width (op_dom (observer_run (\<lambda>w. if w = ''90%'' then Some ''90%'' else None) (observers_init
      [\<lparr>el_classes = [''skill-progress''], el_data_width = Some ''90%'', el_style_width = ''0''\<rparr>,
       \<lparr>el_classes = [''skill-progress''], el_data_width = Some ''90'', el_style_width = ''0''\<rparr>])
      [SkillEntries [(0, True), (1, True)]]) ! 1) = ''0''"
  using skill_bar_width [where i = 0 and doc = "[\<lparr>el_classes = [''skill-progress''], el_data_width = Some ''90%'', el_style_width = ''0''\<rparr>,
       \<lparr>el_classes = [''skill-progress''], el_data_width = Some ''90'', el_style_width = ''0''\<rparr>]"
      and css = "\<lambda>w. if w = ''90%'' then Some ''90%'' else None" and evs = "[SkillEntries [(0, True), (1, True)]]"]
    skill_bar_width [where i = 1 and doc = "[\<lparr>el_classes = [''skill-progress''], el_data_width = Some ''90%'', el_style_width = ''0''\<rparr>,
       \<lparr>el_classes = [''skill-progress''], el_data_width = Some ''90'', el_style_width = ''0''\<rparr>]"
      and css = "\<lambda>w. if w = ''90%'' then Some ''90%'' else None" and evs = "[SkillEntries [(0, True), (1, True)]]"]
  by (simp add: has_class_def)

end
