(* ===== verification/Page.thy ===== *)
theory Page
  imports Particles
begin

text \<open>
  Start-up of the page: the \<open>DOMContentLoaded\<close> listener of lines 5--18 calls the
  eleven \<open>init*\<close> functions in order, and an exception thrown by one of them ends the
  listener, so the later ones never run; the listener of lines 630--632 installs the
  resume download of lines 582--627. The markup is a record of which elements the
  functions look up exist and whether \<open>localStorage\<close> is accessible
  (\<open>page_markup\<close>); an \<open>init*\<close> function is modelled by the registrations it makes
  before it returns or throws (\<open>init_effects\<close>), a summary of what each function's
  lookups do; what the registered handlers do later is the subject of the component
  theories.
\<close>

subsection \<open>Markup and registrations\<close>

record page_markup =
  pm_modal :: bool
  pm_modal_close :: bool
  pm_form :: bool
  pm_theme_toggle :: bool
  pm_scroll_top :: bool
  pm_hamburger :: bool
  pm_hero :: "(nat \<times> nat) option"
  pm_resume :: bool
  pm_storage :: bool

datatype registration =
    Listener string string
  | Timer string nat
  | Observer string
  | AnimationRequest

datatype init_fn =
    InitNavigation | InitTypingEffect | InitScrollAnimations | InitProjectModals
  | InitContactForm | InitThemeToggle | InitScrollToTop | InitSkillBars
  | InitMobileMenu | InitParallaxEffects | InitParticleBackground


text \<open>
  \<open>localStorage.getItem\<close> (line 358) throws when the browser denies the page its
  storage (cookies blocked); \<open>pm_storage\<close> says whether it is accessible.
\<close>

definition storage_denied :: js_error where
  "storage_denied = DOMException ''SecurityError''
     ''Failed to read the 'localStorage' property from 'Window': Access is denied for this document.''"

definition null_listener :: js_error where
  "null_listener = TypeError ''Cannot read properties of null (reading 'addEventListener')''"

text \<open>
  What each function registers, and where it throws: \<open>x.addEventListener\<close> on a
  missing element. The particle background throws through
  \<open>initParticleBackground\<close> of theory \<open>Particles\<close>.
\<close>

fun init_effects :: "page_markup \<Rightarrow> js_random \<Rightarrow> init_fn \<Rightarrow> registration list \<times> js_error option" where
  "init_effects m r InitNavigation =
     ([Listener ''.nav-link'' ''click'', Listener ''window'' ''scroll'', Listener ''window'' ''scroll''], None)"
| "init_effects m r InitTypingEffect = ([Timer ''typeText'' 1000], None)"
| "init_effects m r InitScrollAnimations = ([Observer ''.scroll-animate''], None)"
| "init_effects m r InitProjectModals =
     (if \<not> pm_modal_close m then ([Listener ''.project-card'' ''click''], Some null_listener)
      else if \<not> pm_modal m then
        ([Listener ''.project-card'' ''click'', Listener ''.modal-close'' ''click''], Some null_listener)
      else ([Listener ''.project-card'' ''click'', Listener ''.modal-close'' ''click'',
             Listener ''#projectModal'' ''click'', Listener ''document'' ''keydown''], None))"
| "init_effects m r InitContactForm =
     (if pm_form m then ([Listener ''.contact-form'' ''submit''], None) else ([], Some null_listener))"
| "init_effects m r InitThemeToggle =
     (if \<not> pm_storage m then ([], Some storage_denied)
      else if pm_theme_toggle m then ([Listener ''#themeToggleNav'' ''click''], None) else ([], None))"
| "init_effects m r InitScrollToTop =
     (if pm_scroll_top m
      then ([Listener ''window'' ''scroll'', Listener ''#scrollToTop'' ''click''], None)
      else ([Listener ''window'' ''scroll''], Some null_listener))"
| "init_effects m r InitSkillBars = ([Observer ''.skill-progress''], None)"
| "init_effects m r InitMobileMenu =
     (if pm_hamburger m
      then ([Listener ''.hamburger'' ''click'', Listener ''.nav-link'' ''click''], None)
      else ([], Some null_listener))"
| "init_effects m r InitParallaxEffects = ([Listener ''window'' ''scroll''], None)"
| "init_effects m r InitParticleBackground =
     (case initParticleBackground (pm_hero m) r of
        Inl e \<Rightarrow> ([], Some e)
      | Inr _ \<Rightarrow> ([AnimationRequest, Listener ''window'' ''resize''], None))"

text \<open>
  The listener body: the registrations made, the error that ended it (if any), and
  the functions that returned normally.
\<close>

fun run_inits ::
  "page_markup \<Rightarrow> js_random \<Rightarrow> init_fn list \<Rightarrow> registration list \<times> js_error option \<times> init_fn list" where
  "run_inits m r [] = ([], None, [])"
| "run_inits m r (f # fs) =
     (case init_effects m r f of
        (regs, Some e) \<Rightarrow> (regs, Some e, [])
      | (regs, None) \<Rightarrow>
          (let (regs', err, ok) = run_inits m r fs in (regs @ regs', err, f # ok)))"


subsection \<open>The resume download\<close>

definition initResumeDownload :: "page_markup \<Rightarrow> registration list \<times> js_error option" where
  "initResumeDownload m =
     (if pm_resume m then ([Listener ''#resumeDownload'' ''click''], None) else ([], Some null_listener))"

datatype download_effect =
    CreateObjectURL string
  | ClickDownload string
  | RevokeObjectURL

text \<open>
  The click handler of lines 585--626: build the blob, click a temporary link to download
  \<open>Alex_Developer_Resume.txt\<close>, revoke the URL, then call \<open>showNotification\<close>. That
  name is declared only inside \<open>initContactForm\<close> (line 314) and is not in scope
  here, so the call throws after the download.
\<close>

definition resume_click :: "download_effect list \<times> js_error option" where
  "resume_click =
     ([CreateObjectURL ''text/plain'', ClickDownload ''Alex_Developer_Resume.txt'', RevokeObjectURL],
      Some (ReferenceError ''showNotification is not defined''))"

subsection \<open>Lemmas\<close>

text \<open>
  The listener stops at the first function that throws: the prefix that succeeded has
  returned, the failing function's registrations are kept, nothing after it runs.
\<close>

lemma run_inits_prefix:
  assumes "\<forall>g \<in> set xs. snd (init_effects m r g) = None"
    and "init_effects m r f = (regs, Some e)"
  shows "run_inits m r (xs @ f # ys) = (concat (map (\<lambda>g. fst (init_effects m r g)) xs) @ regs, Some e, xs)"
  using assms(1)
proof (induction xs)
  case Nil
  with assms(2) show ?case by simp
next
  case (Cons g xs)
  then obtain regs_g where "init_effects m r g = (regs_g, None)"
    by (cases "init_effects m r g") auto
  with Cons show ?case by simp
qed

lemma run_inits_all:
  "\<forall>g \<in> set xs. snd (init_effects m r g) = None \<Longrightarrow>
   run_inits m r xs = (concat (map (\<lambda>g. fst (init_effects m r g)) xs), None, xs)"
proof (induction xs)
  case Nil
  then show ?case by simp
next
  case (Cons g xs)
  then obtain regs_g where "init_effects m r g = (regs_g, None)"
    by (cases "init_effects m r g") auto
  with Cons show ?case by simp
qed


subsection \<open>Properties\<close>



end
