(* ===== verification/Spec2Isabelle.thy ===== *)
theory Spec2Isabelle
  imports Particles Typing Theme ContactForm ContactTimers Navigation Modal Debounce Notification Observers Page
begin

text \<open>
  \<^bold>\<open>A verification library for the portfolio page's script.\<close>

  The program is one browser script, \<^verbatim>\<open>src/portfolio/assets/js/script.js\<close>. On
  \<open>DOMContentLoaded\<close> it runs eleven \<open>init*\<close> functions in sequence (lines 5--18),
  each of which looks up elements of the page and registers event listeners or timers;
  two further \<open>DOMContentLoaded\<close> listeners install the resume download (lines
  630--632) and the hero reveal (lines 660--668). The components never call each
  other: they share only the DOM and the browser's single event queue, so each is
  modelled as its own state and its own handlers, and a run of a component is a list of
  the events the browser delivers to it, each handled to completion.

  \<^bold>\<open>Modelling conventions\<close> (theory \<open>Prelude\<close>).
  \<^item> JavaScript numbers: \<open>real\<close> where the code computes with fractions (particle
    positions; the claims are about the code's arithmetic, not IEEE rounding), \<open>int\<close>
    for counters the code may decrement past zero (\<open>charIndex\<close>), \<open>nat\<close> for pixel
    sizes and timer delays.
  \<^item> Strings are \<open>string\<close>; \<open>trim\<close>, \<open>substring\<close> and \<open>join\<close> are written out with
    their clamping and whitespace rules (\<open>js_trim\<close>, \<open>js_substring\<close>,
    \<open>js_join\<close>). Characters are 8-bit, so \<open>\s\<close> covers the whitespace below 256.
  \<^item> \<open>Math.random()\<close> is an input: a stream of reals (\<open>js_random\<close>), well-behaved
    when every value lies in \<open>[0, 1)\<close> (\<open>random_ok\<close>).
  \<^item> An exception escaping a listener is a value \<open>Inl e\<close> of \<open>js_result\<close>, with
    \<open>e\<close> a \<open>TypeError\<close>, \<open>ReferenceError\<close> or \<open>DOMException\<close> (\<open>js_error\<close>).
  \<^item> DOM state a component writes (attributes, classes, styles, text, storage) is a
    field of its record; what the markup fixes (whether an element exists) is a field
    that no operation changes.

  \<^bold>\<open>Components and theories.\<close>
  \<^descr>[\<open>Particles\<close>] \<open>initParticleBackground\<close> (lines 484--579): record
    \<open>particle_bg\<close> holds \<open>canvas.width/height\<close>, the overlay's style and the
    \<open>particles\<close> array; \<open>resizeCanvas\<close>, \<open>createParticle\<close> (five random draws),
    \<open>initParticles\<close> (the loop \<open>push_particles\<close>), \<open>updateParticle(s)\<close>,
    \<open>drawParticles\<close> (a display list of canvas calls: \<open>ClearRect\<close>, \<open>FillArc\<close>,
    \<open>StrokeLine\<close> with its alpha) and \<open>animate\<close> follow the inner functions;
    \<open>bg_step\<close>/\<open>bg_run\<close> deliver animation frames and window resizes.
    Lemmas: the reflection invariant \<open>axis_ok\<close> (a coordinate is at most one step
    outside its range and then moves back) is kept by every frame and re-established by
    every resize (\<open>bg_run_inv\<close>); creation lemmas for the loop; the count of drawn
    lines over the pairs \<open>i < j\<close> (\<open>ordered_pairs\<close>).
  \<^descr>[\<open>Typing\<close>] \<open>initTypingEffect\<close> (lines 73--113): record \<open>typing_state\<close> holds
    \<open>textIndex\<close>, \<open>charIndex\<close>, \<open>isDeleting\<close> and the element's
    \<open>textContent\<close>; \<open>typeText\<close> is one timer callback returning the next
    \<open>setTimeout\<close> delay; \<open>type_run n\<close> chains \<open>n\<close> callbacks and records what each
    displayed. Lemmas: one lemma per branch of the callback (\<open>typeText_up/top/down/
    bottom\<close>), the typing and deleting phases by induction, and the invariant
    \<open>typing_inv\<close>.
  \<^descr>[\<open>Theme\<close>] \<open>initThemeToggle\<close> (lines 353--391): record \<open>theme_page\<close> holds the
    \<open>data-theme\<close> attribute, \<open>localStorage\<close>, the icon class, the body transition and
    the pending 300 ms timers; \<open>theme_step\<close> handles a click or a timer. Lemmas: the
    invariant \<open>theme_inv\<close> and the storage agreement \<open>stored_ok\<close>.
  \<^descr>[\<open>Regex\<close>, \<open>ContactForm\<close>] \<open>initContactForm\<close> (lines 242--350): the
    e-mail \<open>RegExp\<close> is a regular expression (\<open>rexp\<close>) with its language
    \<open>lang\<close> and an executable Brzozowski-derivative matcher proved to accept exactly
    that language (\<open>matches_lang\<close>); \<open>validateForm\<close> builds the error list of the
    code; record \<open>contact_state\<close> holds the form values and defaults, the submit
    button and the pending timers of \<open>submitForm\<close>; \<open>contact_step\<close> handles edits,
    submissions (which the browser only delivers while the button is enabled) and the
    2 s timer, \<open>dispatch_run\<close> submissions a script dispatches regardless.
  \<^descr>[\<open>ContactTimers\<close>] the same submit handler with its 2000 ms
    \<open>setTimeout\<close> on the queue of \<open>Timers\<close>: record \<open>form_page\<close> holds the form,
    the button and the notifications shown with their times; \<open>submitForm_timed\<close>
    arms the timer, \<open>form_fire\<close> is its callback, \<open>form_step\<close>/\<open>form_run\<close>
    deliver edits, submits and waits. Lemmas: each timed step simulates a sequence of
    untimed \<open>contact_step\<close>s under the abstraction \<open>form_abs\<close>
    (\<open>form_step_refines\<close>), and the exact outcome of a valid submission
    (\<open>valid_submission\<close>).
  \<^descr>[\<open>Navigation\<close>] \<open>initNavigation\<close>, \<open>initMobileMenu\<close>,
    \<open>initScrollToTop\<close>, \<open>initParallaxEffects\<close> (lines 21--70, 394--481):
    sections (\<open>section_box\<close>) and link \<open>href\<close>s are inputs; \<open>active_section\<close>
    is the loop of lines 44--51, \<open>scroll_event\<close> the four scroll listeners,
    \<open>scroll_target\<close> the smooth-scroll target of a link, with the document's
    \<open>querySelector\<close> an input that may throw (an \<open>href\<close> that is not a valid
    selector raises a \<open>SyntaxError\<close>); record \<open>menu_state\<close> holds
    the hamburger and menu classes and the bars' styles, \<open>menu_step\<close> the two click
    listeners. Lemmas: the last matching section wins (\<open>foldl_last_match\<close>), and in
    ordered sections at most one matches (\<open>filter_in_section_single\<close>).
  \<^descr>[\<open>Modal\<close>] \<open>initProjectModals\<close> (lines 146--239): \<open>projectData\<close> as a
    map from the attribute strings, looked up as JavaScript does, through
    \<open>Object.prototype\<close> (\<open>project_lookup\<close>: an inherited key such as
    \<open>constructor\<close> clears the title and description, then throws in
    \<open>showModal_inherited\<close>); record \<open>modal_state\<close> holds display, body
    overflow, the content written by \<open>showModal\<close> and the exceptions reported;
    \<open>modal_step\<close> handles the
    card, close-button, backdrop and \<open>Escape\<close> listeners.
  \<^descr>[\<open>Timers\<close>] the browser's \<open>setTimeout\<close>/\<open>clearTimeout\<close> and event loop, the
    environment of the two timer clients below (host semantics, not repository code):
    record \<open>timer_queue\<close> holds the clock, the pending timers sorted by (due time,
    handle) and the next handle; \<open>run_until\<close> runs the due timers in order. Lemmas:
    the queue invariant \<open>queue_inv\<close>, the order in which timers fire
    (\<open>timers_fire_in_order\<close>), and \<open>run_until_inv\<close>, which gives termination and an
    invariant of the result whenever the callbacks decrease a weight of the queue.
  \<^descr>[\<open>Debounce\<close>] \<open>debounce\<close> and the debounced scroll listener (lines 635--652):
    record \<open>debounce_state\<close> holds the closure's \<open>timeout\<close> and the calls \<open>func\<close>
    received; \<open>executedFunction\<close> and \<open>later\<close> act on the timer queue;
    \<open>deb_run\<close> delivers timed calls and pauses. Lemmas: the single-timer invariant
    \<open>deb_inv\<close>, the counting invariant \<open>deb_count\<close>, and the burst lemmas
    (\<open>pending_step\<close>, \<open>pending_fire\<close>, \<open>burst_run\<close>).
  \<^descr>[\<open>Notification\<close>] \<open>showNotification\<close> (lines 314--349): record
    \<open>notif_state\<close> holds the created elements with their inline styles, the body's
    children and the exceptions the host reported; the slide-in, slide-out and removal
    callbacks run on the timer queue. Lemmas: the invariant \<open>notif_inv\<close> (a pending
    removal's node is in the body, once) kept by \<open>showNotification\<close> and every
    callback.
  \<^descr>[\<open>Observers\<close>] \<open>initScrollAnimations\<close> and \<open>initSkillBars\<close> (lines 116--143,
    414--430) and the load-time listeners (lines 655--668): the page as a list of
    elements (\<open>dom_el\<close>), record \<open>observer_page\<close> with the observed targets; both
    callbacks on batches of entries. The CSSOM parser of \<open>style.width\<close> is an input
    \<open>css\<close> (\<open>None\<close> for a value it rejects, which leaves the old width;
    otherwise the normalised value), used by \<open>css_width\<close>. Lemmas: per-element
    effects of each callback on a run of batches.
  \<^descr>[\<open>Page\<close>] the start-up listeners (lines 5--18, 582--632): record
    \<open>page_markup\<close> says which looked-up elements exist; \<open>init_effects\<close> gives the
    listeners, timers and observers each \<open>init*\<close> function registers before it
    returns or throws (the particle background through \<open>initParticleBackground\<close>;
    the theme toggle throws a \<open>SecurityError\<close> when storage is denied,
    \<open>pm_storage\<close>); \<open>run_inits\<close>/\<open>dom_ready\<close> stop at the first exception;
    \<open>resume_click\<close> is the resume button's listener, whose \<open>showNotification\<close> is
    not in scope at line 581. Lemmas: \<open>run_inits_prefix\<close>, \<open>run_inits_all\<close> and
    \<open>run_inits_outcome\<close>.

  \<^bold>\<open>Properties\<close> (claims C1--C28 in the component theories, C29 and C30 below).
  \<^item> Particles: the 50-particle count and the quarter-pixel bound under any frames
    and resizes (C1, invariant); frames preserve speeds (C2); a concrete run where the
    first frame leaves particles outside \<open>[0, width)\<close>, against the specification
    (C3); a resize regenerates all particles inside the new canvas (C4); line opacity in
    \<open>(0, 1]\<close> (C5) and the display list size bound \<open>1 + n + n(n-1)/2\<close> (C6).
  \<^item> Typing: one cycle per text in exactly \<open>2 * length\<close> callbacks (C7); the timer
    chain never throws and the tagline is always a prefix of the current text (C8).
  \<^item> Theme: the stored theme survives a reload (C9, round trip); the icon always
    matches the theme (C10); toggling twice restores dark/light, but not an unknown
    stored value (C11).
  \<^item> Contact form: the regular-expression test equals the described address shape
    (C12, refinement of the executable matcher to the pattern's language); the exact
    acceptance condition of \<open>validateForm\<close> (C13); the submit button is always
    restored under user events (C14); two dispatched submits leave it labelled
    \<open>Sending...\<close> for good (C15); the timed handler on the timer queue refines the
    untimed model (C16, refinement).
  \<^item> Page: \<open>DOMContentLoaded\<close> runs a prefix of the \<open>init*\<close> functions, stops at
    the first exception and keeps the listeners registered before it (C17, error).
  \<^item> Navigation: in ordered sections the highlighted link is that of the section
    holding the scroll position (C18); with no such section a link to \<open>#\<close> is
    highlighted (C19); the menu's classes and bars always agree and a link click closes
    it, even when \<open>querySelector\<close> throws (C20).
  \<^item> Modal: scrolling is locked exactly while the overlay is shown (C21).
  \<^item> Debounce: at most one pending timer under any calls (C22); trailing-edge
    behaviour of a burst, one call with the last arguments \<open>wait\<close> ms after it (C23);
    never more calls than invocations (C24).
  \<^item> Notifications: \<open>removeChild\<close> never throws (C25); the 100 ms / 5000 ms / 5300 ms
    life of a notification, with its class, text and colour (C26).
  \<^item> Observers: an element is revealed exactly when it matches the selectors and was
    seen intersecting (C27); skill bars take the parsed \<open>data-width\<close>, or keep their
    width when the parser rejects it (C28).
  \<^item> Timers across components: the debounce and notification timer loops return from
    every state (C29, termination).
  \<^item> Contact form and notifications together: a valid submission keeps the button
    disabled for 2000 ms, then shows the green success message, which is in the body
    for exactly 5.3 s (C30).

  \<^bold>\<open>Loops and fuel.\<close> The animation and typing loops never end; they are modelled by
  runs over a finite list of events (\<open>bg_run\<close>, \<open>theme_run\<close>, \<open>contact_run\<close>)
  or a number of callbacks (\<open>type_run\<close>), and the claims quantify over every length,
  so no fuel bound is needed. The particle creation loop runs \<open>particleCount = 50\<close>
  times by structural recursion. The host's timer loop \<open>run_until\<close> is a
  \<open>partial_function (option)\<close>, because a callback may re-arm itself forever; it is
  proved to return for the page's callbacks by a weight on the queue (1 per pending
  debounce or notification timer, 2 for a slide-out, which schedules the removal), and
  the claims state that it returns (C16, C25, C29, C30) rather than assuming it; the
  contact form's timer has weight 1, since its callback arms nothing.

  \<^bold>\<open>Not modelled.\<close> Layout: when the browser delivers scroll events and observer
  entries, section geometry and intersection ratios are inputs of the model, not
  computed. Drawing itself (pixels of the canvas) and the markup are out of scope; the
  start-up model records which handlers are registered, and each component theory
  models what those handlers then do. The document's \<open>querySelector\<close> and the
  CSSOM value parser are inputs (functions the claims quantify over), not
  implementations of the selector and CSS grammars. Notifications shown by the timed
  contact form are logged with their times (\<open>fp_shown\<close>) and replayed into the
  notification model, rather than sharing one queue.
\<close>

section \<open>Properties of the page as a whole\<close>

text \<open>
  C29. Termination of the page's timer callbacks: whatever state the timer queue is in
  (not only the reachable ones) and whatever calls and pauses follow, letting time pass
  always returns, both for the debounced scroll handler's timers and for the
  notification timers, although the host's loop \<open>run_until\<close> is a partial function.
\<close>

theorem timer_loops_return:
  "(\<exists>y. deb_run wait sq es = Some y) \<and> (\<exists>y. notif_run nq ns = Some y)"
proof
  show "\<exists>y. deb_run wait sq es = Some y"
  proof (induction es arbitrary: sq)
    case (Cons e es)
    obtain y where "deb_step wait sq e = Some y" using deb_step_terminates by blast
    with Cons.IH [of y] show ?case by simp
  qed simp
  show "\<exists>y. notif_run nq ns = Some y"
  proof (induction ns arbitrary: nq)
    case (Cons e ns)
    obtain y where "notif_step nq e = Some y" using notif_step_terminates by blast
    with Cons.IH [of y] show ?case by simp
  qed simp
qed

text \<open>
  C30. The contact form and the notifications together, with the form's 2 s timer on the
  browser's queue: a valid form submitted at time \<open>s\<close> keeps its button disabled for
  exactly 2000 ms, when the timer shows one notification, the green success message;
  fed at the time the form model computed for it to the notification timers, it is in
  the body exactly from \<open>s + 2000\<close> until \<open>s + 7300\<close>.
\<close>

theorem submit_notification_lifecycle:
  assumes "fst (validateForm d)"
  shows "\<exists>w. form_run (form_start d0 label) [FormEdit s d, FormSubmit s, FormWait (s + k)] = Some w
     \<and> fp_disabled (fst w) = (k < 2000)
     \<and> fp_shown (fst w) = (if k < 2000 then [] else [(s + 2000, Notification ''Message sent successfully!'' ''success'')])
     \<and> (\<exists>y. notif_run notif_start (map (\<lambda>(t, n). Show t n) (fp_shown (fst w)) @ [Wait (s + k)]) = Some y
          \<and> nt_body (fst y) = (if 2000 \<le> k \<and> k < 7300 then [0] else [])
          \<and> (2000 \<le> k \<longrightarrow> map_of (nel_style (nt_nodes (fst y) ! 0)) ''backgroundColor'' = Some ''#00ff88''))"
proof -
  obtain w where run: "form_run (form_start d0 label) [FormEdit s d, FormSubmit s, FormWait (s + k)] = Some w"
    and dis: "fp_disabled (fst w) = (k < 2000)"
    and shown: "fp_shown (fst w) = (if k < 2000 then [] else [(s + 2000, Notification ''Message sent successfully!'' ''success'')])"
    using valid_submission [OF assms, of d0 label s k] by blast
  have "\<exists>y. notif_run notif_start (map (\<lambda>(t, n). Show t n) (fp_shown (fst w)) @ [Wait (s + k)]) = Some y
          \<and> nt_body (fst y) = (if 2000 \<le> k \<and> k < 7300 then [0] else [])
          \<and> (2000 \<le> k \<longrightarrow> map_of (nel_style (nt_nodes (fst y) ! 0)) ''backgroundColor'' = Some ''#00ff88'')"
  proof (cases "k < 2000")
    case True
    then show ?thesis
      by (simp add: shown notif_start_def timers_empty_def run_until.simps pop_timer_def)
  next
    case False
    then have sk: "s + k = s + 2000 + (k - 2000)" by simp
    obtain y where y: "notif_run notif_start [Show (s + 2000) (Notification ''Message sent successfully!'' ''success''),
          Wait (s + 2000 + (k - 2000))] = Some y"
      and body: "nt_body (fst y) = (if k - 2000 < 5300 then [0] else [])"
      and node: "nt_nodes (fst y) ! 0 = \<lparr>nel_className = ''notification notification-success'',
          nel_text = ''Message sent successfully!'', nel_style = AList.update ''transform''
            (if 100 \<le> k - 2000 \<and> k - 2000 < 5000 then ''translateX(0)'' else ''translateX(400px)'')
            (notification_style ''success'')\<rparr>"
      using notification_phases [of "s + 2000" "''Message sent successfully!''" "''success''" "k - 2000"] by auto
    have y': "notif_run notif_start [Show (s + 2000) (Notification ''Message sent successfully!'' ''success''),
          Wait (s + k)] = Some y"
      by (subst sk) (rule y)
    show ?thesis
      using False unfolding shown
      by (simp add: y' body node notification_style_def del: notif_run.simps) arith
  qed
  with run dis shown show ?thesis by blast
qed

theorem submit_notification_lifecycle_witness:
  "\<exists>w. form_run (form_start \<lparr>fd_name = [], fd_email = [], fd_subject = [], fd_message = []\<rparr> ''Send Message'')
        [FormEdit 0 \<lparr>fd_name = ''Ann'', fd_email = ''a@b.co'', fd_subject = ''Hi'', fd_message = ''Text''\<rparr>,
         FormSubmit 0, FormWait (0 + 3000)] = Some w
     \<and> \<not> fp_disabled (fst w)
     \<and> (\<exists>y. notif_run notif_start (map (\<lambda>(t, n). Show t n) (fp_shown (fst w)) @ [Wait (0 + 3000)]) = Some y
          \<and> nt_body (fst y) = [0])"
proof -
  have "fst (validateForm \<lparr>fd_name = ''Ann'', fd_email = ''a@b.co'', fd_subject = ''Hi'', fd_message = ''Text''\<rparr>)"
    by (simp add: validateForm_def validation_errors_def js_trim_def isValidEmail_def matches_def
        email_regex_def plus_def email_char_def js_is_space_def)
  from submit_notification_lifecycle [OF this, of "\<lparr>fd_name = [], fd_email = [], fd_subject = [], fd_message = []\<rparr>"
      "''Send Message''" 0 3000]
  show ?thesis by (auto simp del: form_run.simps notif_run.simps)
qed

end
